theory Spec2Isabelle
  imports Complex_Main
begin

section \<open>The volestipy wrapper (dingo/volestipy.pyx)\<close>

text \<open>
  The wrapper is a Cython class \<open>HPolytope\<close> around the C++ class \<open>HPolytopeCPP\<close>
  declared in \<open>bindings.h\<close>, together with two Python collaborators
  (\<open>slow_inner_ball\<close>, and \<open>fast_inner_ball\<close> when gurobipy can be imported).
  The C++ class and the inner-ball functions are not part of the wrapper: they are
  parameters of the model. Everything the wrapper itself does is written out:
  the allocations of numpy arrays, the calls it makes and their order, the checks of
  the method strings and the exceptions it raises.
\<close>

subsection \<open>Strings and bytes\<close>

text \<open>
  A Python \<open>str\<close> is a list of code points below 256 (a \<open>string\<close>); \<open>bytes\<close> are a
  \<open>string\<close> as well. \<open>s.encode("UTF-8")\<close> keeps a code point below 128 and writes
  the others as two bytes.
\<close>

definition encode_char :: "char \<Rightarrow> string" where
  "encode_char c =
     (let n = (of_char c :: nat)
      in if n < 128 then [c] else [char_of (192 + n div 64), char_of (128 + n mod 64)])"

definition encode_UTF8 :: "string \<Rightarrow> string" where
  "encode_UTF8 s = concat (map encode_char s)"

subsection \<open>Exceptions\<close>

datatype error =
    Exception_volume_method string
      \<comment> \<open>line 122: \<open>Exception('"{}" is not implemented to compute volume. ...')\<close>,
          carrying the encoded method\<close>
  | Exception_walk_method string
      \<comment> \<open>line 120: \<open>Exception('"{}" is not implemented to walk methods. ...')\<close>\<close>
  | RuntimeError string
      \<comment> \<open>lines 153 and 189\<close>
  | NameError string
      \<comment> \<open>a call of \<open>fast_inner_ball\<close> when the guarded import (lines 29-33) failed\<close>
  | ValueError string
      \<comment> \<open>\<open>np.zeros\<close> with a negative dimension\<close>
  | CppException
      \<comment> \<open>an exception of the C++ constructor, declared \<open>except +\<close>\<close>
  | OverflowError
      \<comment> \<open>a Python integer that does not fit the C integer it is converted to\<close>

text \<open>
  The specification's error class \<open>UnsupportedMethod\<close> stands for the exceptions the
  wrapper raises on a method string it does not know.
\<close>

fun UnsupportedMethod :: "error \<Rightarrow> bool" where
  "UnsupportedMethod (Exception_volume_method m) = True"
| "UnsupportedMethod (Exception_walk_method m) = True"
| "UnsupportedMethod (RuntimeError m) =
     (m = ''Uknown MCMC sampling method'' \<or> m = ''Uknown rounding method'')"
| "UnsupportedMethod (NameError m) = False"
| "UnsupportedMethod (ValueError m) = False"
| "UnsupportedMethod CppException = False"
| "UnsupportedMethod OverflowError = False"

text \<open>
  Cython converts a Python integer to a C \<open>int\<close> or to \<open>npy_int32\<close> where the code
  hands one to a parameter or a variable of that type, and raises \<open>OverflowError\<close>
  when the integer is outside the 32 bits of the type.
\<close>

definition in_int32 :: "int \<Rightarrow> bool" where
  "in_int32 x = (- 2147483648 \<le> x \<and> x < 2147483648)"

subsection \<open>Arrays, the store and the trace of calls\<close>

text \<open>
  A numpy array of doubles is a buffer in the store and a shape. A typed memoryview
  \<open>double[:,::1]\<close> or \<open>double[::1]\<close> is the address of the buffer with the shape;
  \<open>np.asarray\<close> of a memoryview is a view of the same buffer. Doubles are reals: the
  wrapper only moves them, and compares one of them with 1.0 and 2.0. (A NaN, which
  fails both comparisons, and the infinities are not among the reals.)
\<close>

type_synonym addr = nat

record memview2 =
  data2 :: addr
  shape0 :: nat
  shape1 :: nat

record memview1 =
  data1 :: addr
  len1 :: nat

type_synonym matrix_val = "nat \<times> nat \<times> real list"
type_synonym vector_val = "nat \<times> real list"

datatype supplier = Fast | Slow

text \<open>
  The calls the wrapper makes to its collaborators, with the arguments it passes and
  what comes back where the wrapper uses it.
\<close>

datatype event =
    Call_HPolytopeCPP "real list" "real list" int int
  | Call_inner_ball supplier matrix_val vector_val "real list" real
  | Call_compute_volume string string int real int
  | Call_apply_sampling int int int int "real list" real
  | Call_apply_rounding int "real list" real
  | Call_mmcs_initialize nat int int int int
  | Call_mmcs_step "real list" real real int
  | Call_get_polytope_as_matrices matrix_val vector_val
  | Call_get_mmcs_samples

record world =
  heap :: "real list list"
  trace :: "event list"
  wall_clock :: real

definition log_call :: "event \<Rightarrow> world \<Rightarrow> world" where
  "log_call e w = w\<lparr>trace := trace w @ [e]\<rparr>"

definition read2 :: "world \<Rightarrow> memview2 \<Rightarrow> matrix_val" where
  "read2 w A = (shape0 A, shape1 A, heap w ! data2 A)"

definition read1 :: "world \<Rightarrow> memview1 \<Rightarrow> vector_val" where
  "read1 w b = (len1 b, heap w ! data1 b)"

text \<open>\<open>np.zeros\<close>: a fresh buffer of zeros at the next free address.\<close>

definition np_zeros_2d :: "nat \<Rightarrow> nat \<Rightarrow> world \<Rightarrow> memview2 \<times> world" where
  "np_zeros_2d m n w =
     (\<lparr>data2 = length (heap w), shape0 = m, shape1 = n\<rparr>,
      w\<lparr>heap := heap w @ [replicate (m * n) 0]\<rparr>)"

definition np_zeros_1d :: "nat \<Rightarrow> world \<Rightarrow> memview1 \<times> world" where
  "np_zeros_1d n w =
     (\<lparr>data1 = length (heap w), len1 = n\<rparr>, w\<lparr>heap := heap w @ [replicate n 0]\<rparr>)"

text \<open>With a dimension that comes from a Python or C integer, which may be negative.\<close>

definition np_zeros_2d_int :: "int \<Rightarrow> int \<Rightarrow> world \<Rightarrow> error + memview2 \<times> world" where
  "np_zeros_2d_int m n w =
     (if m < 0 \<or> n < 0 then Inl (ValueError ''negative dimensions are not allowed'')
      else Inr (np_zeros_2d (nat m) (nat n) w))"

text \<open>
  The C++ side writes its results through a pointer to the first element of a buffer
  the wrapper allocated: it overwrites the front of the buffer and cannot change its
  size.
\<close>

definition overwrite :: "real list \<Rightarrow> real list \<Rightarrow> real list" where
  "overwrite old new = take (length old) new @ drop (length new) old"

definition poke :: "addr \<Rightarrow> real list \<Rightarrow> world \<Rightarrow> world" where
  "poke a out w = w\<lparr>heap := (heap w)[a := overwrite (heap w ! a) out]\<rparr>"

subsection \<open>The collaborators\<close>

text \<open>
  The methods of \<open>HPolytopeCPP\<close> (lines 51-77). \<open>'c\<close> is the state of the C++ object;
  every method may change it. A pointer the wrapper passes for reading is the contents
  of the buffer; a pointer it passes for writing is a list that comes back and is
  written into the buffer. Only the constructor is declared \<open>except +\<close>.
  \<open>mmcs_step\<close> gets \<open>N_samples\<close> by reference: the model takes the number the step
  wrote. The integers a caller passes are Python's, without bound; the wrapper
  converts them where it hands them to the C++ side, and the conversion fails outside
  the range of the C type. The shape of an array in the store is taken to fit the C
  integers of the C++ side, and the memory \<open>np.zeros\<close> can get is not bounded.

  The inner-ball functions are Python functions of the two arrays: they get the
  contents of the arrays and return a point and a radius.
\<close>

record 'c bindings =
  cpp_HPolytopeCPP :: "real list \<Rightarrow> real list \<Rightarrow> int \<Rightarrow> int \<Rightarrow> 'c option"
  cpp_compute_volume :: "'c \<Rightarrow> string \<Rightarrow> string \<Rightarrow> int \<Rightarrow> real \<Rightarrow> int \<Rightarrow> real \<times> 'c"
  cpp_apply_sampling ::
    "'c \<Rightarrow> int \<Rightarrow> int \<Rightarrow> int \<Rightarrow> int \<Rightarrow> real list \<Rightarrow> real \<Rightarrow> real list \<times> 'c"
  cpp_mmcs_initialize :: "'c \<Rightarrow> nat \<Rightarrow> int \<Rightarrow> int \<Rightarrow> int \<Rightarrow> int \<Rightarrow> 'c"
  cpp_mmcs_step :: "'c \<Rightarrow> real list \<Rightarrow> real \<Rightarrow> real \<times> int \<times> 'c"
  cpp_get_mmcs_samples :: "'c \<Rightarrow> (real list \<times> real list \<times> real list) \<times> 'c"
  cpp_get_polytope_as_matrices :: "'c \<Rightarrow> (real list \<times> real list) \<times> 'c"
  cpp_apply_rounding ::
    "'c \<Rightarrow> int \<Rightarrow> real list \<Rightarrow> real \<Rightarrow>
       (real list \<times> real list \<times> real list \<times> real list \<times> real) \<times> 'c"

type_synonym inner_ball = "matrix_val \<Rightarrow> vector_val \<Rightarrow> real list \<times> real"

subsection \<open>The module\<close>

text \<open>
  What importing the module leaves behind: the collaborators it found
  (\<open>fast_inner_ball\<close> is missing when \<open>import gurobipy\<close> fails), and the default of
  \<open>compute_volume\<close>'s parameter \<open>seed\<close>, which is the value \<open>get_time_seed()\<close> had
  when the \<open>def\<close> was executed. The parameter is declared \<open>np.npy_int32\<close> (line 111),
  so the default is converted when the \<open>def\<close> is executed: the import fails with
  \<open>OverflowError\<close> when the seconds of the clock do not fit 32 bits.
\<close>

record 'c volestipy =
  cpp :: "'c bindings"
  slow_inner_ball :: inner_ball
  fast_inner_ball :: "inner_ball option"
  seed_default :: int

text \<open>\<open>int(time.time())\<close>: Python's \<open>int\<close> of a float truncates towards zero.\<close>

definition get_time_seed :: "world \<Rightarrow> int" where
  "get_time_seed w = (if 0 \<le> wall_clock w then \<lfloor>wall_clock w\<rfloor> else \<lceil>wall_clock w\<rceil>)"

definition import_volestipy ::
  "'c bindings \<Rightarrow> inner_ball \<Rightarrow> inner_ball option \<Rightarrow> world \<Rightarrow> error + 'c volestipy" where
  "import_volestipy core slow fast w =
     (let seed = get_time_seed w
      in if in_int32 seed then
           Inr \<lparr>cpp = core, slow_inner_ball = slow, fast_inner_ball = fast,
                seed_default = seed\<rparr>
         else Inl OverflowError)"

definition volume_methods :: "string list" where
  "volume_methods =
     [encode_UTF8 ''sequence_of_balls'', encode_UTF8 ''cooling_gaussian'',
      encode_UTF8 ''cooling_balls'']"

definition walk_methods :: "string list" where
  "walk_methods =
     [encode_UTF8 ''uniform_ball'', encode_UTF8 ''CDHR'', encode_UTF8 ''RDHR'',
      encode_UTF8 ''gaussian_ball'', encode_UTF8 ''gaussian_CDHR'',
      encode_UTF8 ''gaussian_RDHR'', encode_UTF8 ''uniform_ball'',
      encode_UTF8 ''billiard'']"

definition rounding_methods :: "string list" where
  "rounding_methods =
     [encode_UTF8 ''min_ellipsoid'', encode_UTF8 ''svd'', encode_UTF8 ''max_ellipsoid'']"

definition call_fast_inner_ball ::
  "'c volestipy \<Rightarrow> memview2 \<Rightarrow> memview1 \<Rightarrow> world \<Rightarrow> error + (real list \<times> real) \<times> world" where
  "call_fast_inner_ball M A b w =
     (case fast_inner_ball M of
        None \<Rightarrow> Inl (NameError ''fast_inner_ball'')
      | Some f \<Rightarrow>
          (let (center, radius) = f (read2 w A) (read1 w b)
           in Inr ((center, radius),
                   log_call (Call_inner_ball Fast (read2 w A) (read1 w b) center radius) w)))"

definition call_slow_inner_ball ::
  "'c volestipy \<Rightarrow> memview2 \<Rightarrow> memview1 \<Rightarrow> world \<Rightarrow> (real list \<times> real) \<times> world" where
  "call_slow_inner_ball M A b w =
     (let (center, radius) = slow_inner_ball M (read2 w A) (read1 w b)
      in ((center, radius),
          log_call (Call_inner_ball Slow (read2 w A) (read1 w b) center radius) w))"

subsection \<open>The class HPolytope\<close>

record 'c HPolytope =
  polytope_cpp :: 'c
  self_A :: memview2
  self_b :: memview1

text \<open>
  \<open>__cinit__\<close> (lines 103-107). The arguments are typed memoryviews. The views are
  stored as they are, and the C++ constructor gets the two pointers and the shape of
  \<open>A\<close>.
\<close>

definition HPolytope_cinit ::
  "'c volestipy \<Rightarrow> memview2 \<Rightarrow> memview1 \<Rightarrow> world \<Rightarrow> (error + 'c HPolytope) \<times> world" where
  "HPolytope_cinit M A b w =
     (let n_hyperplanes = int (shape0 A);
          n_variables = int (shape1 A);
          w1 = log_call (Call_HPolytopeCPP (heap w ! data2 A) (heap w ! data1 b)
                 n_hyperplanes n_variables) w
      in case cpp_HPolytopeCPP (cpp M) (heap w ! data2 A) (heap w ! data1 b)
                n_hyperplanes n_variables of
           None \<Rightarrow> (Inl CppException, w1)
         | Some c \<Rightarrow> (Inr \<lparr>polytope_cpp = c, self_A = A, self_b = b\<rparr>, w1))"

text \<open>
  \<open>compute_volume\<close> (lines 110-122). \<open>seed\<close> is \<open>None\<close> when the caller leaves it out.
  A seed the caller passes is converted to \<open>npy_int32\<close> when the arguments are read,
  before the body runs; \<open>walk_len\<close> is converted to \<open>int\<close> where the C++ method is
  called (line 118), after the two checks of the method strings.
\<close>

definition seed_converts :: "int option \<Rightarrow> bool" where
  "seed_converts seed = (case seed of None \<Rightarrow> True | Some s \<Rightarrow> in_int32 s)"

definition compute_volume ::
  "'c volestipy \<Rightarrow> 'c HPolytope \<Rightarrow> int \<Rightarrow> real \<Rightarrow> string \<Rightarrow> string \<Rightarrow> int option \<Rightarrow> world \<Rightarrow>
     (error + real) \<times> 'c HPolytope \<times> world" where
  "compute_volume M P walk_len epsilon vol_method walk_method seed w =
     (if \<not> seed_converts seed then (Inl OverflowError, P, w)
      else
        (let seed = (case seed of None \<Rightarrow> seed_default M | Some s \<Rightarrow> s);
             vol_method = encode_UTF8 vol_method;
             walk_method = encode_UTF8 walk_method
         in if vol_method \<in> set volume_methods then
              if walk_method \<in> set walk_methods then
                if \<not> in_int32 walk_len then (Inl OverflowError, P, w)
                else
                  (let (volume, c) = cpp_compute_volume (cpp M) (polytope_cpp P)
                                       vol_method walk_method walk_len epsilon seed
                   in (Inr volume, P\<lparr>polytope_cpp := c\<rparr>,
                       log_call (Call_compute_volume vol_method walk_method walk_len epsilon seed)
                         w))
              else (Inl (Exception_walk_method walk_method), P, w)
            else (Inl (Exception_volume_method vol_method), P, w)))"

text \<open>
  \<open>generate_samples\<close> (lines 125-157). The array of samples is allocated and the inner
  ball is computed before the method string is looked at. \<open>walk_len\<close>,
  \<open>number_of_points\<close> and \<open>number_of_points_to_burn\<close> are converted to \<open>int\<close> where
  \<open>apply_sampling\<close> is called (lines 155-156), after all that.
\<close>

definition generate_samples_int_method :: "string \<Rightarrow> error + int" where
  "generate_samples_int_method method =
     (if method = ''cdhr'' then Inr 1
      else if method = ''rdhr'' then Inr 2
      else if method = ''billiard_walk'' then Inr 3
      else if method = ''ball_walk'' then Inr 4
      else if method = ''dikin_walk'' then Inr 5
      else if method = ''john_walk'' then Inr 6
      else if method = ''vaidya_walk'' then Inr 7
      else Inl (RuntimeError ''Uknown MCMC sampling method''))"

definition inner_ball_by_mode ::
  "'c volestipy \<Rightarrow> bool \<Rightarrow> memview2 \<Rightarrow> memview1 \<Rightarrow> world \<Rightarrow> error + (real list \<times> real) \<times> world" where
  "inner_ball_by_mode M fast_mode A b w =
     (if fast_mode then call_fast_inner_ball M A b w
      else Inr (call_slow_inner_ball M A b w))"

definition generate_samples ::
  "'c volestipy \<Rightarrow> 'c HPolytope \<Rightarrow> string \<Rightarrow> int \<Rightarrow> int \<Rightarrow> int \<Rightarrow> bool \<Rightarrow> world \<Rightarrow>
     (error + memview2) \<times> 'c HPolytope \<times> world" where
  "generate_samples M P method number_of_points number_of_points_to_burn walk_len fast_mode w =
     (let n_variables = shape1 (self_A P)
      in case np_zeros_2d_int number_of_points (int n_variables) w of
           Inl e \<Rightarrow> (Inl e, P, w)
         | Inr (samples, w1) \<Rightarrow>
             (case inner_ball_by_mode M fast_mode (self_A P) (self_b P) w1 of
                Inl e \<Rightarrow> (Inl e, P, w1)
              | Inr ((temp_center, radius), w2) \<Rightarrow>
                  (case generate_samples_int_method method of
                     Inl e \<Rightarrow> (Inl e, P, w2)
                   | Inr int_method \<Rightarrow>
                       if \<not> in_int32 walk_len \<or> \<not> in_int32 number_of_points \<or>
                          \<not> in_int32 number_of_points_to_burn
                       then (Inl OverflowError, P, w2)
                       else
                         (let (out, c) = cpp_apply_sampling (cpp M) (polytope_cpp P) walk_len
                                           number_of_points number_of_points_to_burn int_method
                                           temp_center radius;
                              w3 = log_call (Call_apply_sampling walk_len number_of_points
                                     number_of_points_to_burn int_method temp_center radius) w2
                          in (Inr samples, P\<lparr>polytope_cpp := c\<rparr>,
                              poke (data2 samples) out w3)))))"

text \<open>\<open>rounding\<close> (lines 161-193), with the same order of steps.\<close>

definition rounding_int_method :: "string \<Rightarrow> error + int" where
  "rounding_int_method rounding_method =
     (if rounding_method = ''john_position'' then Inr 1
      else if rounding_method = ''isotropic_position'' then Inr 2
      else if rounding_method = ''min_ellipsoid'' then Inr 3
      else Inl (RuntimeError ''Uknown rounding method''))"

type_synonym rounding_result = "memview2 \<times> memview1 \<times> memview2 \<times> memview1 \<times> real"

definition rounding ::
  "'c volestipy \<Rightarrow> 'c HPolytope \<Rightarrow> string \<Rightarrow> bool \<Rightarrow> world \<Rightarrow>
     (error + rounding_result) \<times> 'c HPolytope \<times> world" where
  "rounding M P rounding_method fast_mode w =
     (let n_hyperplanes = shape0 (self_A P);
          n_variables = shape1 (self_A P);
          (new_A, w1) = np_zeros_2d n_hyperplanes n_variables w;
          (new_b, w2) = np_zeros_1d n_hyperplanes w1;
          (T_matrix, w3) = np_zeros_2d n_variables n_variables w2;
          (shift, w4) = np_zeros_1d n_variables w3
      in case inner_ball_by_mode M fast_mode (self_A P) (self_b P) w4 of
           Inl e \<Rightarrow> (Inl e, P, w4)
         | Inr ((center, radius), w5) \<Rightarrow>
             (case rounding_int_method rounding_method of
                Inl e \<Rightarrow> (Inl e, P, w5)
              | Inr int_method \<Rightarrow>
                  (let ((A_out, b_out, T_out, shift_out, round_value), c) =
                         cpp_apply_rounding (cpp M) (polytope_cpp P) int_method center radius;
                       w6 = log_call (Call_apply_rounding int_method center radius) w5;
                       w7 = poke (data1 shift) shift_out
                              (poke (data2 T_matrix) T_out
                                 (poke (data1 new_b) b_out (poke (data2 new_A) A_out w6)))
                   in (Inr (new_A, new_b, T_matrix, shift, round_value),
                       P\<lparr>polytope_cpp := c\<rparr>, w7))))"

text \<open>
  The loop of \<open>fast_mmcs\<close> (lines 216-225) and of \<open>slow_mmcs\<close> (lines 254-263).
  \<open>while True\<close> has no bound, so the loop takes fuel: one unit for each call of
  \<open>mmcs_step\<close>, and \<open>None\<close> when the fuel runs out before the loop is left.
  It returns the \<open>N_samples\<close> that the last step wrote.
\<close>

definition fetch_polytope ::
  "'c volestipy \<Rightarrow> memview2 \<Rightarrow> memview1 \<Rightarrow> 'c \<Rightarrow> world \<Rightarrow> 'c \<times> world" where
  "fetch_polytope M new_A new_b c w =
     (let ((A_out, b_out), c1) = cpp_get_polytope_as_matrices (cpp M) c;
          w1 = poke (data1 new_b) b_out (poke (data2 new_A) A_out w)
      in (c1, log_call (Call_get_polytope_as_matrices (read2 w1 new_A) (read1 w1 new_b)) w1))"

fun fast_mmcs_loop ::
  "nat \<Rightarrow> 'c volestipy \<Rightarrow> memview2 \<Rightarrow> memview1 \<Rightarrow> real list \<Rightarrow> real \<Rightarrow> 'c \<Rightarrow> world \<Rightarrow>
     ((error + int) \<times> 'c \<times> world) option" where
  "fast_mmcs_loop 0 M new_A new_b inner_point_for_c radius c w = None"
| "fast_mmcs_loop (Suc fuel) M new_A new_b inner_point_for_c radius c w =
     (let (check, N_samples, c1) = cpp_mmcs_step (cpp M) c inner_point_for_c radius;
          w1 = log_call (Call_mmcs_step inner_point_for_c radius check N_samples) w
      in if check > 1 \<and> check < 2 then Some (Inr N_samples, c1, w1)
         else
           (let (c2, w2) = fetch_polytope M new_A new_b c1 w1
            in case call_fast_inner_ball M new_A new_b w2 of
                 Inl e \<Rightarrow> Some (Inl e, c2, w2)
               | Inr ((new_temp_c, radius'), w3) \<Rightarrow>
                   fast_mmcs_loop fuel M new_A new_b new_temp_c radius' c2 w3))"

fun slow_mmcs_loop ::
  "nat \<Rightarrow> 'c volestipy \<Rightarrow> memview2 \<Rightarrow> memview1 \<Rightarrow> real list \<Rightarrow> real \<Rightarrow> 'c \<Rightarrow> world \<Rightarrow>
     ((error + int) \<times> 'c \<times> world) option" where
  "slow_mmcs_loop 0 M new_A new_b inner_point_for_c radius c w = None"
| "slow_mmcs_loop (Suc fuel) M new_A new_b inner_point_for_c radius c w =
     (let (check, N_samples, c1) = cpp_mmcs_step (cpp M) c inner_point_for_c radius;
          w1 = log_call (Call_mmcs_step inner_point_for_c radius check N_samples) w
      in if check > 1 \<and> check < 2 then Some (Inr N_samples, c1, w1)
         else
           (let (c2, w2) = fetch_polytope M new_A new_b c1 w1;
                ((new_temp_c, radius'), w3) = call_slow_inner_ball M new_A new_b w2
            in slow_mmcs_loop fuel M new_A new_b new_temp_c radius' c2 w3))"

text \<open>
  The loops are unfolded one call of \<open>mmcs_step\<close> at a time, where a proof asks
  for it.
\<close>

declare fast_mmcs_loop.simps [simp del] slow_mmcs_loop.simps [simp del]

type_synonym mmcs_result = "memview2 \<times> memview1 \<times> memview2 \<times> memview1 \<times> memview2"

definition bint :: "bool \<Rightarrow> int" where
  "bint x = (if x then 1 else 0)"

text \<open>
  \<open>fast_mmcs\<close> (lines 197-231). After the four allocations \<open>ess\<close> is converted to
  \<open>int\<close> (\<open>cdef int N_ess = ess\<close>, line 206), and \<open>ess\<close> and \<open>num_threads\<close> are
  converted where \<open>mmcs_initialize\<close> is called (line 210). After the loop the samples
  are allocated with the \<open>N_samples\<close> of the last step, then fetched with the
  transformation, and the polytope is fetched once more.
\<close>

definition fast_mmcs ::
  "nat \<Rightarrow> 'c volestipy \<Rightarrow> 'c HPolytope \<Rightarrow> int \<Rightarrow> bool \<Rightarrow> bool \<Rightarrow> int \<Rightarrow> world \<Rightarrow>
     ((error + mmcs_result) \<times> 'c HPolytope \<times> world) option" where
  "fast_mmcs fuel M P ess psrf_check parallelism num_threads w =
     (let n_hyperplanes = shape0 (self_A P);
          n_variables = shape1 (self_A P);
          (new_A, w1) = np_zeros_2d n_hyperplanes n_variables w;
          (new_b, w2) = np_zeros_1d n_hyperplanes w1;
          (T_matrix, w3) = np_zeros_2d n_variables n_variables w2;
          (T_shift, w4) = np_zeros_1d n_variables w3
      in if \<not> in_int32 ess then Some (Inl OverflowError, P, w4)
         else
           (let check_psrf = bint psrf_check;
                parallel = bint parallelism
            in if \<not> in_int32 ess \<or> \<not> in_int32 num_threads then Some (Inl OverflowError, P, w4)
               else
                 (let c = cpp_mmcs_initialize (cpp M) (polytope_cpp P) n_variables ess
                            check_psrf parallel num_threads;
                      w5 = log_call (Call_mmcs_initialize n_variables ess check_psrf parallel
                             num_threads) w4
                  in case call_fast_inner_ball M (self_A P) (self_b P) w5 of
                       Inl e \<Rightarrow> Some (Inl e, P\<lparr>polytope_cpp := c\<rparr>, w5)
                     | Inr ((temp_center, radius), w6) \<Rightarrow>
                         (case fast_mmcs_loop fuel M new_A new_b temp_center radius c w6 of
                            None \<Rightarrow> None
                          | Some (Inl e, c1, w7) \<Rightarrow> Some (Inl e, P\<lparr>polytope_cpp := c1\<rparr>, w7)
                          | Some (Inr N_samples, c1, w7) \<Rightarrow>
                              (case np_zeros_2d_int (int n_variables) N_samples w7 of
                                 Inl e \<Rightarrow> Some (Inl e, P\<lparr>polytope_cpp := c1\<rparr>, w7)
                               | Inr (samples, w8) \<Rightarrow>
                                   (let ((T_out, shift_out, samples_out), c2) =
                                          cpp_get_mmcs_samples (cpp M) c1;
                                        w9 = log_call Call_get_mmcs_samples
                                               (poke (data2 samples) samples_out
                                                  (poke (data1 T_shift) shift_out
                                                     (poke (data2 T_matrix) T_out w8)));
                                        (c3, w10) = fetch_polytope M new_A new_b c2 w9
                                    in Some (Inr (new_A, new_b, T_matrix, T_shift, samples),
                                             P\<lparr>polytope_cpp := c3\<rparr>, w10)))))))"

text \<open>
  \<open>slow_mmcs\<close> (lines 235-269), with \<open>cdef int N_ess = ess\<close> at line 244 and the call
  of \<open>mmcs_initialize\<close> at line 248.
\<close>

definition slow_mmcs ::
  "nat \<Rightarrow> 'c volestipy \<Rightarrow> 'c HPolytope \<Rightarrow> int \<Rightarrow> bool \<Rightarrow> bool \<Rightarrow> int \<Rightarrow> world \<Rightarrow>
     ((error + mmcs_result) \<times> 'c HPolytope \<times> world) option" where
  "slow_mmcs fuel M P ess psrf_check parallelism num_threads w =
     (let n_hyperplanes = shape0 (self_A P);
          n_variables = shape1 (self_A P);
          (new_A, w1) = np_zeros_2d n_hyperplanes n_variables w;
          (new_b, w2) = np_zeros_1d n_hyperplanes w1;
          (T_matrix, w3) = np_zeros_2d n_variables n_variables w2;
          (T_shift, w4) = np_zeros_1d n_variables w3
      in if \<not> in_int32 ess then Some (Inl OverflowError, P, w4)
         else
           (let check_psrf = bint psrf_check;
                parallel = bint parallelism
            in if \<not> in_int32 ess \<or> \<not> in_int32 num_threads then Some (Inl OverflowError, P, w4)
               else
                 (let c = cpp_mmcs_initialize (cpp M) (polytope_cpp P) n_variables ess
                            check_psrf parallel num_threads;
                      w5 = log_call (Call_mmcs_initialize n_variables ess check_psrf parallel
                             num_threads) w4;
                      ((temp_center, radius), w6) =
                        call_slow_inner_ball M (self_A P) (self_b P) w5
                  in case slow_mmcs_loop fuel M new_A new_b temp_center radius c w6 of
                       None \<Rightarrow> None
                     | Some (Inl e, c1, w7) \<Rightarrow> Some (Inl e, P\<lparr>polytope_cpp := c1\<rparr>, w7)
                     | Some (Inr N_samples, c1, w7) \<Rightarrow>
                         (case np_zeros_2d_int (int n_variables) N_samples w7 of
                            Inl e \<Rightarrow> Some (Inl e, P\<lparr>polytope_cpp := c1\<rparr>, w7)
                          | Inr (samples, w8) \<Rightarrow>
                              (let ((T_out, shift_out, samples_out), c2) =
                                     cpp_get_mmcs_samples (cpp M) c1;
                                   w9 = log_call Call_get_mmcs_samples
                                          (poke (data2 samples) samples_out
                                             (poke (data1 T_shift) shift_out
                                                (poke (data2 T_matrix) T_out w8)));
                                   (c3, w10) = fetch_polytope M new_A new_b c2 w9
                               in Some (Inr (new_A, new_b, T_matrix, T_shift, samples),
                                        P\<lparr>polytope_cpp := c3\<rparr>, w10))))))"

text \<open>
  \<open>A()\<close>, \<open>b()\<close> and \<open>dimension()\<close> (lines 271-278): \<open>np.asarray\<close> of the stored views,
  read here as the values a caller sees in them.
\<close>

definition HPolytope_A :: "'c HPolytope \<Rightarrow> world \<Rightarrow> matrix_val" where
  "HPolytope_A P w = read2 w (self_A P)"

definition HPolytope_b :: "'c HPolytope \<Rightarrow> world \<Rightarrow> vector_val" where
  "HPolytope_b P w = read1 w (self_b P)"

definition HPolytope_dimension :: "'c HPolytope \<Rightarrow> nat" where
  "HPolytope_dimension P = shape1 (self_A P)"

subsection \<open>Classifying the calls\<close>

text \<open>
  The numerical work of the C++ side: volume estimation, sampling, rounding and the
  MMCS machinery. The inner-ball computation is a collaborator of its own.
\<close>

fun core_call :: "event \<Rightarrow> bool" where
  "core_call (Call_compute_volume vm wm wl eps seed) = True"
| "core_call (Call_apply_sampling wl n burn m p r) = True"
| "core_call (Call_apply_rounding m p r) = True"
| "core_call (Call_mmcs_initialize d ess ps par nt) = True"
| "core_call (Call_mmcs_step p r s n) = True"
| "core_call (Call_get_polytope_as_matrices A b) = True"
| "core_call Call_get_mmcs_samples = True"
| "core_call (Call_HPolytopeCPP A b m n) = False"
| "core_call (Call_inner_ball k A b p r) = False"

fun inner_ball_call :: "event \<Rightarrow> bool" where
  "inner_ball_call (Call_inner_ball k A b p r) = True"
| "inner_ball_call (Call_compute_volume vm wm wl eps seed) = False"
| "inner_ball_call (Call_apply_sampling wl n burn m p r) = False"
| "inner_ball_call (Call_apply_rounding m p r) = False"
| "inner_ball_call (Call_mmcs_initialize d ess ps par nt) = False"
| "inner_ball_call (Call_mmcs_step p r s n) = False"
| "inner_ball_call (Call_get_polytope_as_matrices A b) = False"
| "inner_ball_call Call_get_mmcs_samples = False"
| "inner_ball_call (Call_HPolytopeCPP A b m n) = False"

text \<open>The calls made since the world \<open>w\<close>, read off a later world \<open>w'\<close>.\<close>

definition calls_since :: "world \<Rightarrow> world \<Rightarrow> event list" where
  "calls_since w w' = drop (length (trace w)) (trace w')"

text \<open>The method codes handed to the C++ side, in the order of the calls.\<close>

fun rounding_codes :: "event list \<Rightarrow> int list" where
  "rounding_codes [] = []"
| "rounding_codes (Call_apply_rounding m p r # es) = m # rounding_codes es"
| "rounding_codes (e # es) = rounding_codes es"

fun sampling_codes :: "event list \<Rightarrow> int list" where
  "sampling_codes [] = []"
| "sampling_codes (Call_apply_sampling wl n burn m p r # es) = m # sampling_codes es"
| "sampling_codes (e # es) = sampling_codes es"

text \<open>
  The world after the four allocations that \<open>rounding\<close>, \<open>fast_mmcs\<close> and
  \<open>slow_mmcs\<close> start with, and the four arrays: \<open>new_A\<close>, \<open>new_b\<close>, \<open>T_matrix\<close> and
  the shift. \<open>generate_samples\<close> allocates the array of samples.
\<close>

definition outputs_allocated :: "'c HPolytope \<Rightarrow> world \<Rightarrow> world" where
  "outputs_allocated P w =
     snd (np_zeros_1d (shape1 (self_A P))
       (snd (np_zeros_2d (shape1 (self_A P)) (shape1 (self_A P))
         (snd (np_zeros_1d (shape0 (self_A P))
           (snd (np_zeros_2d (shape0 (self_A P)) (shape1 (self_A P)) w)))))))"

definition out_A :: "'c HPolytope \<Rightarrow> world \<Rightarrow> memview2" where
  "out_A P w =
     \<lparr>data2 = length (heap w), shape0 = shape0 (self_A P), shape1 = shape1 (self_A P)\<rparr>"

definition out_b :: "'c HPolytope \<Rightarrow> world \<Rightarrow> memview1" where
  "out_b P w = \<lparr>data1 = length (heap w) + 1, len1 = shape0 (self_A P)\<rparr>"

definition out_T :: "'c HPolytope \<Rightarrow> world \<Rightarrow> memview2" where
  "out_T P w =
     \<lparr>data2 = length (heap w) + 2, shape0 = shape1 (self_A P), shape1 = shape1 (self_A P)\<rparr>"

definition out_shift :: "'c HPolytope \<Rightarrow> world \<Rightarrow> memview1" where
  "out_shift P w = \<lparr>data1 = length (heap w) + 3, len1 = shape1 (self_A P)\<rparr>"

definition samples_allocated :: "'c HPolytope \<Rightarrow> int \<Rightarrow> world \<Rightarrow> world" where
  "samples_allocated P number_of_points w =
     snd (np_zeros_2d (nat number_of_points) (shape1 (self_A P)) w)"

subsection \<open>The stages of an MMCS run\<close>

text \<open>
  The two MMCS operations are read in stages: the allocations and \<open>mmcs_initialize\<close>,
  the first inner ball, the loop, and what follows the loop. These are the stages of
  the definitions above, named so that the proofs can speak of them.
\<close>

definition mmcs_ints_convert :: "int \<Rightarrow> int \<Rightarrow> bool" where
  "mmcs_ints_convert ess num_threads = (in_int32 ess \<and> in_int32 num_threads)"

definition mmcs_init_cpp :: "'c volestipy \<Rightarrow> 'c HPolytope \<Rightarrow> int \<Rightarrow> bool \<Rightarrow> bool \<Rightarrow> int \<Rightarrow> 'c" where
  "mmcs_init_cpp M P ess psrf_check parallelism num_threads =
     cpp_mmcs_initialize (cpp M) (polytope_cpp P) (shape1 (self_A P)) ess (bint psrf_check)
       (bint parallelism) num_threads"

definition mmcs_initialized :: "'c HPolytope \<Rightarrow> int \<Rightarrow> bool \<Rightarrow> bool \<Rightarrow> int \<Rightarrow> world \<Rightarrow> world" where
  "mmcs_initialized P ess psrf_check parallelism num_threads w =
     log_call (Call_mmcs_initialize (shape1 (self_A P)) ess (bint psrf_check) (bint parallelism)
                 num_threads)
       (outputs_allocated P w)"

definition mmcs_finish ::
  "'c volestipy \<Rightarrow> 'c HPolytope \<Rightarrow> memview2 \<Rightarrow> memview1 \<Rightarrow> memview2 \<Rightarrow> memview1 \<Rightarrow>
     (error + int) \<times> 'c \<times> world \<Rightarrow> (error + mmcs_result) \<times> 'c HPolytope \<times> world" where
  "mmcs_finish M P new_A new_b T_matrix T_shift r =
     (case r of
        (Inl e, c1, w7) \<Rightarrow> (Inl e, P\<lparr>polytope_cpp := c1\<rparr>, w7)
      | (Inr N_samples, c1, w7) \<Rightarrow>
          (case np_zeros_2d_int (int (shape1 (self_A P))) N_samples w7 of
             Inl e \<Rightarrow> (Inl e, P\<lparr>polytope_cpp := c1\<rparr>, w7)
           | Inr (samples, w8) \<Rightarrow>
               (let ((T_out, shift_out, samples_out), c2) = cpp_get_mmcs_samples (cpp M) c1;
                    w9 = log_call Call_get_mmcs_samples
                           (poke (data2 samples) samples_out
                              (poke (data1 T_shift) shift_out (poke (data2 T_matrix) T_out w8)));
                    (c3, w10) = fetch_polytope M new_A new_b c2 w9
                in (Inr (new_A, new_b, T_matrix, T_shift, samples),
                    P\<lparr>polytope_cpp := c3\<rparr>, w10))))"

text \<open>
  The calls of a completed loop that started with the point \<open>p\<close> and the radius \<open>r\<close>,
  followed by the calls \<open>tail\<close>: a step whose status lies strictly between 1 and 2 is
  the last step, and \<open>tail\<close> is what follows it; every other step is followed by the
  fetch of the polytope, the inner ball of what was fetched, and a step from the point
  and radius of that ball.
\<close>

inductive phase_trace ::
  "supplier \<Rightarrow> inner_ball \<Rightarrow> event list \<Rightarrow> real list \<times> real \<Rightarrow> event list \<Rightarrow> bool"
  for k :: supplier and f :: inner_ball and tail :: "event list" where
    last_phase:
      "1 < s \<Longrightarrow> s < 2 \<Longrightarrow> phase_trace k f tail (p, r) (Call_mmcs_step p r s n # tail)"
  | next_phase:
      "\<not> (1 < s \<and> s < 2) \<Longrightarrow> f A b = (p', r') \<Longrightarrow> phase_trace k f tail (p', r') rest \<Longrightarrow>
       phase_trace k f tail (p, r)
         (Call_mmcs_step p r s n # Call_get_polytope_as_matrices A b #
          Call_inner_ball k A b p' r' # rest)"

code_pred phase_trace .

text \<open>
  The calls of a whole MMCS run: \<open>mmcs_initialize\<close>, the inner ball of the stored
  polytope, the phases from the point and radius of that ball, and the tail: nothing
  when the run ended in an exception, else the fetch of the samples and of the final
  polytope.
\<close>

inductive mmcs_run_trace ::
  "supplier \<Rightarrow> inner_ball \<Rightarrow> event \<Rightarrow> event list \<Rightarrow> event list \<Rightarrow> bool"
  for k :: supplier and f :: inner_ball and init :: event and tail :: "event list" where
    run:
      "f A0 b0 = (p0, r0) \<Longrightarrow> phase_trace k f tail (p0, r0) rest \<Longrightarrow>
       mmcs_run_trace k f init tail (init # Call_inner_ball k A0 b0 p0 r0 # rest)"

code_pred mmcs_run_trace .

definition mmcs_tail :: "(error + mmcs_result) \<Rightarrow> 'c HPolytope \<Rightarrow> world \<Rightarrow> world \<Rightarrow> event list" where
  "mmcs_tail res P w w' =
     (if isl res then []
      else [Call_get_mmcs_samples,
            Call_get_polytope_as_matrices (read2 w' (out_A P w)) (read1 w' (out_b P w))])"

text \<open>The inner-ball functions called, in order.\<close>

fun suppliers :: "event list \<Rightarrow> supplier list" where
  "suppliers [] = []"
| "suppliers (Call_inner_ball k A b p r # es) = k # suppliers es"
| "suppliers (e # es) = suppliers es"

text \<open>
  Two worlds that differ at most in which inner-ball function the calls in their
  traces name, and two runs that end alike up to that.
\<close>

fun with_supplier :: "supplier \<Rightarrow> event \<Rightarrow> event" where
  "with_supplier k (Call_inner_ball k' A b p r) = Call_inner_ball k A b p r"
| "with_supplier k e = e"

definition same_but_supplier :: "world \<Rightarrow> world \<Rightarrow> bool" where
  "same_but_supplier w1 w2 =
     (heap w1 = heap w2 \<and> wall_clock w1 = wall_clock w2 \<and>
      map (with_supplier Slow) (trace w1) = map (with_supplier Slow) (trace w2))"

fun same_run :: "('r \<times> 'p \<times> world) option \<Rightarrow> ('r \<times> 'p \<times> world) option \<Rightarrow> bool" where
  "same_run None None = True"
| "same_run (Some (x1, P1, w1)) (Some (x2, P2, w2)) =
     (x1 = x2 \<and> P1 = P2 \<and> same_but_supplier w1 w2)"
| "same_run r1 r2 = False"

text \<open>
  Every array of the world \<open>w\<close> is still in the world \<open>w'\<close>, at its address and with
  its contents; and the object \<open>P\<close> has its two arrays in the world \<open>w\<close>.
\<close>

definition store_kept :: "world \<Rightarrow> world \<Rightarrow> bool" where
  "store_kept w w' = (take (length (heap w)) (heap w') = heap w)"

definition in_store :: "'c HPolytope \<Rightarrow> world \<Rightarrow> bool" where
  "in_store P w = (data2 (self_A P) < length (heap w) \<and> data1 (self_b P) < length (heap w))"

text \<open>The statuses that the calls of \<open>mmcs_step\<close> returned, in order.\<close>

fun step_statuses :: "event list \<Rightarrow> real list" where
  "step_statuses [] = []"
| "step_statuses (Call_mmcs_step p r s n # es) = s # step_statuses es"
| "step_statuses (e # es) = step_statuses es"

text \<open>
  The specification's reading of a status: converged strictly between 1 and 2,
  failed from 2 on and below 0.
\<close>

definition converged_status :: "real \<Rightarrow> bool" where
  "converged_status s = (1 < s \<and> s < 2)"

definition failed_status :: "real \<Rightarrow> bool" where
  "failed_status s = (2 \<le> s \<or> s < 0)"

text \<open>
  The state of a loop before a call of \<open>mmcs_step\<close>: the point and the radius the step
  will get, the C++ object and the world. The state before the first step of a run;
  the status the step of a state will report; the state before the next step, when
  the loop goes on, with the inner-ball function \<open>f\<close> called as \<open>k\<close>; and the state
  after \<open>n\<close> phases that did not end the loop. The loop converges within \<open>fuel\<close>
  phases when one of its first \<open>fuel\<close> steps reports a status strictly between 1
  and 2.
\<close>

type_synonym 'c phase_state = "real list \<times> real \<times> 'c \<times> world"

definition mmcs_start ::
  "supplier \<Rightarrow> inner_ball \<Rightarrow> 'c volestipy \<Rightarrow> 'c HPolytope \<Rightarrow> int \<Rightarrow> bool \<Rightarrow> bool \<Rightarrow> int \<Rightarrow> world \<Rightarrow>
     'c phase_state" where
  "mmcs_start k f M P ess psrf_check parallelism num_threads w =
     (let w5 = mmcs_initialized P ess psrf_check parallelism num_threads w;
          (p0, r0) = f (read2 w5 (self_A P)) (read1 w5 (self_b P))
      in (p0, r0, mmcs_init_cpp M P ess psrf_check parallelism num_threads,
          log_call (Call_inner_ball k (read2 w5 (self_A P)) (read1 w5 (self_b P)) p0 r0) w5))"

definition phase_status :: "'c volestipy \<Rightarrow> 'c phase_state \<Rightarrow> real" where
  "phase_status M st = (case st of (p, r, c, w) \<Rightarrow> fst (cpp_mmcs_step (cpp M) c p r))"

definition next_phase_state ::
  "supplier \<Rightarrow> inner_ball \<Rightarrow> 'c volestipy \<Rightarrow> memview2 \<Rightarrow> memview1 \<Rightarrow> 'c phase_state \<Rightarrow>
     'c phase_state" where
  "next_phase_state k f M new_A new_b st =
     (case st of (p, r, c, w) \<Rightarrow>
        (let (check, N_samples, c1) = cpp_mmcs_step (cpp M) c p r;
             w1 = log_call (Call_mmcs_step p r check N_samples) w;
             (c2, w2) = fetch_polytope M new_A new_b c1 w1;
             (p', r') = f (read2 w2 new_A) (read1 w2 new_b)
         in (p', r', c2,
             log_call (Call_inner_ball k (read2 w2 new_A) (read1 w2 new_b) p' r') w2)))"

fun phase_state ::
  "supplier \<Rightarrow> inner_ball \<Rightarrow> 'c volestipy \<Rightarrow> memview2 \<Rightarrow> memview1 \<Rightarrow> nat \<Rightarrow> 'c phase_state \<Rightarrow>
     'c phase_state" where
  "phase_state k f M new_A new_b 0 st = st"
| "phase_state k f M new_A new_b (Suc n) st =
     phase_state k f M new_A new_b n (next_phase_state k f M new_A new_b st)"

definition converges_within ::
  "nat \<Rightarrow> supplier \<Rightarrow> inner_ball \<Rightarrow> 'c volestipy \<Rightarrow> memview2 \<Rightarrow> memview1 \<Rightarrow> 'c phase_state \<Rightarrow>
     bool" where
  "converges_within fuel k f M new_A new_b st =
     list_ex (\<lambda>n. converged_status (phase_status M (phase_state k f M new_A new_b n st)))
       [0..<fuel]"

text \<open>
  What a caller reads with \<open>A()\<close>, \<open>b()\<close> and \<open>dimension()\<close> is the same before (the
  object \<open>P\<close> in the world \<open>w\<close>) and after (\<open>P'\<close> in \<open>w'\<close>), and the two arrays are
  still in the store. An address is fresh for a world when no array of that world
  lives there.
\<close>

definition polytope_kept :: "'c HPolytope \<Rightarrow> world \<Rightarrow> 'c HPolytope \<Rightarrow> world \<Rightarrow> bool" where
  "polytope_kept P w P' w' =
     (HPolytope_A P' w' = HPolytope_A P w \<and> HPolytope_b P' w' = HPolytope_b P w \<and>
      HPolytope_dimension P' = HPolytope_dimension P \<and> in_store P' w')"

definition fresh :: "world \<Rightarrow> addr \<Rightarrow> bool" where
  "fresh w a = (length (heap w) \<le> a)"

subsection \<open>A small instance\<close>

text \<open>
  A C++ side whose state counts the MMCS phases done: the first step reports the
  status 3, the second 1/2, every later one 3/2, and after \<open>c\<close> phases the polytope
  is the interval \<open>[-(c+1), c+1]\<close>. The inner ball is the origin with the first
  entry of \<open>b\<close> as radius. The polytope of the store is the interval \<open>[-1, 1]\<close>; a
  third array of length 3 is in the store as well.
\<close>

definition demo_core :: "nat bindings" where
  "demo_core =
     \<lparr>cpp_HPolytopeCPP = (\<lambda>A b m n. Some 0),
      cpp_compute_volume = (\<lambda>c vm wm wl eps seed. (2, c)),
      cpp_apply_sampling = (\<lambda>c wl n burn m p r. (p, c)),
      cpp_mmcs_initialize = (\<lambda>c d ess ps par nt. 0),
      cpp_mmcs_step =
        (\<lambda>c p r. (if c = 0 then 3 else if c = 1 then 1 / 2 else 3 / 2, 2, Suc c)),
      cpp_get_mmcs_samples = (\<lambda>c. (([1], [0], [1 / 4, 3 / 4]), c)),
      cpp_get_polytope_as_matrices = (\<lambda>c. (([1, - 1], [real c + 1, real c + 1]), c)),
      cpp_apply_rounding = (\<lambda>c m p r. (([1, - 1], [1, 1], [1], [0], 1), c))\<rparr>"

definition demo_ball :: inner_ball where
  "demo_ball A b = (replicate (fst (snd A)) 0, (case snd b of [] \<Rightarrow> 0 | x # xs \<Rightarrow> x))"

definition demo_world :: world where
  "demo_world = \<lparr>heap = [[1, - 1], [1, 1], [1, 1, 1]], trace = [], wall_clock = 1000.5\<rparr>"

definition demo_A :: memview2 where
  "demo_A = \<lparr>data2 = 0, shape0 = 2, shape1 = 1\<rparr>"

definition demo_b :: memview1 where
  "demo_b = \<lparr>data1 = 1, len1 = 2\<rparr>"

definition demo_b3 :: memview1 where
  "demo_b3 = \<lparr>data1 = 2, len1 = 3\<rparr>"

text \<open>The module as the import at the clock of \<open>demo_world\<close> leaves it.\<close>

definition demo_module :: "nat volestipy" where
  "demo_module =
     \<lparr>cpp = demo_core, slow_inner_ball = demo_ball, fast_inner_ball = Some demo_ball,
      seed_default = 1000\<rparr>"

definition demo_module_no_gurobi :: "nat volestipy" where
  "demo_module_no_gurobi =
     \<lparr>cpp = demo_core, slow_inner_ball = demo_ball, fast_inner_ball = None,
      seed_default = 1000\<rparr>"

definition demo_P :: "nat HPolytope" where
  "demo_P = \<lparr>polytope_cpp = 0, self_A = demo_A, self_b = demo_b\<rparr>"

section \<open>Properties\<close>

subsection \<open>Encoding\<close>

lemma encode_char_ascii: "(of_char c :: nat) < 128 \<Longrightarrow> encode_char c = [c]"
  by (simp add: encode_char_def)

lemma encode_UTF8_Nil: "encode_UTF8 [] = []"
  by (simp add: encode_UTF8_def)

lemma encode_UTF8_Cons: "encode_UTF8 (c # s) = encode_char c @ encode_UTF8 s"
  by (simp add: encode_UTF8_def)

lemma encode_UTF8_ascii: "\<forall>c\<in>set s. (of_char c :: nat) < 128 \<Longrightarrow> encode_UTF8 s = s"
  by (induction s) (simp_all add: encode_UTF8_Nil encode_UTF8_Cons encode_char_ascii)

lemma encode_char_high:
  assumes "\<not> (of_char c :: nat) < 128"
  shows "\<exists>x y. encode_char c = [x, y] \<and> \<not> (of_char x :: nat) < 128"
proof -
  define x where "x = char_of (192 + (of_char c :: nat) div 64)"
  have "(of_char c :: nat) < 256" by simp
  then have "192 + (of_char c :: nat) div 64 < 256" by linarith
  then have "(of_char x :: nat) = 192 + of_char c div 64"
    by (simp add: x_def)
  then have "\<not> (of_char x :: nat) < 128" by linarith
  moreover have "encode_char c = [x, char_of (128 + (of_char c :: nat) mod 64)]"
    using assms by (simp add: encode_char_def x_def Let_def)
  ultimately show ?thesis by blast
qed

text \<open>Only an ASCII string encodes to an ASCII string, and then to itself.\<close>

lemma encode_UTF8_eq_ascii:
  "\<forall>c\<in>set t. (of_char c :: nat) < 128 \<Longrightarrow> encode_UTF8 s = t \<longleftrightarrow> s = t"
proof (induction s arbitrary: t)
  case Nil
  then show ?case by (auto simp: encode_UTF8_Nil)
next
  case (Cons c s)
  show ?case
  proof (cases "(of_char c :: nat) < 128")
    case True
    then show ?thesis using Cons.IH[of "tl t"] Cons.prems
      by (cases t) (auto simp: encode_UTF8_Cons encode_char_ascii)
  next
    case False
    then obtain x y where xy: "encode_char c = [x, y]" "\<not> (of_char x :: nat) < 128"
      using encode_char_high by blast
    then show ?thesis using Cons.prems False
      by (cases t) (auto simp: encode_UTF8_Cons)
  qed
qed

lemma in_volume_methods:
  "encode_UTF8 vm \<in> set volume_methods \<longleftrightarrow>
     vm \<in> {''sequence_of_balls'', ''cooling_gaussian'', ''cooling_balls''}"
  by (simp add: volume_methods_def encode_UTF8_ascii encode_UTF8_eq_ascii)

lemma in_walk_methods:
  "encode_UTF8 wm \<in> set walk_methods \<longleftrightarrow>
     wm \<in> {''uniform_ball'', ''CDHR'', ''RDHR'', ''gaussian_ball'', ''gaussian_CDHR'',
           ''gaussian_RDHR'', ''billiard''}"
  by (auto simp add: walk_methods_def encode_UTF8_ascii encode_UTF8_eq_ascii)

subsection \<open>Evaluation on the small instance, the store and the inner ball\<close>

lemmas demo_defs = demo_module_def demo_module_no_gurobi_def demo_core_def
  demo_ball_def demo_world_def demo_A_def demo_b_def demo_b3_def demo_P_def get_time_seed_def

lemmas world_defs = log_call_def poke_def np_zeros_2d_def np_zeros_1d_def np_zeros_2d_int_def
  read2_def read1_def call_fast_inner_ball_def call_slow_inner_ball_def inner_ball_by_mode_def
  calls_since_def overwrite_def fetch_polytope_def

lemma length_overwrite: "length (overwrite old new) = length old"
  by (simp add: overwrite_def)

lemma inner_ball_by_mode_ok:
  assumes "fast_mode \<longrightarrow> fast_inner_ball M \<noteq> None"
  shows "\<exists>k p r. inner_ball_by_mode M fast_mode A b w =
           Inr ((p, r), log_call (Call_inner_ball k (read2 w A) (read1 w b) p r) w)"
proof (cases fast_mode)
  case True
  with assms obtain f where "fast_inner_ball M = Some f" by auto
  with True show ?thesis
    by (auto simp: inner_ball_by_mode_def call_fast_inner_ball_def split: prod.splits)
next
  case False
  then show ?thesis
    by (auto simp: inner_ball_by_mode_def call_slow_inner_ball_def split: prod.splits)
qed

lemma inner_ball_by_mode_cases:
  "inner_ball_by_mode M fast_mode A b w = Inl (NameError ''fast_inner_ball'') \<or>
   (\<exists>k p r. inner_ball_by_mode M fast_mode A b w =
           Inr ((p, r), log_call (Call_inner_ball k (read2 w A) (read1 w b) p r) w))"
  by (cases fast_mode; cases "fast_inner_ball M")
     (auto simp: inner_ball_by_mode_def call_fast_inner_ball_def call_slow_inner_ball_def split: prod.splits)

subsection \<open>compute_volume\<close>

lemma compute_volume_unknown:
  assumes "seed_converts seed"
    and "\<not> (vol_method \<in> {''sequence_of_balls'', ''cooling_gaussian'', ''cooling_balls''} \<and>
       walk_method \<in> {''uniform_ball'', ''CDHR'', ''RDHR'', ''gaussian_ball'', ''gaussian_CDHR'',
                       ''gaussian_RDHR'', ''billiard''})"
  shows "\<exists>e. UnsupportedMethod e \<and>
           compute_volume M P walk_len epsilon vol_method walk_method seed w = (Inl e, P, w)"
proof -
  from assms(2) have "\<not> (encode_UTF8 vol_method \<in> set volume_methods \<and>
                encode_UTF8 walk_method \<in> set walk_methods)"
    by (simp add: in_volume_methods in_walk_methods)
  then show ?thesis
    using assms(1) by (auto simp: compute_volume_def Let_def)
qed

lemma compute_volume_known:
  assumes "seed_converts seed"
    and "in_int32 walk_len"
    and "vol_method \<in> {''sequence_of_balls'', ''cooling_gaussian'', ''cooling_balls''}"
    and "walk_method \<in> {''uniform_ball'', ''CDHR'', ''RDHR'', ''gaussian_ball'', ''gaussian_CDHR'',
                       ''gaussian_RDHR'', ''billiard''}"
  shows "compute_volume M P walk_len epsilon vol_method walk_method seed w =
           (let s = (case seed of None \<Rightarrow> seed_default M | Some s \<Rightarrow> s);
                r = cpp_compute_volume (cpp M) (polytope_cpp P) vol_method walk_method walk_len
                      epsilon s
            in (Inr (fst r), P\<lparr>polytope_cpp := snd r\<rparr>,
                log_call (Call_compute_volume vol_method walk_method walk_len epsilon s) w))"
proof -
  from assms(3,4) have v: "encode_UTF8 vol_method \<in> set volume_methods"
    and wk: "encode_UTF8 walk_method \<in> set walk_methods"
    by (simp_all add: in_volume_methods in_walk_methods)
  have e: "encode_UTF8 vol_method = vol_method" "encode_UTF8 walk_method = walk_method"
    using assms(3,4) by (auto simp: encode_UTF8_ascii)
  show ?thesis
    using v wk assms(1,2) by (simp add: compute_volume_def e Let_def split_beta)
qed

lemma compute_volume_overflow:
  assumes "\<not> seed_converts seed \<or>
      ((vol_method \<in> {''sequence_of_balls'', ''cooling_gaussian'', ''cooling_balls''} \<and>
        walk_method \<in> {''uniform_ball'', ''CDHR'', ''RDHR'', ''gaussian_ball'', ''gaussian_CDHR'',
                        ''gaussian_RDHR'', ''billiard''}) \<and> \<not> in_int32 walk_len)"
  shows "compute_volume M P walk_len epsilon vol_method walk_method seed w =
           (Inl OverflowError, P, w)"
proof (cases "seed_converts seed")
  case False
  then show ?thesis by (simp add: compute_volume_def)
next
  case True
  with assms have v: "encode_UTF8 vol_method \<in> set volume_methods"
    and wk: "encode_UTF8 walk_method \<in> set walk_methods" and wl: "\<not> in_int32 walk_len"
    by (simp_all add: in_volume_methods in_walk_methods)
  then show ?thesis
    using True by (simp add: compute_volume_def Let_def)
qed

text \<open>
  Claim C5. For a seed and a \<open>walk_len\<close> that fit their C types (a seed the caller
  leaves out always does), \<open>compute_volume\<close> raises its unknown-method exception, with
  the object and the world untouched (so before any call of the C++ volume
  estimation), exactly when \<open>vol_method\<close> is not one of \<open>sequence_of_balls\<close>,
  \<open>cooling_gaussian\<close>, \<open>cooling_balls\<close> or \<open>walk_method\<close> is not one of
  \<open>uniform_ball\<close>, \<open>CDHR\<close>, \<open>RDHR\<close>, \<open>gaussian_ball\<close>, \<open>gaussian_CDHR\<close>,
  \<open>gaussian_RDHR\<close>, \<open>billiard\<close>; for every pair of methods in these lists it calls
  the C++ \<open>compute_volume\<close> once, with the two method names, \<open>walk_len\<close>, \<open>epsilon\<close>
  and the seed, and returns the number that comes back. The remaining calls end in
  \<open>OverflowError\<close> with the object and the world untouched: those with a seed
  outside 32 bits, whatever the methods, and those with methods of the lists and a
  \<open>walk_len\<close> outside 32 bits. So the unknown-method exception is raised exactly on
  a seed that converts and a method outside the lists.
\<close>

theorem compute_volume_allow_lists:
  fixes M :: "'c volestipy"
  defines "s \<equiv> \<lambda>M seed. (case seed of None \<Rightarrow> seed_default M | Some (s::int) \<Rightarrow> s)"
  defines "allowed \<equiv> \<lambda>vol_method walk_method.
     vol_method \<in> {''sequence_of_balls'', ''cooling_gaussian'', ''cooling_balls''} \<and>
     walk_method \<in> {''uniform_ball'', ''CDHR'', ''RDHR'', ''gaussian_ball'', ''gaussian_CDHR'',
                     ''gaussian_RDHR'', ''billiard''}"
  shows
  "(seed_converts seed \<and> in_int32 walk_len \<and> allowed vol_method walk_method \<longrightarrow>
      (\<exists>volume c.
         cpp_compute_volume (cpp M) (polytope_cpp P) vol_method walk_method walk_len epsilon
           (s M seed) = (volume, c) \<and>
         compute_volume M P walk_len epsilon vol_method walk_method seed w =
           (Inr volume, P\<lparr>polytope_cpp := c\<rparr>,
            log_call (Call_compute_volume vol_method walk_method walk_len epsilon (s M seed)) w)))
   \<and>
   (seed_converts seed \<and> \<not> allowed vol_method walk_method \<longrightarrow>
      (\<exists>e. UnsupportedMethod e \<and>
           compute_volume M P walk_len epsilon vol_method walk_method seed w = (Inl e, P, w)))
   \<and>
   (\<not> seed_converts seed \<or> (allowed vol_method walk_method \<and> \<not> in_int32 walk_len) \<longrightarrow>
      compute_volume M P walk_len epsilon vol_method walk_method seed w =
        (Inl OverflowError, P, w))
   \<and>
   ((\<exists>e. UnsupportedMethod e \<and>
         fst (compute_volume M P walk_len epsilon vol_method walk_method seed w) = Inl e) \<longleftrightarrow>
    seed_converts seed \<and> \<not> allowed vol_method walk_method)"
proof -
  have good: "\<exists>volume c.
         cpp_compute_volume (cpp M) (polytope_cpp P) vol_method walk_method walk_len epsilon
           (s M seed) = (volume, c) \<and>
         compute_volume M P walk_len epsilon vol_method walk_method seed w =
           (Inr volume, P\<lparr>polytope_cpp := c\<rparr>,
            log_call (Call_compute_volume vol_method walk_method walk_len epsilon (s M seed)) w)"
    if ok: "seed_converts seed" "in_int32 walk_len" "allowed vol_method walk_method"
  proof -
    from ok have "compute_volume M P walk_len epsilon vol_method walk_method seed w =
      (Inr (fst (cpp_compute_volume (cpp M) (polytope_cpp P) vol_method walk_method walk_len
                   epsilon (s M seed))),
       P\<lparr>polytope_cpp := snd (cpp_compute_volume (cpp M) (polytope_cpp P) vol_method
                               walk_method walk_len epsilon (s M seed))\<rparr>,
       log_call (Call_compute_volume vol_method walk_method walk_len epsilon (s M seed)) w)"
      by (simp add: compute_volume_known s_def allowed_def Let_def)
    then show ?thesis by (metis prod.collapse)
  qed
  have bad: "\<exists>e. UnsupportedMethod e \<and>
           compute_volume M P walk_len epsilon vol_method walk_method seed w = (Inl e, P, w)"
    if "seed_converts seed" "\<not> allowed vol_method walk_method"
    using that unfolding allowed_def by (rule compute_volume_unknown)
  have over: "compute_volume M P walk_len epsilon vol_method walk_method seed w =
        (Inl OverflowError, P, w)"
    if "\<not> seed_converts seed \<or> (allowed vol_method walk_method \<and> \<not> in_int32 walk_len)"
    using that unfolding allowed_def by (rule compute_volume_overflow)
  have iff: "(\<exists>e. UnsupportedMethod e \<and>
         fst (compute_volume M P walk_len epsilon vol_method walk_method seed w) = Inl e) \<longleftrightarrow>
    seed_converts seed \<and> \<not> allowed vol_method walk_method"
  proof (cases "seed_converts seed \<and> \<not> allowed vol_method walk_method")
    case True
    then show ?thesis using bad by auto
  next
    case False
    show ?thesis
    proof (cases "seed_converts seed \<and> in_int32 walk_len \<and> allowed vol_method walk_method")
      case True
      with good obtain volume where
        "fst (compute_volume M P walk_len epsilon vol_method walk_method seed w) = Inr volume"
        by fastforce
      with False show ?thesis by simp
    next
      case nogood: False
      with False have "\<not> seed_converts seed \<or>
         (allowed vol_method walk_method \<and> \<not> in_int32 walk_len)" by blast
      from over[OF this] False show ?thesis by auto
    qed
  qed
  from good bad over iff show ?thesis by blast
qed

text \<open>
  On the small instance: \<open>cooling_balls\<close> with \<open>billiard\<close> reaches the C++ side;
  \<open>svd\<close>, a rounding method, is refused as a volume method; and the seed \<open>2^31\<close>
  ends the call before the method is looked at.
\<close>

theorem compute_volume_allow_lists_witness:
  "compute_volume demo_module demo_P 2 (1 / 20) ''cooling_balls'' ''billiard'' (Some 7) demo_world =
     (Inr 2, demo_P,
      log_call (Call_compute_volume ''cooling_balls'' ''billiard'' 2 (1 / 20) 7) demo_world) \<and>
   (\<exists>e. UnsupportedMethod e \<and>
        compute_volume demo_module demo_P 2 (1 / 20) ''svd'' ''billiard'' (Some 7) demo_world =
          (Inl e, demo_P, demo_world)) \<and>
   compute_volume demo_module demo_P 2 (1 / 20) ''svd'' ''billiard'' (Some 2147483648)
       demo_world = (Inl OverflowError, demo_P, demo_world)"
  using compute_volume_allow_lists[where M = demo_module and P = demo_P and walk_len = 2
      and epsilon = "1 / 20" and vol_method = "''cooling_balls''" and walk_method = "''billiard''"
      and seed = "Some 7" and w = demo_world]
    compute_volume_allow_lists[where M = demo_module and P = demo_P and walk_len = 2
      and epsilon = "1 / 20" and vol_method = "''svd''" and walk_method = "''billiard''"
      and seed = "Some 7" and w = demo_world]
    compute_volume_allow_lists[where M = demo_module and P = demo_P and walk_len = 2
      and epsilon = "1 / 20" and vol_method = "''svd''" and walk_method = "''billiard''"
      and seed = "Some 2147483648" and w = demo_world]
  by (simp add: demo_module_def demo_core_def demo_P_def seed_converts_def in_int32_def)

subsection \<open>rounding and generate_samples\<close>

lemma rounding_int_method_unknown:
  "rounding_method \<notin> {''john_position'', ''isotropic_position'', ''min_ellipsoid''} \<Longrightarrow>
   rounding_int_method rounding_method = Inl (RuntimeError ''Uknown rounding method'')"
  by (simp add: rounding_int_method_def)

lemma generate_samples_int_method_unknown:
  "method \<notin> {''cdhr'', ''rdhr'', ''billiard_walk'', ''ball_walk'', ''dikin_walk'', ''john_walk'',
              ''vaidya_walk''} \<Longrightarrow>
   generate_samples_int_method method = Inl (RuntimeError ''Uknown MCMC sampling method'')"
  by (simp add: generate_samples_int_method_def)

lemma trace_outputs_allocated: "trace (outputs_allocated P w) = trace w"
  by (simp add: outputs_allocated_def np_zeros_2d_def np_zeros_1d_def)

lemma rounding_unknown:
  assumes bad: "rounding_method \<notin> {''john_position'', ''isotropic_position'', ''min_ellipsoid''}"
  shows "rounding M P rounding_method fast_mode w =
           (case inner_ball_by_mode M fast_mode (self_A P) (self_b P) (outputs_allocated P w) of
              Inl e \<Rightarrow> (Inl e, P, outputs_allocated P w)
            | Inr (pr, w5) \<Rightarrow> (Inl (RuntimeError ''Uknown rounding method''), P, w5))"
  unfolding rounding_def rounding_int_method_unknown[OF bad] outputs_allocated_def
  by (simp add: Let_def split_beta split: sum.splits)

lemma rounding_known:
  assumes ok: "rounding_int_method rounding_method = Inr k"
    and ib: "inner_ball_by_mode M fast_mode (self_A P) (self_b P) (outputs_allocated P w) = Inr ((p, r), w5)"
  shows "\<exists>v w6. rounding M P rounding_method fast_mode w =
             (Inr v, P\<lparr>polytope_cpp := snd (cpp_apply_rounding (cpp M) (polytope_cpp P) k p r)\<rparr>, w6) \<and>
           trace w6 = trace w5 @ [Call_apply_rounding k p r]"
  using ib unfolding rounding_def ok outputs_allocated_def
  by (simp add: Let_def split_beta log_call_def poke_def)

text \<open>
  Claim C6. \<open>rounding\<close> accepts exactly the method strings \<open>john_position\<close>,
  \<open>isotropic_position\<close> and \<open>min_ellipsoid\<close>, and hands the C++ \<open>apply_rounding\<close>
  the codes 1, 2 and 3 for them; on every other string, \<open>max_ellipsoid\<close> among them,
  it raises the unknown-method exception and \<open>apply_rounding\<close> is not called. (The
  inner-ball function of the chosen mode must exist: with \<open>fast_mode\<close> and no
  gurobipy the call ends in a NameError before the method string is looked at.)
\<close>

theorem rounding_method_codes:
  assumes avail: "fast_mode \<longrightarrow> fast_inner_ball M \<noteq> None"
    and run: "rounding M P rounding_method fast_mode w = (res, P', w')"
  shows "(rounding_method = ''john_position'' \<longrightarrow>
            (\<exists>v. res = Inr v) \<and> rounding_codes (calls_since w w') = [1]) \<and>
         (rounding_method = ''isotropic_position'' \<longrightarrow>
            (\<exists>v. res = Inr v) \<and> rounding_codes (calls_since w w') = [2]) \<and>
         (rounding_method = ''min_ellipsoid'' \<longrightarrow>
            (\<exists>v. res = Inr v) \<and> rounding_codes (calls_since w w') = [3]) \<and>
         (rounding_method \<notin> {''john_position'', ''isotropic_position'', ''min_ellipsoid''} \<longrightarrow>
            (\<exists>e. res = Inl e \<and> UnsupportedMethod e) \<and> rounding_codes (calls_since w w') = [])"
proof -
  let ?w4 = "outputs_allocated P w"
  obtain k p r where ib: "inner_ball_by_mode M fast_mode (self_A P) (self_b P) ?w4 =
           Inr ((p, r), log_call (Call_inner_ball k (read2 ?w4 (self_A P)) (read1 ?w4 (self_b P)) p r) ?w4)"
    using inner_ball_by_mode_ok[OF avail] by blast
  have known: "(\<exists>v. res = Inr v) \<and> rounding_codes (calls_since w w') = [c]"
    if "rounding_int_method rounding_method = Inr c" for c
    using rounding_known[OF that ib] run
    by (auto simp: calls_since_def log_call_def trace_outputs_allocated)
  have unknown: "(\<exists>e. res = Inl e \<and> UnsupportedMethod e) \<and> rounding_codes (calls_since w w') = []"
    if "rounding_method \<notin> {''john_position'', ''isotropic_position'', ''min_ellipsoid''}"
    using rounding_unknown[OF that, where M = M and P = P and fast_mode = fast_mode and w = w] run ib
    by (auto simp: calls_since_def log_call_def trace_outputs_allocated)
  show ?thesis
    using known[of 1] known[of 2] known[of 3] unknown
    by (simp add: rounding_int_method_def)
qed

text \<open>
  On the small instance: \<open>max_ellipsoid\<close> is refused although the module lists it in
  \<open>rounding_methods\<close>; \<open>min_ellipsoid\<close> goes to the C++ side with the code 3.
\<close>

theorem rounding_method_codes_witness:
  "fst (rounding demo_module demo_P ''max_ellipsoid'' False demo_world) = 
     Inl (RuntimeError ''Uknown rounding method'') \<and>
   UnsupportedMethod (RuntimeError ''Uknown rounding method'') \<and>
   rounding_codes (calls_since demo_world
     (snd (snd (rounding demo_module demo_P ''max_ellipsoid'' False demo_world)))) = [] \<and>
   rounding_codes (calls_since demo_world
     (snd (snd (rounding demo_module demo_P ''min_ellipsoid'' True demo_world)))) = [3]"
proof -
  have avail: "True \<longrightarrow> fast_inner_ball demo_module \<noteq> None"
    by (simp add: demo_defs)
  have bad: "rounding demo_module demo_P ''max_ellipsoid'' False demo_world =
    (Inl (RuntimeError ''Uknown rounding method''), demo_P,
     \<lparr>heap = [[1, - 1], [1, 1], [1, 1, 1], [0, 0], [0, 0], [0], [0]],
      trace = [Call_inner_ball Slow (2, 1, [1, - 1]) (2, [1, 1]) [0] 1],
      wall_clock = 1000.5\<rparr>)"
    by (simp add: rounding_def rounding_int_method_def demo_defs world_defs eval_nat_numeral)
  obtain res P' w' where good: "rounding demo_module demo_P ''min_ellipsoid'' True demo_world = (res, P', w')"
    by (cases "rounding demo_module demo_P ''min_ellipsoid'' True demo_world")
  show ?thesis
    using rounding_method_codes[OF _ bad] rounding_method_codes[OF avail good]
    by (simp add: bad good)
qed

lemma trace_samples_allocated: "trace (samples_allocated P n w) = trace w"
  by (simp add: samples_allocated_def np_zeros_2d_def)

lemma generate_samples_negative:
  "number_of_points < 0 \<Longrightarrow>
   generate_samples M P method number_of_points number_of_points_to_burn walk_len fast_mode w =
     (Inl (ValueError ''negative dimensions are not allowed''), P, w)"
  by (simp add: generate_samples_def np_zeros_2d_int_def)

lemma generate_samples_unknown:
  assumes bad: "method \<notin> {''cdhr'', ''rdhr'', ''billiard_walk'', ''ball_walk'', ''dikin_walk'',
                          ''john_walk'', ''vaidya_walk''}"
    and n: "0 \<le> number_of_points"
  shows "generate_samples M P method number_of_points number_of_points_to_burn walk_len fast_mode w =
           (case inner_ball_by_mode M fast_mode (self_A P) (self_b P)
                   (samples_allocated P number_of_points w) of
              Inl e \<Rightarrow> (Inl e, P, samples_allocated P number_of_points w)
            | Inr (pr, w2) \<Rightarrow> (Inl (RuntimeError ''Uknown MCMC sampling method''), P, w2))"
  using n unfolding generate_samples_def generate_samples_int_method_unknown[OF bad]
    samples_allocated_def
  by (simp add: Let_def split_beta np_zeros_2d_int_def split: sum.splits)

lemma generate_samples_known:
  assumes ok: "generate_samples_int_method method = Inr k"
    and n: "0 \<le> number_of_points"
    and ints: "in_int32 walk_len" "in_int32 number_of_points" "in_int32 number_of_points_to_burn"
    and ib: "inner_ball_by_mode M fast_mode (self_A P) (self_b P)
               (samples_allocated P number_of_points w) = Inr ((p, r), w2)"
  shows "generate_samples M P method number_of_points number_of_points_to_burn walk_len fast_mode w =
           (Inr \<lparr>data2 = length (heap w), shape0 = nat number_of_points,
                  shape1 = shape1 (self_A P)\<rparr>,
            P\<lparr>polytope_cpp := snd (cpp_apply_sampling (cpp M) (polytope_cpp P) walk_len
                 number_of_points number_of_points_to_burn k p r)\<rparr>,
            poke (length (heap w))
              (fst (cpp_apply_sampling (cpp M) (polytope_cpp P) walk_len
                 number_of_points number_of_points_to_burn k p r))
              (log_call (Call_apply_sampling walk_len number_of_points number_of_points_to_burn
                 k p r) w2))"
  using n ib ints unfolding generate_samples_def ok samples_allocated_def
  by (simp add: Let_def split_beta np_zeros_2d_int_def np_zeros_2d_def)

lemma generate_samples_overflow:
  assumes ok: "generate_samples_int_method method = Inr k"
    and n: "0 \<le> number_of_points"
    and ints: "\<not> (in_int32 walk_len \<and> in_int32 number_of_points \<and>
                  in_int32 number_of_points_to_burn)"
    and ib: "inner_ball_by_mode M fast_mode (self_A P) (self_b P)
               (samples_allocated P number_of_points w) = Inr ((p, r), w2)"
  shows "generate_samples M P method number_of_points number_of_points_to_burn walk_len fast_mode w =
           (Inl OverflowError, P, w2)"
  using n ib ints unfolding generate_samples_def ok samples_allocated_def
  by (auto simp: Let_def split_beta np_zeros_2d_int_def np_zeros_2d_def)

text \<open>
  Claim C7. For a method among \<open>cdhr\<close>, \<open>rdhr\<close>, \<open>billiard_walk\<close>, \<open>ball_walk\<close>,
  \<open>dikin_walk\<close>, \<open>john_walk\<close>, \<open>vaidya_walk\<close> (the \<open>i\<close>-th of them goes to the C++
  \<open>apply_sampling\<close> as the code \<open>i + 1\<close>), \<open>generate_samples\<close> returns an array with
  \<open>number_of_points\<close> rows and as many columns as the polytope has variables, whose
  buffer holds rows times columns doubles. The number of points is a count
  (not negative), the inner-ball function of the chosen mode exists, and the three
  integers \<open>walk_len\<close>, \<open>number_of_points\<close> and \<open>number_of_points_to_burn\<close> fit a C
  \<open>int\<close>. When \<open>walk_len\<close> or \<open>number_of_points_to_burn\<close> does not fit, the call
  ends in \<open>OverflowError\<close> after the allocation and the inner ball, and
  \<open>apply_sampling\<close> is not called.
\<close>

theorem generate_samples_shape:
  assumes n: "0 \<le> number_of_points"
    and avail: "fast_mode \<longrightarrow> fast_inner_ball M \<noteq> None"
    and i: "i < 7"
    and m: "method = [''cdhr'', ''rdhr'', ''billiard_walk'', ''ball_walk'', ''dikin_walk'',
                     ''john_walk'', ''vaidya_walk''] ! i"
  shows "(in_int32 walk_len \<and> in_int32 number_of_points \<and> in_int32 number_of_points_to_burn \<longrightarrow>
          (\<exists>samples P' w'.
             generate_samples M P method number_of_points number_of_points_to_burn walk_len
               fast_mode w = (Inr samples, P', w') \<and>
             shape0 samples = nat number_of_points \<and>
             shape1 samples = HPolytope_dimension P \<and>
             length (heap w' ! data2 samples) = nat number_of_points * HPolytope_dimension P \<and>
             sampling_codes (calls_since w w') = [int i + 1])) \<and>
         (in_int32 number_of_points \<and>
          \<not> (in_int32 walk_len \<and> in_int32 number_of_points_to_burn) \<longrightarrow>
          (\<exists>w'. generate_samples M P method number_of_points number_of_points_to_burn walk_len
                   fast_mode w = (Inl OverflowError, P, w') \<and>
                sampling_codes (calls_since w w') = [] \<and>
                length (calls_since w w') = 1 \<and> list_all inner_ball_call (calls_since w w')))"
proof -
  let ?w1 = "samples_allocated P number_of_points w"
  obtain k p r where ib: "inner_ball_by_mode M fast_mode (self_A P) (self_b P) ?w1 =
      Inr ((p, r), log_call (Call_inner_ball k (read2 ?w1 (self_A P)) (read1 ?w1 (self_b P)) p r) ?w1)"
    using inner_ball_by_mode_ok[OF avail] by blast
  from i have "i = 0 \<or> i = 1 \<or> i = 2 \<or> i = 3 \<or> i = 4 \<or> i = 5 \<or> i = 6" by arith
  with m have code: "generate_samples_int_method method = Inr (int i + 1)"
    by (auto simp: generate_samples_int_method_def)
  have h1: "heap ?w1 = heap w @ [replicate (nat number_of_points * shape1 (self_A P)) 0]"
    by (simp add: samples_allocated_def np_zeros_2d_def)
  show ?thesis
  proof (cases "in_int32 walk_len \<and> in_int32 number_of_points \<and>
                in_int32 number_of_points_to_burn")
    case True
    then have ints: "in_int32 walk_len" "in_int32 number_of_points"
      "in_int32 number_of_points_to_burn" by simp_all
    show ?thesis
      unfolding generate_samples_known[OF code n ints ib]
      using True
      by (simp add: HPolytope_dimension_def poke_def log_call_def calls_since_def h1
          trace_samples_allocated length_overwrite)
  next
    case False
    show ?thesis
      unfolding generate_samples_overflow[OF code n False ib]
      using False
      by (auto simp: log_call_def calls_since_def trace_samples_allocated)
  qed
qed

text \<open>
  On the small instance: three points of the interval, by the billiard walk; and a
  \<open>walk_len\<close> of \<open>2^31\<close>, which ends the call after the inner ball.
\<close>

theorem generate_samples_shape_witness:
  "generate_samples demo_module demo_P ''billiard_walk'' 3 1 2 True demo_world =
     (Inr \<lparr>data2 = 3, shape0 = 3, shape1 = 1\<rparr>, demo_P,
      \<lparr>heap = [[1, - 1], [1, 1], [1, 1, 1], [0, 0, 0]],
       trace = [Call_inner_ball Fast (2, 1, [1, - 1]) (2, [1, 1]) [0] 1,
                Call_apply_sampling 2 3 1 3 [0] 1],
       wall_clock = 1000.5\<rparr>) \<and>
   HPolytope_dimension demo_P = 1 \<and>
   generate_samples demo_module demo_P ''billiard_walk'' 3 1 2147483648 True demo_world =
     (Inl OverflowError, demo_P,
      \<lparr>heap = [[1, - 1], [1, 1], [1, 1, 1], [0, 0, 0]],
       trace = [Call_inner_ball Fast (2, 1, [1, - 1]) (2, [1, 1]) [0] 1],
       wall_clock = 1000.5\<rparr>)"
proof -
  have run: "generate_samples demo_module demo_P ''billiard_walk'' 3 1 2 True demo_world =
     (Inr \<lparr>data2 = 3, shape0 = 3, shape1 = 1\<rparr>, demo_P,
      \<lparr>heap = [[1, - 1], [1, 1], [1, 1, 1], [0, 0, 0]],
       trace = [Call_inner_ball Fast (2, 1, [1, - 1]) (2, [1, 1]) [0] 1,
                Call_apply_sampling 2 3 1 3 [0] 1],
       wall_clock = 1000.5\<rparr>)"
    by (simp add: generate_samples_def generate_samples_int_method_def demo_defs world_defs
        in_int32_def eval_nat_numeral)
  have over: "generate_samples demo_module demo_P ''billiard_walk'' 3 1 2147483648 True
        demo_world =
     (Inl OverflowError, demo_P,
      \<lparr>heap = [[1, - 1], [1, 1], [1, 1, 1], [0, 0, 0]],
       trace = [Call_inner_ball Fast (2, 1, [1, - 1]) (2, [1, 1]) [0] 1],
       wall_clock = 1000.5\<rparr>)"
    by (simp add: generate_samples_def generate_samples_int_method_def demo_defs world_defs
        in_int32_def eval_nat_numeral)
  have h: "(0::int) \<le> 3" "True \<longrightarrow> fast_inner_ball demo_module \<noteq> None" "(2::nat) < 7"
    "''billiard_walk'' = [''cdhr'', ''rdhr'', ''billiard_walk'', ''ball_walk'', ''dikin_walk'',
                     ''john_walk'', ''vaidya_walk''] ! 2"
    by (simp_all add: demo_defs)
  from generate_samples_shape[OF h, of 2 1 demo_P demo_world]
    generate_samples_shape[OF h, of 2147483648 1 demo_P demo_world] run over
  show ?thesis by (simp add: HPolytope_dimension_def demo_P_def demo_A_def in_int32_def)
qed

subsection \<open>Unknown method strings\<close>

text \<open>
  Claim C1 as stated fails: \<open>rounding\<close> and \<open>generate_samples\<close> compute the inner
  ball before they look at the method string. On the small instance both raise the
  unknown-method exception with one inner-ball call in the trace.
\<close>

theorem inner_ball_before_method_check:
  "''max_ellipsoid'' \<notin> {''john_position'', ''isotropic_position'', ''min_ellipsoid''} \<and>
   rounding demo_module demo_P ''max_ellipsoid'' False demo_world =
     (Inl (RuntimeError ''Uknown rounding method''), demo_P,
      \<lparr>heap = [[1, - 1], [1, 1], [1, 1, 1], [0, 0], [0, 0], [0], [0]],
       trace = [Call_inner_ball Slow (2, 1, [1, - 1]) (2, [1, 1]) [0] 1],
       wall_clock = 1000.5\<rparr>) \<and>
   ''hit_and_run'' \<notin> {''cdhr'', ''rdhr'', ''billiard_walk'', ''ball_walk'', ''dikin_walk'',
                       ''john_walk'', ''vaidya_walk''} \<and>
   generate_samples demo_module demo_P ''hit_and_run'' 3 1 2 True demo_world =
     (Inl (RuntimeError ''Uknown MCMC sampling method''), demo_P,
      \<lparr>heap = [[1, - 1], [1, 1], [1, 1, 1], [0, 0, 0]],
       trace = [Call_inner_ball Fast (2, 1, [1, - 1]) (2, [1, 1]) [0] 1],
       wall_clock = 1000.5\<rparr>) \<and>
   list_ex inner_ball_call [Call_inner_ball Fast (2, 1, [1, - 1]) (2, [1, 1]) [0] 1]"
  by (simp add: rounding_def rounding_int_method_def generate_samples_def
      generate_samples_int_method_def demo_defs world_defs eval_nat_numeral)

text \<open>
  Claim C1, amended. On a method string that is not accepted, the call fails and the
  C++ side is not called at all: no volume estimation, no sampling, no rounding.
  \<open>compute_volume\<close> fails with the world untouched: with the unknown-method
  exception, or with \<open>OverflowError\<close> when the caller passed a seed outside 32 bits,
  which is found first. \<open>generate_samples\<close> and \<open>rounding\<close> have by then allocated
  their arrays and, when the allocation and the lookup of the inner-ball function
  succeed, called the inner-ball function once; the exception is then the
  unknown-method one. (For \<open>generate_samples\<close> the number of points is then a count
  that fits a C \<open>int\<close>.)
\<close>

theorem unknown_method_no_core_call:
  "(\<not> (vol_method \<in> {''sequence_of_balls'', ''cooling_gaussian'', ''cooling_balls''} \<and>
       walk_method \<in> {''uniform_ball'', ''CDHR'', ''RDHR'', ''gaussian_ball'', ''gaussian_CDHR'',
                       ''gaussian_RDHR'', ''billiard''}) \<longrightarrow>
      (\<exists>e. compute_volume M P walk_len epsilon vol_method walk_method seed w = (Inl e, P, w) \<and>
           (if seed_converts seed then UnsupportedMethod e else e = OverflowError)))
   \<and>
   (sampling_method \<notin> {''cdhr'', ''rdhr'', ''billiard_walk'', ''ball_walk'', ''dikin_walk'', ''john_walk'',
               ''vaidya_walk''} \<longrightarrow>
      (\<exists>e w'. generate_samples M P sampling_method number_of_points number_of_points_to_burn walk_len
                 fast_mode w = (Inl e, P, w') \<and>
              filter core_call (calls_since w w') = [] \<and>
              (0 \<le> number_of_points \<and> in_int32 number_of_points \<and>
               (fast_mode \<longrightarrow> fast_inner_ball M \<noteq> None) \<longrightarrow>
                 UnsupportedMethod e \<and>
                 length (calls_since w w') = 1 \<and> list_all inner_ball_call (calls_since w w'))))
   \<and>
   (rounding_method \<notin> {''john_position'', ''isotropic_position'', ''min_ellipsoid''} \<longrightarrow>
      (\<exists>e w'. rounding M P rounding_method fast_mode w = (Inl e, P, w') \<and>
              filter core_call (calls_since w w') = [] \<and>
              ((fast_mode \<longrightarrow> fast_inner_ball M \<noteq> None) \<longrightarrow>
                 UnsupportedMethod e \<and>
                 length (calls_since w w') = 1 \<and> list_all inner_ball_call (calls_since w w'))))"
proof (intro conjI impI)
  assume bad: "\<not> (vol_method \<in> {''sequence_of_balls'', ''cooling_gaussian'', ''cooling_balls''} \<and>
       walk_method \<in> {''uniform_ball'', ''CDHR'', ''RDHR'', ''gaussian_ball'', ''gaussian_CDHR'',
                       ''gaussian_RDHR'', ''billiard''})"
  show "\<exists>e. compute_volume M P walk_len epsilon vol_method walk_method seed w = (Inl e, P, w) \<and>
           (if seed_converts seed then UnsupportedMethod e else e = OverflowError)"
  proof (cases "seed_converts seed")
    case True
    from compute_volume_unknown[OF True bad, where M = M and P = P and walk_len = walk_len
        and epsilon = epsilon and w = w] True
    show ?thesis by auto
  next
    case False
    then have "compute_volume M P walk_len epsilon vol_method walk_method seed w =
        (Inl OverflowError, P, w)"
      by (intro compute_volume_overflow) simp
    with False show ?thesis by simp
  qed
next
  assume bad: "sampling_method \<notin> {''cdhr'', ''rdhr'', ''billiard_walk'', ''ball_walk'', ''dikin_walk'',
                          ''john_walk'', ''vaidya_walk''}"
  let ?w1 = "samples_allocated P number_of_points w"
  show "\<exists>e w'. generate_samples M P sampling_method number_of_points number_of_points_to_burn walk_len
                 fast_mode w = (Inl e, P, w') \<and>
              filter core_call (calls_since w w') = [] \<and>
              (0 \<le> number_of_points \<and> in_int32 number_of_points \<and>
               (fast_mode \<longrightarrow> fast_inner_ball M \<noteq> None) \<longrightarrow>
                 UnsupportedMethod e \<and>
                 length (calls_since w w') = 1 \<and> list_all inner_ball_call (calls_since w w'))"
  proof (cases "number_of_points < 0")
    case True
    then show ?thesis
      by (simp add: generate_samples_negative calls_since_def)
  next
    case False
    then have n: "0 \<le> number_of_points" by simp
    from inner_ball_by_mode_cases[of M fast_mode "self_A P" "self_b P" ?w1]
    show ?thesis
    proof
      assume "inner_ball_by_mode M fast_mode (self_A P) (self_b P) ?w1 =
                Inl (NameError ''fast_inner_ball'')"
      then show ?thesis
        unfolding generate_samples_unknown[OF bad n]
        by (auto simp: calls_since_def trace_samples_allocated inner_ball_by_mode_def
            call_fast_inner_ball_def split: if_splits option.splits prod.splits)
    next
      assume "\<exists>k p r. inner_ball_by_mode M fast_mode (self_A P) (self_b P) ?w1 =
        Inr ((p, r), log_call (Call_inner_ball k (read2 ?w1 (self_A P)) (read1 ?w1 (self_b P)) p r) ?w1)"
      then show ?thesis
        unfolding generate_samples_unknown[OF bad n]
        by (auto simp: calls_since_def trace_samples_allocated log_call_def)
    qed
  qed
next
  assume bad: "rounding_method \<notin> {''john_position'', ''isotropic_position'', ''min_ellipsoid''}"
  let ?w4 = "outputs_allocated P w"
  from inner_ball_by_mode_cases[of M fast_mode "self_A P" "self_b P" ?w4]
  show "\<exists>e w'. rounding M P rounding_method fast_mode w = (Inl e, P, w') \<and>
              filter core_call (calls_since w w') = [] \<and>
              ((fast_mode \<longrightarrow> fast_inner_ball M \<noteq> None) \<longrightarrow>
                 UnsupportedMethod e \<and>
                 length (calls_since w w') = 1 \<and> list_all inner_ball_call (calls_since w w'))"
  proof
    assume "inner_ball_by_mode M fast_mode (self_A P) (self_b P) ?w4 =
              Inl (NameError ''fast_inner_ball'')"
    then show ?thesis
      unfolding rounding_unknown[OF bad]
      by (auto simp: calls_since_def trace_outputs_allocated inner_ball_by_mode_def
          call_fast_inner_ball_def split: if_splits option.splits prod.splits)
  next
    assume "\<exists>k p r. inner_ball_by_mode M fast_mode (self_A P) (self_b P) ?w4 =
      Inr ((p, r), log_call (Call_inner_ball k (read2 ?w4 (self_A P)) (read1 ?w4 (self_b P)) p r) ?w4)"
    then show ?thesis
      unfolding rounding_unknown[OF bad]
      by (auto simp: calls_since_def trace_outputs_allocated log_call_def)
  qed
qed

text \<open>
  On the small instance, with an unknown walk, sampling and rounding method; and
  with the seed \<open>2^31\<close> beside the unknown walk method.
\<close>

theorem unknown_method_no_core_call_witness:
  "(\<exists>e. compute_volume demo_module demo_P 2 (1 / 20) ''cooling_balls'' ''hit_and_run'' None
          demo_world = (Inl e, demo_P, demo_world) \<and> UnsupportedMethod e) \<and>
   compute_volume demo_module demo_P 2 (1 / 20) ''cooling_balls'' ''hit_and_run''
       (Some 2147483648) demo_world = (Inl OverflowError, demo_P, demo_world) \<and>
   (\<exists>e w'. generate_samples demo_module demo_P ''hit_and_run'' 3 1 2 True demo_world =
              (Inl e, demo_P, w') \<and>
            filter core_call (calls_since demo_world w') = [] \<and> UnsupportedMethod e \<and>
            length (calls_since demo_world w') = 1 \<and> list_all inner_ball_call (calls_since demo_world w')) \<and>
   (\<exists>e w'. rounding demo_module demo_P ''max_ellipsoid'' True demo_world = (Inl e, demo_P, w') \<and>
            filter core_call (calls_since demo_world w') = [] \<and> UnsupportedMethod e \<and>
            length (calls_since demo_world w') = 1 \<and> list_all inner_ball_call (calls_since demo_world w'))"
  using unknown_method_no_core_call[where M = demo_module and P = demo_P and w = demo_world
      and vol_method = "''cooling_balls''" and walk_method = "''hit_and_run''" and walk_len = 2
      and epsilon = "1 / 20" and seed = None
      and sampling_method = "''hit_and_run''" and number_of_points = 3 and number_of_points_to_burn = 1
      and fast_mode = True and rounding_method = "''max_ellipsoid''"]
    unknown_method_no_core_call[where M = demo_module and P = demo_P and w = demo_world
      and vol_method = "''cooling_balls''" and walk_method = "''hit_and_run''" and walk_len = 2
      and epsilon = "1 / 20" and seed = "Some 2147483648",
      THEN conjunct1]
  by (simp add: demo_module_def seed_converts_def in_int32_def)

subsection \<open>Construction\<close>

text \<open>
  Claim C4 as stated fails: nothing compares the row count of \<open>A\<close> with the length of
  \<open>b\<close>. On the small instance a matrix with 2 rows and a vector of length 3 make an
  \<open>HPolytope\<close>.
\<close>

theorem mismatched_construction_succeeds:
  "shape0 demo_A = 2 \<and> len1 demo_b3 = 3 \<and>
   HPolytope_cinit demo_module demo_A demo_b3 demo_world =
     (Inr \<lparr>polytope_cpp = 0, self_A = demo_A, self_b = demo_b3\<rparr>,
      \<lparr>heap = [[1, - 1], [1, 1], [1, 1, 1]],
       trace = [Call_HPolytopeCPP [1, - 1] [1, 1, 1] 2 1],
       wall_clock = 1000.5\<rparr>)"
  by (simp add: HPolytope_cinit_def demo_defs world_defs)

text \<open>
  Claim C4, amended. \<open>__cinit__\<close> makes no check of its own. It fails exactly when the
  C++ constructor throws, and that constructor is given the two pointers and the shape
  of \<open>A\<close> only: whether the construction fails does not depend on the length of
  \<open>b\<close>. Whenever the C++ constructor returns, the construction succeeds and the
  object holds the views \<open>A\<close> and \<open>b\<close> as they were passed; the store is not changed.
\<close>

theorem HPolytope_cinit_no_dimension_check:
  assumes run: "HPolytope_cinit M A b w = (res, w')"
  shows "(case cpp_HPolytopeCPP (cpp M) (heap w ! data2 A) (heap w ! data1 b)
                 (int (shape0 A)) (int (shape1 A)) of
            None \<Rightarrow> res = Inl CppException
          | Some c \<Rightarrow> res = Inr \<lparr>polytope_cpp = c, self_A = A, self_b = b\<rparr>) \<and>
         heap w' = heap w \<and>
         isl (fst (HPolytope_cinit M A (b\<lparr>len1 := n\<rparr>) w)) = isl res"
  using run
  by (auto simp: HPolytope_cinit_def Let_def log_call_def split: option.splits)

text \<open>On the small instance, with matching dimensions and with a declared length of 5.\<close>

theorem HPolytope_cinit_no_dimension_check_witness:
  "fst (HPolytope_cinit demo_module demo_A demo_b demo_world) =
     Inr \<lparr>polytope_cpp = 0, self_A = demo_A, self_b = demo_b\<rparr> \<and>
   \<not> isl (fst (HPolytope_cinit demo_module demo_A (demo_b\<lparr>len1 := 5\<rparr>) demo_world))"
proof -
  obtain res w' where run: "HPolytope_cinit demo_module demo_A demo_b demo_world = (res, w')"
    by (cases "HPolytope_cinit demo_module demo_A demo_b demo_world")
  from HPolytope_cinit_no_dimension_check[OF run, of 5] run
  show ?thesis
    by (auto simp: demo_module_def demo_core_def)
qed

subsection \<open>The default seed\<close>

lemma import_volestipy_cases:
  "import_volestipy core slow fast w0 =
     (if in_int32 (get_time_seed w0) then
        Inr \<lparr>cpp = core, slow_inner_ball = slow, fast_inner_ball = fast,
             seed_default = get_time_seed w0\<rparr>
      else Inl OverflowError)"
  by (simp add: import_volestipy_def Let_def)

lemma demo_import:
  "import_volestipy demo_core demo_ball (Some demo_ball) demo_world = Inr demo_module"
  by (simp add: import_volestipy_def demo_module_def get_time_seed_def demo_world_def
      in_int32_def Let_def)

text \<open>
  Claim C10. The default of \<open>seed\<close> is the value \<open>get_time_seed()\<close> had when the module
  was imported: the import reads the clock, and it fails when the seconds of the clock
  do not fit 32 bits. After an import that succeeded, a call of \<open>compute_volume\<close>
  that leaves the seed out, in any later world (whatever its clock shows), with
  accepted method strings and a \<open>walk_len\<close> that fits a C \<open>int\<close>, calls the C++
  \<open>compute_volume\<close> once, with the seed of the import, and returns what that call
  returns. So any two such calls with the other arguments equal make the same call,
  and on equal C++ states they return the same volume.
\<close>

theorem default_seed_fixed_at_import:
  fixes core :: "'c bindings"
  defines "run \<equiv> \<lambda>M (P :: 'c HPolytope) walk_len epsilon vol_method walk_method w.
     compute_volume M P walk_len epsilon vol_method walk_method None w"
  defines "core_run \<equiv> \<lambda>(P :: 'c HPolytope) walk_len epsilon vol_method walk_method w0.
     cpp_compute_volume core (polytope_cpp P) vol_method walk_method walk_len epsilon
       (get_time_seed w0)"
  assumes wl: "in_int32 walk_len"
    and vm: "vol_method \<in> {''sequence_of_balls'', ''cooling_gaussian'', ''cooling_balls''}"
    and wm: "walk_method \<in> {''uniform_ball'', ''CDHR'', ''RDHR'', ''gaussian_ball'',
                             ''gaussian_CDHR'', ''gaussian_RDHR'', ''billiard''}"
  shows "case import_volestipy core slow fast w0 of
           Inl e \<Rightarrow> e = OverflowError \<and> \<not> in_int32 (get_time_seed w0)
         | Inr M \<Rightarrow>
             in_int32 (get_time_seed w0) \<and> seed_default M = get_time_seed w0 \<and>
             run M P1 walk_len epsilon vol_method walk_method w1 =
               (Inr (fst (core_run P1 walk_len epsilon vol_method walk_method w0)),
                P1\<lparr>polytope_cpp := snd (core_run P1 walk_len epsilon vol_method walk_method w0)\<rparr>,
                log_call (Call_compute_volume vol_method walk_method walk_len epsilon
                            (get_time_seed w0)) w1) \<and>
             run M P2 walk_len epsilon vol_method walk_method w2 =
               (Inr (fst (core_run P2 walk_len epsilon vol_method walk_method w0)),
                P2\<lparr>polytope_cpp := snd (core_run P2 walk_len epsilon vol_method walk_method w0)\<rparr>,
                log_call (Call_compute_volume vol_method walk_method walk_len epsilon
                            (get_time_seed w0)) w2) \<and>
             calls_since w1 (snd (snd (run M P1 walk_len epsilon vol_method walk_method w1))) =
               [Call_compute_volume vol_method walk_method walk_len epsilon (get_time_seed w0)] \<and>
             calls_since w2 (snd (snd (run M P2 walk_len epsilon vol_method walk_method w2))) =
               [Call_compute_volume vol_method walk_method walk_len epsilon (get_time_seed w0)] \<and>
             (polytope_cpp P1 = polytope_cpp P2 \<longrightarrow>
                fst (run M P1 walk_len epsilon vol_method walk_method w1) =
                fst (run M P2 walk_len epsilon vol_method walk_method w2))"
proof (cases "in_int32 (get_time_seed w0)")
  case False
  then show ?thesis by (simp add: import_volestipy_cases)
next
  case True
  have none: "seed_converts None" by (simp add: seed_converts_def)
  show ?thesis
    using True unfolding run_def core_run_def
    by (simp add: import_volestipy_cases compute_volume_known[OF none wl vm wm] Let_def
        log_call_def calls_since_def)
qed

text \<open>
  On the small instance: the module was imported at 1000.5 seconds; calls at 2000.25
  and at 3000 seconds both pass the seed 1000 and return the volume 2 of the C++
  side.
\<close>

theorem default_seed_fixed_at_import_witness:
  "import_volestipy demo_core demo_ball (Some demo_ball) demo_world = Inr demo_module \<and>
   get_time_seed demo_world = 1000 \<and>
   get_time_seed (demo_world\<lparr>wall_clock := 2000.25\<rparr>) = 2000 \<and>
   get_time_seed (demo_world\<lparr>wall_clock := 3000\<rparr>) = 3000 \<and>
   compute_volume demo_module demo_P 2 (1 / 20) ''cooling_balls'' ''CDHR'' None
       (demo_world\<lparr>wall_clock := 2000.25\<rparr>) =
     (Inr 2, demo_P,
      log_call (Call_compute_volume ''cooling_balls'' ''CDHR'' 2 (1 / 20) 1000)
        (demo_world\<lparr>wall_clock := 2000.25\<rparr>)) \<and>
   compute_volume demo_module demo_P 2 (1 / 20) ''cooling_balls'' ''CDHR'' None
       (demo_world\<lparr>wall_clock := 3000\<rparr>) =
     (Inr 2, demo_P,
      log_call (Call_compute_volume ''cooling_balls'' ''CDHR'' 2 (1 / 20) 1000)
        (demo_world\<lparr>wall_clock := 3000\<rparr>))"
proof -
  have s: "get_time_seed demo_world = 1000"
    "get_time_seed (demo_world\<lparr>wall_clock := 2000.25\<rparr>) = 2000"
    "get_time_seed (demo_world\<lparr>wall_clock := 3000\<rparr>) = 3000"
    by (simp_all add: get_time_seed_def demo_world_def)
  have h: "in_int32 2"
    "''cooling_balls'' \<in> {''sequence_of_balls'', ''cooling_gaussian'', ''cooling_balls''}"
    "''CDHR'' \<in> {''uniform_ball'', ''CDHR'', ''RDHR'', ''gaussian_ball'',
                             ''gaussian_CDHR'', ''gaussian_RDHR'', ''billiard''}"
    by (simp_all add: in_int32_def)
  from default_seed_fixed_at_import[OF h, where core = demo_core and slow = demo_ball
      and fast = "Some demo_ball" and ?w0.0 = demo_world and ?P1.0 = demo_P
      and epsilon = "1 / 20" and ?w1.0 = "demo_world\<lparr>wall_clock := 2000.25\<rparr>"
      and ?P2.0 = demo_P and ?w2.0 = "demo_world\<lparr>wall_clock := 3000\<rparr>"]
  show ?thesis
    unfolding demo_import
    using s by (simp add: demo_core_def demo_P_def)
qed

subsection \<open>MMCS: the world under the primitive steps\<close>

lemma heap_log_call: "heap (log_call e w) = heap w"
  by (simp add: log_call_def)

lemma trace_log_call: "trace (log_call e w) = trace w @ [e]"
  by (simp add: log_call_def)

lemma wall_clock_log_call: "wall_clock (log_call e w) = wall_clock w"
  by (simp add: log_call_def)

lemma trace_poke: "trace (poke a out w) = trace w"
  by (simp add: poke_def)

lemma wall_clock_poke: "wall_clock (poke a out w) = wall_clock w"
  by (simp add: poke_def)

lemma length_heap_poke: "length (heap (poke a out w)) = length (heap w)"
  by (simp add: poke_def)

lemma take_heap_poke: "n \<le> a \<Longrightarrow> take n (heap (poke a out w)) = take n (heap w)"
  by (simp add: poke_def)

lemma read2_log_call: "read2 (log_call e w) A = read2 w A"
  by (simp add: read2_def log_call_def)

lemma read1_log_call: "read1 (log_call e w) b = read1 w b"
  by (simp add: read1_def log_call_def)

lemmas world_simps = heap_log_call trace_log_call wall_clock_log_call trace_poke wall_clock_poke
  length_heap_poke take_heap_poke read2_log_call read1_log_call

lemma fetch_polytope_world:
  assumes "fetch_polytope M A b c w = (c', w')"
  shows "trace w' = trace w @ [Call_get_polytope_as_matrices (read2 w' A) (read1 w' b)]"
    and "length (heap w') = length (heap w)"
    and "n \<le> data2 A \<Longrightarrow> n \<le> data1 b \<Longrightarrow> take n (heap w') = take n (heap w)"
    and "wall_clock w' = wall_clock w"
  using assms
  by (auto simp: fetch_polytope_def Let_def split_beta log_call_def poke_def read2_def read1_def)

lemma call_slow_inner_ball_world:
  assumes "call_slow_inner_ball M A b w = ((p, r), w')"
  shows "(p, r) = slow_inner_ball M (read2 w A) (read1 w b)"
    and "w' = log_call (Call_inner_ball Slow (read2 w A) (read1 w b) p r) w"
  using assms by (auto simp: call_slow_inner_ball_def Let_def split_beta)

lemma call_fast_inner_ball_Some:
  assumes "fast_inner_ball M = Some f"
  shows "call_fast_inner_ball M A b w =
           Inr (f (read2 w A) (read1 w b),
                log_call (Call_inner_ball Fast (read2 w A) (read1 w b)
                  (fst (f (read2 w A) (read1 w b))) (snd (f (read2 w A) (read1 w b)))) w)"
  using assms by (simp add: call_fast_inner_ball_def Let_def split_beta)

subsection \<open>MMCS: the loops\<close>

lemma slow_loop_converged:
  assumes "cpp_mmcs_step (cpp M) c p r = (s, n, c1)" and "1 < s" and "s < 2"
  shows "slow_mmcs_loop (Suc fuel) M A b p r c w =
           Some (Inr n, c1, log_call (Call_mmcs_step p r s n) w)"
  using assms by (simp add: slow_mmcs_loop.simps)

lemma fast_loop_converged:
  assumes "cpp_mmcs_step (cpp M) c p r = (s, n, c1)" and "1 < s" and "s < 2"
  shows "fast_mmcs_loop (Suc fuel) M A b p r c w =
           Some (Inr n, c1, log_call (Call_mmcs_step p r s n) w)"
  using assms by (simp add: fast_mmcs_loop.simps)

lemma slow_loop_continue:
  assumes "cpp_mmcs_step (cpp M) c p r = (s, n, c1)" and "\<not> (1 < s \<and> s < 2)"
  shows "slow_mmcs_loop (Suc fuel) M A b p r c w =
           (let (c2, w2) = fetch_polytope M A b c1 (log_call (Call_mmcs_step p r s n) w);
                ((p', r'), w3) = call_slow_inner_ball M A b w2
            in slow_mmcs_loop fuel M A b p' r' c2 w3)"
  using assms by (auto simp: slow_mmcs_loop.simps Let_def)

lemma fast_loop_continue:
  assumes "cpp_mmcs_step (cpp M) c p r = (s, n, c1)" and "\<not> (1 < s \<and> s < 2)"
  shows "fast_mmcs_loop (Suc fuel) M A b p r c w =
           (let (c2, w2) = fetch_polytope M A b c1 (log_call (Call_mmcs_step p r s n) w)
            in case call_fast_inner_ball M A b w2 of
                 Inl e \<Rightarrow> Some (Inl e, c2, w2)
               | Inr ((p', r'), w3) \<Rightarrow> fast_mmcs_loop fuel M A b p' r' c2 w3)"
  using assms by (auto simp: fast_mmcs_loop.simps Let_def)

text \<open>
  What a completed loop leaves: the trace of its phases, the arrays below its two
  output arrays, the size of the store and the clock.
\<close>

lemma slow_loop_run:
  assumes "n0 \<le> data2 A" and "n0 \<le> data1 b"
  shows "slow_mmcs_loop fuel M A b p r c w = Some (res, c', w') \<Longrightarrow>
   (\<exists>evs N. res = Inr N \<and> trace w' = trace w @ evs \<and>
            phase_trace Slow (slow_inner_ball M) [] (p, r) evs) \<and>
   take n0 (heap w') = take n0 (heap w) \<and> length (heap w') = length (heap w) \<and>
   wall_clock w' = wall_clock w"
proof (induction fuel arbitrary: p r c w)
  case 0
  then show ?case by (simp add: slow_mmcs_loop.simps)
next
  case (Suc fuel)
  obtain s n c1 where step: "cpp_mmcs_step (cpp M) c p r = (s, n, c1)"
    using prod_cases3 by blast
  let ?w1 = "log_call (Call_mmcs_step p r s n) w"
  show ?case
  proof (cases "1 < s \<and> s < 2")
    case True
    with Suc.prems step have "res = Inr n" "w' = ?w1"
      by (auto simp: slow_mmcs_loop.simps)
    with True show ?thesis
      by (auto simp: world_simps intro: phase_trace.last_phase)
  next
    case False
    obtain c2 w2 where fetch: "fetch_polytope M A b c1 ?w1 = (c2, w2)"
      by (cases "fetch_polytope M A b c1 ?w1")
    obtain p' r' w3 where ball: "call_slow_inner_ball M A b w2 = ((p', r'), w3)"
      by (metis prod.collapse)
    from Suc.prems step False fetch ball
    have rec: "slow_mmcs_loop fuel M A b p' r' c2 w3 = Some (res, c', w')"
      by (simp add: slow_mmcs_loop.simps)
    from Suc.IH[OF rec] obtain evs N where evs: "res = Inr N" "trace w' = trace w3 @ evs"
      "phase_trace Slow (slow_inner_ball M) [] (p', r') evs"
      and frame: "take n0 (heap w') = take n0 (heap w3)" "length (heap w') = length (heap w3)"
        "wall_clock w' = wall_clock w3"
      by blast
    have w3: "w3 = log_call (Call_inner_ball Slow (read2 w2 A) (read1 w2 b) p' r') w2"
      by (rule call_slow_inner_ball_world(2)[OF ball])
    have t3: "trace w3 = trace w @ [Call_mmcs_step p r s n,
        Call_get_polytope_as_matrices (read2 w2 A) (read1 w2 b),
        Call_inner_ball Slow (read2 w2 A) (read1 w2 b) p' r']"
      using fetch_polytope_world(1)[OF fetch] by (simp add: w3 world_simps)
    have "phase_trace Slow (slow_inner_ball M) [] (p, r)
            (Call_mmcs_step p r s n # Call_get_polytope_as_matrices (read2 w2 A) (read1 w2 b) #
             Call_inner_ball Slow (read2 w2 A) (read1 w2 b) p' r' # evs)"
      using False evs(3) call_slow_inner_ball_world(1)[OF ball]
      by (auto intro: phase_trace.next_phase)
    with evs(1,2) t3 have "\<exists>evs N. res = Inr N \<and> trace w' = trace w @ evs \<and>
            phase_trace Slow (slow_inner_ball M) [] (p, r) evs"
      by simp
    moreover have "take n0 (heap w') = take n0 (heap w)" "length (heap w') = length (heap w)"
      "wall_clock w' = wall_clock w"
      using frame fetch_polytope_world(2,4)[OF fetch] fetch_polytope_world(3)[OF fetch assms]
      by (simp_all add: w3 world_simps)
    ultimately show ?thesis by simp
  qed
qed

lemma fast_loop_run:
  assumes f: "fast_inner_ball M = Some f" and "n0 \<le> data2 A" and "n0 \<le> data1 b"
  shows "fast_mmcs_loop fuel M A b p r c w = Some (res, c', w') \<Longrightarrow>
   (\<exists>evs N. res = Inr N \<and> trace w' = trace w @ evs \<and> phase_trace Fast f [] (p, r) evs) \<and>
   take n0 (heap w') = take n0 (heap w) \<and> length (heap w') = length (heap w) \<and>
   wall_clock w' = wall_clock w"
proof (induction fuel arbitrary: p r c w)
  case 0
  then show ?case by (simp add: fast_mmcs_loop.simps)
next
  case (Suc fuel)
  obtain s n c1 where step: "cpp_mmcs_step (cpp M) c p r = (s, n, c1)"
    using prod_cases3 by blast
  let ?w1 = "log_call (Call_mmcs_step p r s n) w"
  show ?case
  proof (cases "1 < s \<and> s < 2")
    case True
    with Suc.prems step have "res = Inr n" "w' = ?w1"
      by (auto simp: fast_mmcs_loop.simps)
    with True show ?thesis
      by (auto simp: world_simps intro: phase_trace.last_phase)
  next
    case False
    obtain c2 w2 where fetch: "fetch_polytope M A b c1 ?w1 = (c2, w2)"
      by (cases "fetch_polytope M A b c1 ?w1")
    obtain p' r' where pr: "f (read2 w2 A) (read1 w2 b) = (p', r')"
      by (cases "f (read2 w2 A) (read1 w2 b)")
    let ?w3 = "log_call (Call_inner_ball Fast (read2 w2 A) (read1 w2 b) p' r') w2"
    have ball: "call_fast_inner_ball M A b w2 = Inr ((p', r'), ?w3)"
      by (simp add: call_fast_inner_ball_Some[OF f] pr)
    from Suc.prems step False fetch ball
    have rec: "fast_mmcs_loop fuel M A b p' r' c2 ?w3 = Some (res, c', w')"
      by (simp add: fast_mmcs_loop.simps)
    from Suc.IH[OF rec] obtain evs N where evs: "res = Inr N" "trace w' = trace ?w3 @ evs"
      "phase_trace Fast f [] (p', r') evs"
      and frame: "take n0 (heap w') = take n0 (heap ?w3)" "length (heap w') = length (heap ?w3)"
        "wall_clock w' = wall_clock ?w3"
      by blast
    have t3: "trace ?w3 = trace w @ [Call_mmcs_step p r s n,
        Call_get_polytope_as_matrices (read2 w2 A) (read1 w2 b),
        Call_inner_ball Fast (read2 w2 A) (read1 w2 b) p' r']"
      using fetch_polytope_world(1)[OF fetch] by (simp add: world_simps)
    have "phase_trace Fast f [] (p, r)
            (Call_mmcs_step p r s n # Call_get_polytope_as_matrices (read2 w2 A) (read1 w2 b) #
             Call_inner_ball Fast (read2 w2 A) (read1 w2 b) p' r' # evs)"
      using False evs(3) pr by (auto intro: phase_trace.next_phase)
    with evs(1,2) t3 have "\<exists>evs N. res = Inr N \<and> trace w' = trace w @ evs \<and>
            phase_trace Fast f [] (p, r) evs"
      by simp
    moreover have "take n0 (heap w') = take n0 (heap w)" "length (heap w') = length (heap w)"
      "wall_clock w' = wall_clock w"
      using frame fetch_polytope_world(2,4)[OF fetch] fetch_polytope_world(3)[OF fetch assms(2,3)]
      by (simp_all add: world_simps)
    ultimately show ?thesis by simp
  qed
qed

text \<open>More fuel does not change what a completed loop returned.\<close>

lemma slow_loop_more_fuel:
  "slow_mmcs_loop fuel M A b p r c w = Some x \<Longrightarrow>
   slow_mmcs_loop (fuel + k) M A b p r c w = Some x"
proof (induction fuel arbitrary: p r c w)
  case 0
  then show ?case by (simp add: slow_mmcs_loop.simps)
next
  case (Suc fuel)
  then show ?case
    by (auto simp: slow_mmcs_loop.simps Let_def split: prod.splits if_splits)
qed

lemma fast_loop_more_fuel:
  "fast_mmcs_loop fuel M A b p r c w = Some x \<Longrightarrow>
   fast_mmcs_loop (fuel + k) M A b p r c w = Some x"
proof (induction fuel arbitrary: p r c w)
  case 0
  then show ?case by (simp add: fast_mmcs_loop.simps)
next
  case (Suc fuel)
  then show ?case
    by (auto simp: fast_mmcs_loop.simps Let_def split: prod.splits if_splits sum.splits)
qed

text \<open>
  A loop returns within its fuel exactly when one of the steps it can afford reports
  a status strictly between 1 and 2.
\<close>

lemma converges_within_Suc:
  "converges_within (Suc fuel) k f M A b st \<longleftrightarrow>
     converged_status (phase_status M st) \<or>
     converges_within fuel k f M A b (next_phase_state k f M A b st)"
  by (simp del: upt_Suc add: converges_within_def list_ex_iff Bex_def Ex_less_Suc2)

lemma converges_within_mono:
  "converges_within fuel k f M A b st \<Longrightarrow> converges_within (fuel + j) k f M A b st"
  by (auto simp: converges_within_def list_ex_iff)

lemma slow_loop_returns_iff:
  "slow_mmcs_loop fuel M A b p r c w \<noteq> None \<longleftrightarrow>
     converges_within fuel Slow (slow_inner_ball M) M A b (p, r, c, w)"
proof (induction fuel arbitrary: p r c w)
  case 0
  show ?case by (simp add: slow_mmcs_loop.simps converges_within_def)
next
  case (Suc fuel)
  obtain s n c1 where step: "cpp_mmcs_step (cpp M) c p r = (s, n, c1)"
    using prod_cases3 by blast
  show ?case
  proof (cases "1 < s \<and> s < 2")
    case True
    then have "slow_mmcs_loop (Suc fuel) M A b p r c w =
        Some (Inr n, c1, log_call (Call_mmcs_step p r s n) w)"
      by (intro slow_loop_converged[OF step]) simp_all
    with True step show ?thesis
      by (simp add: converges_within_Suc phase_status_def converged_status_def)
  next
    case False
    obtain c2 w2 where
      fetch: "fetch_polytope M A b c1 (log_call (Call_mmcs_step p r s n) w) = (c2, w2)"
      by (cases "fetch_polytope M A b c1 (log_call (Call_mmcs_step p r s n) w)")
    obtain p' r' where pr: "slow_inner_ball M (read2 w2 A) (read1 w2 b) = (p', r')"
      by (cases "slow_inner_ball M (read2 w2 A) (read1 w2 b)")
    let ?w3 = "log_call (Call_inner_ball Slow (read2 w2 A) (read1 w2 b) p' r') w2"
    have nx: "next_phase_state Slow (slow_inner_ball M) M A b (p, r, c, w) = (p', r', c2, ?w3)"
      by (simp add: next_phase_state_def step fetch pr)
    have "slow_mmcs_loop (Suc fuel) M A b p r c w = slow_mmcs_loop fuel M A b p' r' c2 ?w3"
      by (simp add: slow_loop_continue[OF step False] fetch call_slow_inner_ball_def pr)
    moreover have "\<not> converged_status (phase_status M (p, r, c, w))"
      using False step by (simp add: phase_status_def converged_status_def)
    ultimately show ?thesis
      using Suc.IH[of p' r' c2 ?w3] by (simp add: converges_within_Suc nx)
  qed
qed

lemma fast_loop_returns_iff:
  assumes f: "fast_inner_ball M = Some f"
  shows "fast_mmcs_loop fuel M A b p r c w \<noteq> None \<longleftrightarrow>
     converges_within fuel Fast f M A b (p, r, c, w)"
proof (induction fuel arbitrary: p r c w)
  case 0
  show ?case by (simp add: fast_mmcs_loop.simps converges_within_def)
next
  case (Suc fuel)
  obtain s n c1 where step: "cpp_mmcs_step (cpp M) c p r = (s, n, c1)"
    using prod_cases3 by blast
  show ?case
  proof (cases "1 < s \<and> s < 2")
    case True
    then have "fast_mmcs_loop (Suc fuel) M A b p r c w =
        Some (Inr n, c1, log_call (Call_mmcs_step p r s n) w)"
      by (intro fast_loop_converged[OF step]) simp_all
    with True step show ?thesis
      by (simp add: converges_within_Suc phase_status_def converged_status_def)
  next
    case False
    obtain c2 w2 where
      fetch: "fetch_polytope M A b c1 (log_call (Call_mmcs_step p r s n) w) = (c2, w2)"
      by (cases "fetch_polytope M A b c1 (log_call (Call_mmcs_step p r s n) w)")
    obtain p' r' where pr: "f (read2 w2 A) (read1 w2 b) = (p', r')"
      by (cases "f (read2 w2 A) (read1 w2 b)")
    let ?w3 = "log_call (Call_inner_ball Fast (read2 w2 A) (read1 w2 b) p' r') w2"
    have nx: "next_phase_state Fast f M A b (p, r, c, w) = (p', r', c2, ?w3)"
      by (simp add: next_phase_state_def step fetch pr)
    have "fast_mmcs_loop (Suc fuel) M A b p r c w = fast_mmcs_loop fuel M A b p' r' c2 ?w3"
      by (simp add: fast_loop_continue[OF step False] fetch call_fast_inner_ball_Some[OF f] pr)
    moreover have "\<not> converged_status (phase_status M (p, r, c, w))"
      using False step by (simp add: phase_status_def converged_status_def)
    ultimately show ?thesis
      using Suc.IH[of p' r' c2 ?w3] by (simp add: converges_within_Suc nx)
  qed
qed

subsection \<open>MMCS: the stages\<close>

lemma trace_outputs_allocated_heap:
  "length (heap (outputs_allocated P w)) = length (heap w) + 4"
  "take (length (heap w)) (heap (outputs_allocated P w)) = heap w"
  "wall_clock (outputs_allocated P w) = wall_clock w"
  by (simp_all add: outputs_allocated_def np_zeros_2d_def np_zeros_1d_def)

text \<open>
  With an \<open>ess\<close> or a \<open>num_threads\<close> outside 32 bits the run ends after its four
  allocations, before any call.
\<close>

lemma slow_mmcs_overflow:
  assumes "\<not> mmcs_ints_convert ess num_threads"
  shows "slow_mmcs fuel M P ess psrf_check parallelism num_threads w =
           Some (Inl OverflowError, P, outputs_allocated P w)"
  using assms
  by (auto simp: slow_mmcs_def mmcs_ints_convert_def outputs_allocated_def np_zeros_2d_def
      np_zeros_1d_def Let_def split_beta)

lemma fast_mmcs_overflow:
  assumes "\<not> mmcs_ints_convert ess num_threads"
  shows "fast_mmcs fuel M P ess psrf_check parallelism num_threads w =
           Some (Inl OverflowError, P, outputs_allocated P w)"
  using assms
  by (auto simp: fast_mmcs_def mmcs_ints_convert_def outputs_allocated_def np_zeros_2d_def
      np_zeros_1d_def Let_def split_beta)

lemma slow_mmcs_staged:
  assumes "mmcs_ints_convert ess num_threads"
  shows
  "slow_mmcs fuel M P ess psrf_check parallelism num_threads w =
     (let ((p0, r0), w6) = call_slow_inner_ball M (self_A P) (self_b P)
                             (mmcs_initialized P ess psrf_check parallelism num_threads w)
      in map_option (mmcs_finish M P (out_A P w) (out_b P w) (out_T P w) (out_shift P w))
           (slow_mmcs_loop fuel M (out_A P w) (out_b P w) p0 r0
              (mmcs_init_cpp M P ess psrf_check parallelism num_threads) w6))"
  using assms
  by (simp add: slow_mmcs_def mmcs_ints_convert_def mmcs_initialized_def mmcs_init_cpp_def
      mmcs_finish_def outputs_allocated_def out_A_def out_b_def out_T_def out_shift_def
      np_zeros_2d_def np_zeros_1d_def Let_def split_beta numeral_3_eq_3
      split: option.splits sum.splits prod.splits)

lemma fast_mmcs_staged:
  assumes "mmcs_ints_convert ess num_threads"
  shows
  "fast_mmcs fuel M P ess psrf_check parallelism num_threads w =
     (case call_fast_inner_ball M (self_A P) (self_b P)
             (mmcs_initialized P ess psrf_check parallelism num_threads w) of
        Inl e \<Rightarrow> Some (Inl e, P\<lparr>polytope_cpp := mmcs_init_cpp M P ess psrf_check parallelism
                                   num_threads\<rparr>,
                       mmcs_initialized P ess psrf_check parallelism num_threads w)
      | Inr ((p0, r0), w6) \<Rightarrow>
          map_option (mmcs_finish M P (out_A P w) (out_b P w) (out_T P w) (out_shift P w))
            (fast_mmcs_loop fuel M (out_A P w) (out_b P w) p0 r0
               (mmcs_init_cpp M P ess psrf_check parallelism num_threads) w6))"
  using assms
  by (simp add: fast_mmcs_def mmcs_ints_convert_def mmcs_initialized_def mmcs_init_cpp_def
      mmcs_finish_def outputs_allocated_def out_A_def out_b_def out_T_def out_shift_def
      np_zeros_2d_def np_zeros_1d_def Let_def split_beta numeral_3_eq_3
      split: option.splits sum.splits prod.splits)

lemma mmcs_initialized_world:
  "trace (mmcs_initialized P ess psrf_check parallelism num_threads w) =
     trace w @ [Call_mmcs_initialize (shape1 (self_A P)) ess (bint psrf_check)
                  (bint parallelism) num_threads]"
  "length (heap (mmcs_initialized P ess psrf_check parallelism num_threads w)) =
     length (heap w) + 4"
  "take (length (heap w)) (heap (mmcs_initialized P ess psrf_check parallelism num_threads w)) =
     heap w"
  "wall_clock (mmcs_initialized P ess psrf_check parallelism num_threads w) = wall_clock w"
  by (simp_all add: mmcs_initialized_def outputs_allocated_def np_zeros_2d_def np_zeros_1d_def
      log_call_def)

text \<open>What follows the loop: nothing more after an exception, two more calls otherwise.\<close>

lemma mmcs_finish_world:
  assumes fin: "mmcs_finish M P new_A new_b T_matrix T_shift (x, c, w) = (res, P', w')"
    and below: "n0 \<le> data2 new_A" "n0 \<le> data1 new_b" "n0 \<le> data2 T_matrix"
      "n0 \<le> data1 T_shift" "n0 \<le> length (heap w)"
  shows "self_A P' = self_A P" and "self_b P' = self_b P"
    and "take n0 (heap w') = take n0 (heap w)"
    and "wall_clock w' = wall_clock w"
    and "(isl res \<and> trace w' = trace w) \<or>
         (\<exists>N v. x = Inr N \<and> res = Inr v \<and>
            trace w' = trace w @ [Call_get_mmcs_samples,
              Call_get_polytope_as_matrices (read2 w' new_A) (read1 w' new_b)])"
proof -
  show "self_A P' = self_A P" and "self_b P' = self_b P"
    using fin
    by (auto simp: mmcs_finish_def Let_def split_beta split: sum.splits prod.splits)
  show "take n0 (heap w') = take n0 (heap w)"
    using fin below
    by (auto simp: mmcs_finish_def Let_def split_beta np_zeros_2d_int_def np_zeros_2d_def
        fetch_polytope_def log_call_def poke_def split: sum.splits prod.splits if_splits)
  show "wall_clock w' = wall_clock w"
    using fin
    by (auto simp: mmcs_finish_def Let_def split_beta np_zeros_2d_int_def np_zeros_2d_def
        fetch_polytope_def log_call_def poke_def split: sum.splits prod.splits if_splits)
  show "(isl res \<and> trace w' = trace w) \<or>
         (\<exists>N v. x = Inr N \<and> res = Inr v \<and>
            trace w' = trace w @ [Call_get_mmcs_samples,
              Call_get_polytope_as_matrices (read2 w' new_A) (read1 w' new_b)])"
    using fin
    by (auto simp: mmcs_finish_def Let_def split_beta np_zeros_2d_int_def np_zeros_2d_def
        fetch_polytope_def log_call_def poke_def read2_def read1_def
        split: sum.splits prod.splits if_splits)
qed


lemma phase_trace_append:
  "phase_trace k f [] start evs \<Longrightarrow> phase_trace k f tail start (evs @ tail)"
proof (induction rule: phase_trace.induct)
  case (last_phase s p r n)
  then show ?case by (simp add: phase_trace.last_phase)
next
  case (next_phase s A b p' r' rest p r n)
  then show ?case by (simp add: phase_trace.next_phase)
qed

lemma slow_mmcs_run:
  assumes ints: "mmcs_ints_convert ess num_threads"
    and run: "slow_mmcs fuel M P ess psrf_check parallelism num_threads w = Some (res, P', w')"
  shows "self_A P' = self_A P" and "self_b P' = self_b P" and "store_kept w w'"
    and "wall_clock w' = wall_clock w"
    and "mmcs_run_trace Slow (slow_inner_ball M)
           (Call_mmcs_initialize (shape1 (self_A P)) ess (bint psrf_check) (bint parallelism)
              num_threads)
           (mmcs_tail res P w w') (calls_since w w')"
proof -
  let ?w5 = "mmcs_initialized P ess psrf_check parallelism num_threads w"
  let ?c = "mmcs_init_cpp M P ess psrf_check parallelism num_threads"
  let ?n = "length (heap w)"
  obtain p0 r0 w6 where ball: "call_slow_inner_ball M (self_A P) (self_b P) ?w5 = ((p0, r0), w6)"
    by (metis prod.collapse)
  have w6: "w6 = log_call (Call_inner_ball Slow (read2 ?w5 (self_A P)) (read1 ?w5 (self_b P)) p0 r0) ?w5"
    and pr0: "(p0, r0) = slow_inner_ball M (read2 ?w5 (self_A P)) (read1 ?w5 (self_b P))"
    using call_slow_inner_ball_world[OF ball] by simp_all
  from run ball obtain x c7 w7 where
    loop: "slow_mmcs_loop fuel M (out_A P w) (out_b P w) p0 r0 ?c w6 = Some (x, c7, w7)"
    and fin: "mmcs_finish M P (out_A P w) (out_b P w) (out_T P w) (out_shift P w) (x, c7, w7) =
                (res, P', w')"
    by (auto simp: slow_mmcs_staged[OF ints])
  have below: "?n \<le> data2 (out_A P w)" "?n \<le> data1 (out_b P w)" "?n \<le> data2 (out_T P w)"
    "?n \<le> data1 (out_shift P w)"
    by (simp_all add: out_A_def out_b_def out_T_def out_shift_def)
  from slow_loop_run[OF below(1,2) loop] obtain evs where
    evs: "trace w7 = trace w6 @ evs" "phase_trace Slow (slow_inner_ball M) [] (p0, r0) evs"
    and frame7: "take ?n (heap w7) = take ?n (heap w6)" "length (heap w7) = length (heap w6)"
      "wall_clock w7 = wall_clock w6"
    by blast
  have len7: "?n \<le> length (heap w7)"
    using frame7(2) by (simp add: w6 world_simps mmcs_initialized_world)
  note f = mmcs_finish_world[OF fin below len7]
  show "self_A P' = self_A P" and "self_b P' = self_b P" using f(1,2) .
  show "store_kept w w'"
    using f(3) frame7(1) by (simp add: store_kept_def w6 world_simps mmcs_initialized_world)
  show "wall_clock w' = wall_clock w"
    using f(4) frame7(3) by (simp add: w6 world_simps mmcs_initialized_world)
  have t7: "trace w7 = trace w @
      Call_mmcs_initialize (shape1 (self_A P)) ess (bint psrf_check) (bint parallelism) num_threads #
      Call_inner_ball Slow (read2 ?w5 (self_A P)) (read1 ?w5 (self_b P)) p0 r0 # evs"
    using evs(1) by (simp add: w6 world_simps mmcs_initialized_world)
  from f(5) have "trace w' = trace w7 @ mmcs_tail res P w w'"
    by (auto simp: mmcs_tail_def)
  with t7 have "calls_since w w' =
      Call_mmcs_initialize (shape1 (self_A P)) ess (bint psrf_check) (bint parallelism) num_threads #
      Call_inner_ball Slow (read2 ?w5 (self_A P)) (read1 ?w5 (self_b P)) p0 r0 #
      (evs @ mmcs_tail res P w w')"
    by (simp add: calls_since_def)
  then show "mmcs_run_trace Slow (slow_inner_ball M)
           (Call_mmcs_initialize (shape1 (self_A P)) ess (bint psrf_check) (bint parallelism)
              num_threads)
           (mmcs_tail res P w w') (calls_since w w')"
    using pr0 phase_trace_append[OF evs(2)] by (auto intro: mmcs_run_trace.run)
qed

lemma fast_mmcs_run:
  assumes ints: "mmcs_ints_convert ess num_threads"
    and f: "fast_inner_ball M = Some f"
    and run: "fast_mmcs fuel M P ess psrf_check parallelism num_threads w = Some (res, P', w')"
  shows "self_A P' = self_A P" and "self_b P' = self_b P" and "store_kept w w'"
    and "wall_clock w' = wall_clock w"
    and "mmcs_run_trace Fast f
           (Call_mmcs_initialize (shape1 (self_A P)) ess (bint psrf_check) (bint parallelism)
              num_threads)
           (mmcs_tail res P w w') (calls_since w w')"
proof -
  let ?w5 = "mmcs_initialized P ess psrf_check parallelism num_threads w"
  let ?c = "mmcs_init_cpp M P ess psrf_check parallelism num_threads"
  let ?n = "length (heap w)"
  obtain p0 r0 where pr0: "f (read2 ?w5 (self_A P)) (read1 ?w5 (self_b P)) = (p0, r0)"
    by (cases "f (read2 ?w5 (self_A P)) (read1 ?w5 (self_b P))")
  define w6 where
    "w6 = log_call (Call_inner_ball Fast (read2 ?w5 (self_A P)) (read1 ?w5 (self_b P)) p0 r0) ?w5"
  have ball: "call_fast_inner_ball M (self_A P) (self_b P) ?w5 = Inr ((p0, r0), w6)"
    by (simp add: call_fast_inner_ball_Some[OF f] pr0 w6_def)
  from run ball obtain x c7 w7 where
    loop: "fast_mmcs_loop fuel M (out_A P w) (out_b P w) p0 r0 ?c w6 = Some (x, c7, w7)"
    and fin: "mmcs_finish M P (out_A P w) (out_b P w) (out_T P w) (out_shift P w) (x, c7, w7) =
                (res, P', w')"
    by (auto simp: fast_mmcs_staged[OF ints])
  have below: "?n \<le> data2 (out_A P w)" "?n \<le> data1 (out_b P w)" "?n \<le> data2 (out_T P w)"
    "?n \<le> data1 (out_shift P w)"
    by (simp_all add: out_A_def out_b_def out_T_def out_shift_def)
  from fast_loop_run[OF f below(1,2) loop] obtain evs where
    evs: "trace w7 = trace w6 @ evs" "phase_trace Fast f [] (p0, r0) evs"
    and frame7: "take ?n (heap w7) = take ?n (heap w6)" "length (heap w7) = length (heap w6)"
      "wall_clock w7 = wall_clock w6"
    by blast
  have len7: "?n \<le> length (heap w7)"
    using frame7(2) by (simp add: w6_def world_simps mmcs_initialized_world)
  note fw = mmcs_finish_world[OF fin below len7]
  show "self_A P' = self_A P" and "self_b P' = self_b P" using fw(1,2) .
  show "store_kept w w'"
    using fw(3) frame7(1) by (simp add: store_kept_def w6_def world_simps mmcs_initialized_world)
  show "wall_clock w' = wall_clock w"
    using fw(4) frame7(3) by (simp add: w6_def world_simps mmcs_initialized_world)
  have t7: "trace w7 = trace w @
      Call_mmcs_initialize (shape1 (self_A P)) ess (bint psrf_check) (bint parallelism) num_threads #
      Call_inner_ball Fast (read2 ?w5 (self_A P)) (read1 ?w5 (self_b P)) p0 r0 # evs"
    using evs(1) by (simp add: w6_def world_simps mmcs_initialized_world)
  from fw(5) have "trace w' = trace w7 @ mmcs_tail res P w w'"
    by (auto simp: mmcs_tail_def)
  with t7 have "calls_since w w' =
      Call_mmcs_initialize (shape1 (self_A P)) ess (bint psrf_check) (bint parallelism) num_threads #
      Call_inner_ball Fast (read2 ?w5 (self_A P)) (read1 ?w5 (self_b P)) p0 r0 #
      (evs @ mmcs_tail res P w w')"
    by (simp add: calls_since_def)
  then show "mmcs_run_trace Fast f
           (Call_mmcs_initialize (shape1 (self_A P)) ess (bint psrf_check) (bint parallelism)
              num_threads)
           (mmcs_tail res P w w') (calls_since w w')"
    using pr0 phase_trace_append[OF evs(2)] by (auto intro: mmcs_run_trace.run)
qed

text \<open>
  More fuel does not change what a run returned; and without gurobipy \<open>fast_mmcs\<close>
  ends at its first inner ball.
\<close>

lemma slow_mmcs_more_fuel:
  assumes "slow_mmcs fuel M P ess psrf_check parallelism num_threads w = Some x"
  shows "slow_mmcs (fuel + j) M P ess psrf_check parallelism num_threads w = Some x"
proof (cases "mmcs_ints_convert ess num_threads")
  case False
  with assms show ?thesis by (simp add: slow_mmcs_overflow)
next
  case ints: True
  let ?w5 = "mmcs_initialized P ess psrf_check parallelism num_threads w"
  obtain p0 r0 w6 where ball: "call_slow_inner_ball M (self_A P) (self_b P) ?w5 = ((p0, r0), w6)"
    by (metis prod.collapse)
  from assms ball obtain y where
    loop: "slow_mmcs_loop fuel M (out_A P w) (out_b P w) p0 r0
             (mmcs_init_cpp M P ess psrf_check parallelism num_threads) w6 = Some y"
    and x: "x = mmcs_finish M P (out_A P w) (out_b P w) (out_T P w) (out_shift P w) y"
    by (auto simp: slow_mmcs_staged[OF ints])
  from slow_loop_more_fuel[OF loop, of j] ball x show ?thesis
    by (simp add: slow_mmcs_staged[OF ints])
qed

lemma fast_mmcs_without_gurobi:
  assumes "mmcs_ints_convert ess num_threads" and "fast_inner_ball M = None"
  shows "fast_mmcs fuel M P ess psrf_check parallelism num_threads w =
           Some (Inl (NameError ''fast_inner_ball''),
                 P\<lparr>polytope_cpp := mmcs_init_cpp M P ess psrf_check parallelism num_threads\<rparr>,
                 mmcs_initialized P ess psrf_check parallelism num_threads w)"
  using assms(2) by (simp add: fast_mmcs_staged[OF assms(1)] call_fast_inner_ball_def)

lemma fast_mmcs_more_fuel:
  assumes "fast_mmcs fuel M P ess psrf_check parallelism num_threads w = Some x"
  shows "fast_mmcs (fuel + j) M P ess psrf_check parallelism num_threads w = Some x"
proof (cases "mmcs_ints_convert ess num_threads")
  case False
  with assms show ?thesis by (simp add: fast_mmcs_overflow)
next
  case ints: True
  show ?thesis
  proof (cases "fast_inner_ball M")
    case None
    with assms show ?thesis by (simp add: fast_mmcs_without_gurobi[OF ints])
  next
    case (Some f)
    let ?w5 = "mmcs_initialized P ess psrf_check parallelism num_threads w"
    obtain p0 r0 where pr0: "f (read2 ?w5 (self_A P)) (read1 ?w5 (self_b P)) = (p0, r0)"
      by (cases "f (read2 ?w5 (self_A P)) (read1 ?w5 (self_b P))")
    define w6 where
      "w6 = log_call (Call_inner_ball Fast (read2 ?w5 (self_A P)) (read1 ?w5 (self_b P)) p0 r0) ?w5"
    have ball: "call_fast_inner_ball M (self_A P) (self_b P) ?w5 = Inr ((p0, r0), w6)"
      by (simp add: call_fast_inner_ball_Some[OF Some] pr0 w6_def)
    from assms ball obtain y where
      loop: "fast_mmcs_loop fuel M (out_A P w) (out_b P w) p0 r0
               (mmcs_init_cpp M P ess psrf_check parallelism num_threads) w6 = Some y"
      and x: "x = mmcs_finish M P (out_A P w) (out_b P w) (out_T P w) (out_shift P w) y"
      by (auto simp: fast_mmcs_staged[OF ints])
    from fast_loop_more_fuel[OF loop, of j] ball x show ?thesis
      by (simp add: fast_mmcs_staged[OF ints])
  qed
qed

text \<open>
  A run whose integers convert returns within its fuel exactly when its loop
  converges within that fuel, from the state the run starts its loop in.
\<close>

lemma slow_mmcs_returns_iff:
  assumes ints: "mmcs_ints_convert ess num_threads"
  shows "slow_mmcs fuel M P ess psrf_check parallelism num_threads w \<noteq> None \<longleftrightarrow>
     converges_within fuel Slow (slow_inner_ball M) M (out_A P w) (out_b P w)
       (mmcs_start Slow (slow_inner_ball M) M P ess psrf_check parallelism num_threads w)"
proof -
  let ?w5 = "mmcs_initialized P ess psrf_check parallelism num_threads w"
  obtain p0 r0 where
    pr0: "slow_inner_ball M (read2 ?w5 (self_A P)) (read1 ?w5 (self_b P)) = (p0, r0)"
    by (cases "slow_inner_ball M (read2 ?w5 (self_A P)) (read1 ?w5 (self_b P))")
  let ?w6 = "log_call (Call_inner_ball Slow (read2 ?w5 (self_A P)) (read1 ?w5 (self_b P)) p0 r0) ?w5"
  have st: "mmcs_start Slow (slow_inner_ball M) M P ess psrf_check parallelism num_threads w =
      (p0, r0, mmcs_init_cpp M P ess psrf_check parallelism num_threads, ?w6)"
    by (simp add: mmcs_start_def pr0 Let_def)
  have ball: "call_slow_inner_ball M (self_A P) (self_b P) ?w5 = ((p0, r0), ?w6)"
    by (simp add: call_slow_inner_ball_def pr0)
  show ?thesis
    unfolding slow_mmcs_staged[OF ints] st
    using slow_loop_returns_iff[of fuel M "out_A P w" "out_b P w" p0 r0
        "mmcs_init_cpp M P ess psrf_check parallelism num_threads" ?w6]
    by (simp add: ball)
qed

lemma fast_mmcs_returns_iff:
  assumes ints: "mmcs_ints_convert ess num_threads" and f: "fast_inner_ball M = Some f"
  shows "fast_mmcs fuel M P ess psrf_check parallelism num_threads w \<noteq> None \<longleftrightarrow>
     converges_within fuel Fast f M (out_A P w) (out_b P w)
       (mmcs_start Fast f M P ess psrf_check parallelism num_threads w)"
proof -
  let ?w5 = "mmcs_initialized P ess psrf_check parallelism num_threads w"
  obtain p0 r0 where pr0: "f (read2 ?w5 (self_A P)) (read1 ?w5 (self_b P)) = (p0, r0)"
    by (cases "f (read2 ?w5 (self_A P)) (read1 ?w5 (self_b P))")
  let ?w6 = "log_call (Call_inner_ball Fast (read2 ?w5 (self_A P)) (read1 ?w5 (self_b P)) p0 r0) ?w5"
  have st: "mmcs_start Fast f M P ess psrf_check parallelism num_threads w =
      (p0, r0, mmcs_init_cpp M P ess psrf_check parallelism num_threads, ?w6)"
    by (simp add: mmcs_start_def pr0 Let_def)
  have ball: "call_fast_inner_ball M (self_A P) (self_b P) ?w5 = Inr ((p0, r0), ?w6)"
    by (simp add: call_fast_inner_ball_Some[OF f] pr0)
  show ?thesis
    unfolding fast_mmcs_staged[OF ints] st
    using fast_loop_returns_iff[OF f, of fuel "out_A P w" "out_b P w" p0 r0
        "mmcs_init_cpp M P ess psrf_check parallelism num_threads" ?w6]
    by (simp add: ball)
qed

text \<open>
  The statuses in the trace of a run that returned are the statuses of its successive
  phases, from the state the run starts its loop in.
\<close>

lemma step_statuses_append:
  "step_statuses (xs @ ys) = step_statuses xs @ step_statuses ys"
  by (induction xs rule: step_statuses.induct) simp_all

lemma slow_loop_statuses:
  "slow_mmcs_loop fuel M A b p r c w = Some (res, c', w') \<Longrightarrow>
   \<exists>m<fuel. step_statuses (drop (length (trace w)) (trace w')) =
     map (\<lambda>n. phase_status M (phase_state Slow (slow_inner_ball M) M A b n (p, r, c, w)))
       [0..<Suc m]"
proof (induction fuel arbitrary: p r c w)
  case 0
  then show ?case by (simp add: slow_mmcs_loop.simps)
next
  case (Suc fuel)
  obtain s n c1 where step: "cpp_mmcs_step (cpp M) c p r = (s, n, c1)"
    using prod_cases3 by blast
  have s0: "phase_status M (p, r, c, w) = s"
    by (simp add: phase_status_def step)
  show ?case
  proof (cases "1 < s \<and> s < 2")
    case True
    with Suc.prems step have "w' = log_call (Call_mmcs_step p r s n) w"
      by (auto simp: slow_mmcs_loop.simps)
    then have "step_statuses (drop (length (trace w)) (trace w')) = [s]"
      by (simp add: log_call_def)
    with s0 show ?thesis
      by (intro exI[of _ 0]) simp
  next
    case False
    obtain c2 w2 where
      fetch: "fetch_polytope M A b c1 (log_call (Call_mmcs_step p r s n) w) = (c2, w2)"
      by (cases "fetch_polytope M A b c1 (log_call (Call_mmcs_step p r s n) w)")
    obtain p' r' where pr: "slow_inner_ball M (read2 w2 A) (read1 w2 b) = (p', r')"
      by (cases "slow_inner_ball M (read2 w2 A) (read1 w2 b)")
    let ?w3 = "log_call (Call_inner_ball Slow (read2 w2 A) (read1 w2 b) p' r') w2"
    have nx: "next_phase_state Slow (slow_inner_ball M) M A b (p, r, c, w) = (p', r', c2, ?w3)"
      by (simp add: next_phase_state_def step fetch pr)
    have rec: "slow_mmcs_loop fuel M A b p' r' c2 ?w3 = Some (res, c', w')"
      using Suc.prems
      by (simp add: slow_loop_continue[OF step False] fetch call_slow_inner_ball_def pr)
    from Suc.IH[OF rec] obtain m where m: "m < fuel"
      and st: "step_statuses (drop (length (trace ?w3)) (trace w')) =
        map (\<lambda>n. phase_status M
               (phase_state Slow (slow_inner_ball M) M A b n (p', r', c2, ?w3))) [0..<Suc m]"
      by blast
    from slow_loop_run[where ?n0.0 = 0, OF _ _ rec] obtain evs where
      evs: "trace w' = trace ?w3 @ evs"
      by auto
    have t3: "trace ?w3 = trace w @ [Call_mmcs_step p r s n,
        Call_get_polytope_as_matrices (read2 w2 A) (read1 w2 b),
        Call_inner_ball Slow (read2 w2 A) (read1 w2 b) p' r']"
      using fetch_polytope_world(1)[OF fetch] by (simp add: world_simps)
    have "step_statuses (drop (length (trace w)) (trace w')) = s # step_statuses evs"
      by (simp add: evs t3)
    also have "step_statuses evs = step_statuses (drop (length (trace ?w3)) (trace w'))"
      by (simp add: evs)
    finally have "step_statuses (drop (length (trace w)) (trace w')) =
        map (\<lambda>n. phase_status M
               (phase_state Slow (slow_inner_ball M) M A b n (p, r, c, w))) [0..<Suc (Suc m)]"
      unfolding st map_upt_Suc[of _ "Suc m"] by (simp add: nx s0)
    with m show ?thesis
      by (intro exI[of _ "Suc m"]) simp
  qed
qed

lemma fast_loop_statuses:
  assumes f: "fast_inner_ball M = Some f"
  shows "fast_mmcs_loop fuel M A b p r c w = Some (res, c', w') \<Longrightarrow>
   \<exists>m<fuel. step_statuses (drop (length (trace w)) (trace w')) =
     map (\<lambda>n. phase_status M (phase_state Fast f M A b n (p, r, c, w))) [0..<Suc m]"
proof (induction fuel arbitrary: p r c w)
  case 0
  then show ?case by (simp add: fast_mmcs_loop.simps)
next
  case (Suc fuel)
  obtain s n c1 where step: "cpp_mmcs_step (cpp M) c p r = (s, n, c1)"
    using prod_cases3 by blast
  have s0: "phase_status M (p, r, c, w) = s"
    by (simp add: phase_status_def step)
  show ?case
  proof (cases "1 < s \<and> s < 2")
    case True
    with Suc.prems step have "w' = log_call (Call_mmcs_step p r s n) w"
      by (auto simp: fast_mmcs_loop.simps)
    then have "step_statuses (drop (length (trace w)) (trace w')) = [s]"
      by (simp add: log_call_def)
    with s0 show ?thesis
      by (intro exI[of _ 0]) simp
  next
    case False
    obtain c2 w2 where
      fetch: "fetch_polytope M A b c1 (log_call (Call_mmcs_step p r s n) w) = (c2, w2)"
      by (cases "fetch_polytope M A b c1 (log_call (Call_mmcs_step p r s n) w)")
    obtain p' r' where pr: "f (read2 w2 A) (read1 w2 b) = (p', r')"
      by (cases "f (read2 w2 A) (read1 w2 b)")
    let ?w3 = "log_call (Call_inner_ball Fast (read2 w2 A) (read1 w2 b) p' r') w2"
    have nx: "next_phase_state Fast f M A b (p, r, c, w) = (p', r', c2, ?w3)"
      by (simp add: next_phase_state_def step fetch pr)
    have rec: "fast_mmcs_loop fuel M A b p' r' c2 ?w3 = Some (res, c', w')"
      using Suc.prems
      by (simp add: fast_loop_continue[OF step False] fetch call_fast_inner_ball_Some[OF f] pr)
    from Suc.IH[OF rec] obtain m where m: "m < fuel"
      and st: "step_statuses (drop (length (trace ?w3)) (trace w')) =
        map (\<lambda>n. phase_status M (phase_state Fast f M A b n (p', r', c2, ?w3))) [0..<Suc m]"
      by blast
    from fast_loop_run[where ?n0.0 = 0, OF f _ _ rec] obtain evs where
      evs: "trace w' = trace ?w3 @ evs"
      by auto
    have t3: "trace ?w3 = trace w @ [Call_mmcs_step p r s n,
        Call_get_polytope_as_matrices (read2 w2 A) (read1 w2 b),
        Call_inner_ball Fast (read2 w2 A) (read1 w2 b) p' r']"
      using fetch_polytope_world(1)[OF fetch] by (simp add: world_simps)
    have "step_statuses (drop (length (trace w)) (trace w')) = s # step_statuses evs"
      by (simp add: evs t3)
    also have "step_statuses evs = step_statuses (drop (length (trace ?w3)) (trace w'))"
      by (simp add: evs)
    finally have "step_statuses (drop (length (trace w)) (trace w')) =
        map (\<lambda>n. phase_status M (phase_state Fast f M A b n (p, r, c, w))) [0..<Suc (Suc m)]"
      unfolding st map_upt_Suc[of _ "Suc m"] by (simp add: nx s0)
    with m show ?thesis
      by (intro exI[of _ "Suc m"]) simp
  qed
qed

lemma slow_mmcs_statuses:
  assumes ints: "mmcs_ints_convert ess num_threads"
    and run: "slow_mmcs fuel M P ess psrf_check parallelism num_threads w = Some (res, P', w')"
  shows "\<exists>m<fuel. step_statuses (calls_since w w') =
     map (\<lambda>n. phase_status M
            (phase_state Slow (slow_inner_ball M) M (out_A P w) (out_b P w) n
               (mmcs_start Slow (slow_inner_ball M) M P ess psrf_check parallelism
                  num_threads w)))
       [0..<Suc m]"
proof -
  let ?w5 = "mmcs_initialized P ess psrf_check parallelism num_threads w"
  let ?c = "mmcs_init_cpp M P ess psrf_check parallelism num_threads"
  let ?n = "length (heap w)"
  obtain p0 r0 where
    pr0: "slow_inner_ball M (read2 ?w5 (self_A P)) (read1 ?w5 (self_b P)) = (p0, r0)"
    by (cases "slow_inner_ball M (read2 ?w5 (self_A P)) (read1 ?w5 (self_b P))")
  let ?w6 = "log_call (Call_inner_ball Slow (read2 ?w5 (self_A P)) (read1 ?w5 (self_b P)) p0 r0) ?w5"
  have st: "mmcs_start Slow (slow_inner_ball M) M P ess psrf_check parallelism num_threads w =
      (p0, r0, ?c, ?w6)"
    by (simp add: mmcs_start_def pr0 Let_def)
  have ball: "call_slow_inner_ball M (self_A P) (self_b P) ?w5 = ((p0, r0), ?w6)"
    by (simp add: call_slow_inner_ball_def pr0)
  from run ball obtain x c7 w7 where
    loop: "slow_mmcs_loop fuel M (out_A P w) (out_b P w) p0 r0 ?c ?w6 = Some (x, c7, w7)"
    and fin: "mmcs_finish M P (out_A P w) (out_b P w) (out_T P w) (out_shift P w) (x, c7, w7) =
                (res, P', w')"
    by (auto simp: slow_mmcs_staged[OF ints])
  from slow_loop_run[where ?n0.0 = 0, OF _ _ loop] obtain evs where
    evs: "trace w7 = trace ?w6 @ evs" and len7: "length (heap w7) = length (heap ?w6)"
    by auto
  have below: "0 \<le> data2 (out_A P w)" "0 \<le> data1 (out_b P w)" "0 \<le> data2 (out_T P w)"
    "0 \<le> data1 (out_shift P w)" "0 \<le> length (heap w7)"
    by simp_all
  from mmcs_finish_world(5)[OF fin below] obtain tail where
    tail: "trace w' = trace w7 @ tail" "step_statuses tail = []"
    by auto
  have "calls_since w w' =
      Call_mmcs_initialize (shape1 (self_A P)) ess (bint psrf_check) (bint parallelism) num_threads #
      Call_inner_ball Slow (read2 ?w5 (self_A P)) (read1 ?w5 (self_b P)) p0 r0 # evs @ tail"
    by (simp add: calls_since_def tail(1) evs world_simps mmcs_initialized_world)
  then have "step_statuses (calls_since w w') = step_statuses evs"
    by (simp add: step_statuses_append tail(2))
  also have "evs = drop (length (trace ?w6)) (trace w7)"
    by (simp add: evs)
  finally show ?thesis
    using slow_loop_statuses[OF loop] by (simp only: st)
qed

lemma fast_mmcs_statuses:
  assumes ints: "mmcs_ints_convert ess num_threads" and f: "fast_inner_ball M = Some f"
    and run: "fast_mmcs fuel M P ess psrf_check parallelism num_threads w = Some (res, P', w')"
  shows "\<exists>m<fuel. step_statuses (calls_since w w') =
     map (\<lambda>n. phase_status M
            (phase_state Fast f M (out_A P w) (out_b P w) n
               (mmcs_start Fast f M P ess psrf_check parallelism num_threads w)))
       [0..<Suc m]"
proof -
  let ?w5 = "mmcs_initialized P ess psrf_check parallelism num_threads w"
  let ?c = "mmcs_init_cpp M P ess psrf_check parallelism num_threads"
  obtain p0 r0 where pr0: "f (read2 ?w5 (self_A P)) (read1 ?w5 (self_b P)) = (p0, r0)"
    by (cases "f (read2 ?w5 (self_A P)) (read1 ?w5 (self_b P))")
  let ?w6 = "log_call (Call_inner_ball Fast (read2 ?w5 (self_A P)) (read1 ?w5 (self_b P)) p0 r0) ?w5"
  have st: "mmcs_start Fast f M P ess psrf_check parallelism num_threads w = (p0, r0, ?c, ?w6)"
    by (simp add: mmcs_start_def pr0 Let_def)
  have ball: "call_fast_inner_ball M (self_A P) (self_b P) ?w5 = Inr ((p0, r0), ?w6)"
    by (simp add: call_fast_inner_ball_Some[OF f] pr0)
  from run ball obtain x c7 w7 where
    loop: "fast_mmcs_loop fuel M (out_A P w) (out_b P w) p0 r0 ?c ?w6 = Some (x, c7, w7)"
    and fin: "mmcs_finish M P (out_A P w) (out_b P w) (out_T P w) (out_shift P w) (x, c7, w7) =
                (res, P', w')"
    by (auto simp: fast_mmcs_staged[OF ints])
  from fast_loop_run[where ?n0.0 = 0, OF f _ _ loop] obtain evs where
    evs: "trace w7 = trace ?w6 @ evs" and len7: "length (heap w7) = length (heap ?w6)"
    by auto
  have below: "0 \<le> data2 (out_A P w)" "0 \<le> data1 (out_b P w)" "0 \<le> data2 (out_T P w)"
    "0 \<le> data1 (out_shift P w)" "0 \<le> length (heap w7)"
    by simp_all
  from mmcs_finish_world(5)[OF fin below] obtain tail where
    tail: "trace w' = trace w7 @ tail" "step_statuses tail = []"
    by auto
  have "calls_since w w' =
      Call_mmcs_initialize (shape1 (self_A P)) ess (bint psrf_check) (bint parallelism) num_threads #
      Call_inner_ball Fast (read2 ?w5 (self_A P)) (read1 ?w5 (self_b P)) p0 r0 # evs @ tail"
    by (simp add: calls_since_def tail(1) evs world_simps mmcs_initialized_world)
  then have "step_statuses (calls_since w w') = step_statuses evs"
    by (simp add: step_statuses_append tail(2))
  also have "evs = drop (length (trace ?w6)) (trace w7)"
    by (simp add: evs)
  finally show ?thesis
    using fast_loop_statuses[OF f loop] by (simp only: st)
qed

subsection \<open>MMCS on the small instance\<close>

lemma demo_slow_run:
  "slow_mmcs (Suc (Suc (Suc 0))) demo_module demo_P 1000 True False 2 demo_world =
     Some (Inr (\<lparr>data2 = 3, shape0 = 2, shape1 = 1\<rparr>, \<lparr>data1 = 4, len1 = 2\<rparr>,
                \<lparr>data2 = 5, shape0 = 1, shape1 = 1\<rparr>, \<lparr>data1 = 6, len1 = 1\<rparr>,
                \<lparr>data2 = 7, shape0 = 1, shape1 = 2\<rparr>),
           demo_P\<lparr>polytope_cpp := 3\<rparr>,
           \<lparr>heap = [[1, - 1], [1, 1], [1, 1, 1], [1, - 1], [4, 4], [1], [0], [1 / 4, 3 / 4]],
            trace =
              [Call_mmcs_initialize 1 1000 1 0 2,
               Call_inner_ball Slow (2, 1, [1, - 1]) (2, [1, 1]) [0] 1,
               Call_mmcs_step [0] 1 3 2,
               Call_get_polytope_as_matrices (2, 1, [1, - 1]) (2, [2, 2]),
               Call_inner_ball Slow (2, 1, [1, - 1]) (2, [2, 2]) [0] 2,
               Call_mmcs_step [0] 2 (1 / 2) 2,
               Call_get_polytope_as_matrices (2, 1, [1, - 1]) (2, [3, 3]),
               Call_inner_ball Slow (2, 1, [1, - 1]) (2, [3, 3]) [0] 3,
               Call_mmcs_step [0] 3 (3 / 2) 2,
               Call_get_mmcs_samples,
               Call_get_polytope_as_matrices (2, 1, [1, - 1]) (2, [4, 4])],
            wall_clock = 1000.5\<rparr>)"
  apply (simp add: slow_mmcs_def bint_def in_int32_def demo_defs world_defs)
  apply (subst slow_mmcs_loop.simps)
  apply (simp add: demo_defs world_defs)
  apply (subst slow_mmcs_loop.simps)
  apply (simp add: demo_defs world_defs)
  apply (subst slow_mmcs_loop.simps)
  apply (simp add: demo_defs world_defs eval_nat_numeral)
  done

lemma demo_fast_run:
  "fast_mmcs (Suc (Suc (Suc 0))) demo_module demo_P 1000 True False 2 demo_world =
     Some (Inr (\<lparr>data2 = 3, shape0 = 2, shape1 = 1\<rparr>, \<lparr>data1 = 4, len1 = 2\<rparr>,
                \<lparr>data2 = 5, shape0 = 1, shape1 = 1\<rparr>, \<lparr>data1 = 6, len1 = 1\<rparr>,
                \<lparr>data2 = 7, shape0 = 1, shape1 = 2\<rparr>),
           demo_P\<lparr>polytope_cpp := 3\<rparr>,
           \<lparr>heap = [[1, - 1], [1, 1], [1, 1, 1], [1, - 1], [4, 4], [1], [0], [1 / 4, 3 / 4]],
            trace =
              [Call_mmcs_initialize 1 1000 1 0 2,
               Call_inner_ball Fast (2, 1, [1, - 1]) (2, [1, 1]) [0] 1,
               Call_mmcs_step [0] 1 3 2,
               Call_get_polytope_as_matrices (2, 1, [1, - 1]) (2, [2, 2]),
               Call_inner_ball Fast (2, 1, [1, - 1]) (2, [2, 2]) [0] 2,
               Call_mmcs_step [0] 2 (1 / 2) 2,
               Call_get_polytope_as_matrices (2, 1, [1, - 1]) (2, [3, 3]),
               Call_inner_ball Fast (2, 1, [1, - 1]) (2, [3, 3]) [0] 3,
               Call_mmcs_step [0] 3 (3 / 2) 2,
               Call_get_mmcs_samples,
               Call_get_polytope_as_matrices (2, 1, [1, - 1]) (2, [4, 4])],
            wall_clock = 1000.5\<rparr>)"
  apply (simp add: fast_mmcs_def bint_def in_int32_def demo_defs world_defs)
  apply (subst fast_mmcs_loop.simps)
  apply (simp add: demo_defs world_defs)
  apply (subst fast_mmcs_loop.simps)
  apply (simp add: demo_defs world_defs)
  apply (subst fast_mmcs_loop.simps)
  apply (simp add: demo_defs world_defs eval_nat_numeral)
  done

lemma demo_fast_without_gurobi:
  "mmcs_ints_convert ess num_threads \<Longrightarrow>
   map_option fst (fast_mmcs fuel demo_module_no_gurobi P ess psrf_check parallelism num_threads w) =
     Some (Inl (NameError ''fast_inner_ball''))"
  by (simp add: fast_mmcs_without_gurobi demo_module_no_gurobi_def)

lemma demo_ints: "mmcs_ints_convert 1000 2"
  by (simp add: mmcs_ints_convert_def in_int32_def)

lemma demo_slow_run_out_of_fuel:
  "slow_mmcs (Suc (Suc 0)) demo_module demo_P 1000 True False 2 demo_world = None"
  apply (simp add: slow_mmcs_def bint_def in_int32_def demo_defs world_defs)
  apply (subst slow_mmcs_loop.simps)
  apply (simp add: demo_defs world_defs)
  apply (subst slow_mmcs_loop.simps)
  apply (simp add: demo_defs world_defs slow_mmcs_loop.simps)
  done

subsection \<open>MMCS: the phases\<close>

text \<open>
  Claim C3. In \<open>fast_mmcs\<close> and in \<open>slow_mmcs\<close> the loop is left exactly at a call of
  \<open>mmcs_step\<close> whose status lies strictly between 1 and 2. After a step with any other
  status the controller fetches the polytope with \<open>get_polytope_as_matrices\<close>,
  computes the inner ball of what it fetched, and runs the next step from the point
  and radius of that ball. For an \<open>ess\<close> and a \<open>num_threads\<close> that fit a C \<open>int\<close>
  (and, for \<open>fast_mmcs\<close>, with gurobipy imported):
  the run returns within \<open>fuel\<close> steps exactly when one of the first \<open>fuel\<close> steps,
  each taken from the inner ball of the polytope fetched after the step before it,
  reports such a status; and the calls of a run that returns are \<open>mmcs_initialize\<close>,
  the inner ball of the stored polytope, the phases one after the other in this
  pattern, and after the last step only the fetch of the samples and of the final
  polytope. When \<open>ess\<close> or \<open>num_threads\<close> does not fit, the run ends in
  \<open>OverflowError\<close> after its allocations, before \<open>mmcs_initialize\<close>. The fuel of the
  model only bounds the number of steps: a run that returns with some fuel returns the
  same with more.
\<close>

theorem mmcs_phases_sequential:
  "(mmcs_ints_convert ess num_threads \<longrightarrow>
      (slow_mmcs fuel M P ess psrf_check parallelism num_threads w \<noteq> None \<longleftrightarrow>
         converges_within fuel Slow (slow_inner_ball M) M (out_A P w) (out_b P w)
           (mmcs_start Slow (slow_inner_ball M) M P ess psrf_check parallelism num_threads w)))
   \<and>
   (mmcs_ints_convert ess num_threads \<and> fast_inner_ball M = Some f \<longrightarrow>
      (fast_mmcs fuel M P ess psrf_check parallelism num_threads w \<noteq> None \<longleftrightarrow>
         converges_within fuel Fast f M (out_A P w) (out_b P w)
           (mmcs_start Fast f M P ess psrf_check parallelism num_threads w)))
   \<and>
   (mmcs_ints_convert ess num_threads \<and>
    slow_mmcs fuel M P ess psrf_check parallelism num_threads w = Some (res, P', w') \<longrightarrow>
      mmcs_run_trace Slow (slow_inner_ball M)
        (Call_mmcs_initialize (shape1 (self_A P)) ess (bint psrf_check) (bint parallelism)
           num_threads)
        (mmcs_tail res P w w') (calls_since w w'))
   \<and>
   (mmcs_ints_convert ess num_threads \<and> fast_inner_ball M = Some f \<and>
    fast_mmcs fuel M P ess psrf_check parallelism num_threads w = Some (res, P', w') \<longrightarrow>
      mmcs_run_trace Fast f
        (Call_mmcs_initialize (shape1 (self_A P)) ess (bint psrf_check) (bint parallelism)
           num_threads)
        (mmcs_tail res P w w') (calls_since w w'))
   \<and>
   (\<not> mmcs_ints_convert ess num_threads \<longrightarrow>
      slow_mmcs fuel M P ess psrf_check parallelism num_threads w =
        Some (Inl OverflowError, P, outputs_allocated P w) \<and>
      fast_mmcs fuel M P ess psrf_check parallelism num_threads w =
        Some (Inl OverflowError, P, outputs_allocated P w) \<and>
      calls_since w (outputs_allocated P w) = [])
   \<and>
   (slow_mmcs fuel M P ess psrf_check parallelism num_threads w = Some x \<longrightarrow>
      slow_mmcs (fuel + j) M P ess psrf_check parallelism num_threads w = Some x)
   \<and>
   (fast_mmcs fuel M P ess psrf_check parallelism num_threads w = Some x \<longrightarrow>
      fast_mmcs (fuel + j) M P ess psrf_check parallelism num_threads w = Some x)"
proof (intro conjI impI)
  assume "slow_mmcs fuel M P ess psrf_check parallelism num_threads w = Some x"
  then show "slow_mmcs (fuel + j) M P ess psrf_check parallelism num_threads w = Some x"
    by (rule slow_mmcs_more_fuel)
next
  assume "fast_mmcs fuel M P ess psrf_check parallelism num_threads w = Some x"
  then show "fast_mmcs (fuel + j) M P ess psrf_check parallelism num_threads w = Some x"
    by (rule fast_mmcs_more_fuel)
next
  assume "mmcs_ints_convert ess num_threads"
  then show "slow_mmcs fuel M P ess psrf_check parallelism num_threads w \<noteq> None \<longleftrightarrow>
         converges_within fuel Slow (slow_inner_ball M) M (out_A P w) (out_b P w)
           (mmcs_start Slow (slow_inner_ball M) M P ess psrf_check parallelism num_threads w)"
    by (rule slow_mmcs_returns_iff)
next
  assume "mmcs_ints_convert ess num_threads \<and> fast_inner_ball M = Some f"
  then show "fast_mmcs fuel M P ess psrf_check parallelism num_threads w \<noteq> None \<longleftrightarrow>
         converges_within fuel Fast f M (out_A P w) (out_b P w)
           (mmcs_start Fast f M P ess psrf_check parallelism num_threads w)"
    using fast_mmcs_returns_iff by blast
next
  assume "mmcs_ints_convert ess num_threads \<and>
    slow_mmcs fuel M P ess psrf_check parallelism num_threads w = Some (res, P', w')"
  then show "mmcs_run_trace Slow (slow_inner_ball M)
        (Call_mmcs_initialize (shape1 (self_A P)) ess (bint psrf_check) (bint parallelism)
           num_threads)
        (mmcs_tail res P w w') (calls_since w w')"
    using slow_mmcs_run(5) by blast
next
  assume "mmcs_ints_convert ess num_threads \<and> fast_inner_ball M = Some f \<and>
    fast_mmcs fuel M P ess psrf_check parallelism num_threads w = Some (res, P', w')"
  then show "mmcs_run_trace Fast f
        (Call_mmcs_initialize (shape1 (self_A P)) ess (bint psrf_check) (bint parallelism)
           num_threads)
        (mmcs_tail res P w w') (calls_since w w')"
    using fast_mmcs_run(5) by blast
next
  assume no: "\<not> mmcs_ints_convert ess num_threads"
  show "slow_mmcs fuel M P ess psrf_check parallelism num_threads w =
        Some (Inl OverflowError, P, outputs_allocated P w)"
    by (rule slow_mmcs_overflow[OF no])
  show "fast_mmcs fuel M P ess psrf_check parallelism num_threads w =
        Some (Inl OverflowError, P, outputs_allocated P w)"
    by (rule fast_mmcs_overflow[OF no])
  show "calls_since w (outputs_allocated P w) = []"
    by (simp add: calls_since_def trace_outputs_allocated)
qed

text \<open>
  On the small instance the statuses are 3, 1/2 and 3/2: \<open>slow_mmcs\<close> and
  \<open>fast_mmcs\<close> return with fuel for three steps, \<open>slow_mmcs\<close> does not return with
  fuel for two, and the calls of the run of three phases have the shape of the claim.
  With \<open>ess = 2^31\<close> the run ends in \<open>OverflowError\<close>.
\<close>

theorem mmcs_phases_sequential_witness:
  "slow_mmcs (Suc (Suc (Suc 0))) demo_module demo_P 1000 True False 2 demo_world \<noteq> None \<and>
   fast_mmcs (Suc (Suc (Suc 0))) demo_module demo_P 1000 True False 2 demo_world \<noteq> None \<and>
   slow_mmcs (Suc (Suc 0)) demo_module demo_P 1000 True False 2 demo_world = None \<and>
   converges_within (Suc (Suc (Suc 0))) Slow demo_ball demo_module
     (out_A demo_P demo_world) (out_b demo_P demo_world)
     (mmcs_start Slow demo_ball demo_module demo_P 1000 True False 2 demo_world) \<and>
   \<not> converges_within (Suc (Suc 0)) Slow demo_ball demo_module
     (out_A demo_P demo_world) (out_b demo_P demo_world)
     (mmcs_start Slow demo_ball demo_module demo_P 1000 True False 2 demo_world) \<and>
   calls_since demo_world
     (snd (snd (the (slow_mmcs (Suc (Suc (Suc 0))) demo_module demo_P 1000 True False 2
                       demo_world)))) =
     [Call_mmcs_initialize 1 1000 1 0 2,
      Call_inner_ball Slow (2, 1, [1, - 1]) (2, [1, 1]) [0] 1,
      Call_mmcs_step [0] 1 3 2,
      Call_get_polytope_as_matrices (2, 1, [1, - 1]) (2, [2, 2]),
      Call_inner_ball Slow (2, 1, [1, - 1]) (2, [2, 2]) [0] 2,
      Call_mmcs_step [0] 2 (1 / 2) 2,
      Call_get_polytope_as_matrices (2, 1, [1, - 1]) (2, [3, 3]),
      Call_inner_ball Slow (2, 1, [1, - 1]) (2, [3, 3]) [0] 3,
      Call_mmcs_step [0] 3 (3 / 2) 2,
      Call_get_mmcs_samples,
      Call_get_polytope_as_matrices (2, 1, [1, - 1]) (2, [4, 4])] \<and>
   mmcs_run_trace Slow demo_ball (Call_mmcs_initialize 1 1000 1 0 2)
     [Call_get_mmcs_samples, Call_get_polytope_as_matrices (2, 1, [1, - 1]) (2, [4, 4])]
     [Call_mmcs_initialize 1 1000 1 0 2,
      Call_inner_ball Slow (2, 1, [1, - 1]) (2, [1, 1]) [0] 1,
      Call_mmcs_step [0] 1 3 2,
      Call_get_polytope_as_matrices (2, 1, [1, - 1]) (2, [2, 2]),
      Call_inner_ball Slow (2, 1, [1, - 1]) (2, [2, 2]) [0] 2,
      Call_mmcs_step [0] 2 (1 / 2) 2,
      Call_get_polytope_as_matrices (2, 1, [1, - 1]) (2, [3, 3]),
      Call_inner_ball Slow (2, 1, [1, - 1]) (2, [3, 3]) [0] 3,
      Call_mmcs_step [0] 3 (3 / 2) 2,
      Call_get_mmcs_samples,
      Call_get_polytope_as_matrices (2, 1, [1, - 1]) (2, [4, 4])] \<and>
   slow_mmcs (Suc 0) demo_module demo_P 2147483648 True False 2 demo_world =
     Some (Inl OverflowError, demo_P, outputs_allocated demo_P demo_world)"
proof -
  have slow: "slow_inner_ball demo_module = demo_ball"
    by (simp add: demo_module_def)
  have big: "\<not> mmcs_ints_convert 2147483648 2"
    by (simp add: mmcs_ints_convert_def in_int32_def)
  note t = mmcs_phases_sequential[where M = demo_module and P = demo_P and ess = 1000
      and psrf_check = True and parallelism = False and num_threads = 2 and w = demo_world]
  have r3: "slow_mmcs (Suc (Suc (Suc 0))) demo_module demo_P 1000 True False 2 demo_world \<noteq> None"
    by (simp add: demo_slow_run)
  have c3: "converges_within (Suc (Suc (Suc 0))) Slow demo_ball demo_module
     (out_A demo_P demo_world) (out_b demo_P demo_world)
     (mmcs_start Slow demo_ball demo_module demo_P 1000 True False 2 demo_world)"
    using t[where fuel = "Suc (Suc (Suc 0))", THEN conjunct1, rule_format, OF demo_ints] r3
    by (simp only: slow simp_thms)
  have c2: "\<not> converges_within (Suc (Suc 0)) Slow demo_ball demo_module
     (out_A demo_P demo_world) (out_b demo_P demo_world)
     (mmcs_start Slow demo_ball demo_module demo_P 1000 True False 2 demo_world)"
    using t[where fuel = "Suc (Suc 0)", THEN conjunct1, rule_format, OF demo_ints]
      demo_slow_run_out_of_fuel
    by (simp only: slow simp_thms)
  have tr: "mmcs_run_trace Slow demo_ball (Call_mmcs_initialize 1 1000 1 0 2)
     [Call_get_mmcs_samples, Call_get_polytope_as_matrices (2, 1, [1, - 1]) (2, [4, 4])]
     [Call_mmcs_initialize 1 1000 1 0 2,
      Call_inner_ball Slow (2, 1, [1, - 1]) (2, [1, 1]) [0] 1,
      Call_mmcs_step [0] 1 3 2,
      Call_get_polytope_as_matrices (2, 1, [1, - 1]) (2, [2, 2]),
      Call_inner_ball Slow (2, 1, [1, - 1]) (2, [2, 2]) [0] 2,
      Call_mmcs_step [0] 2 (1 / 2) 2,
      Call_get_polytope_as_matrices (2, 1, [1, - 1]) (2, [3, 3]),
      Call_inner_ball Slow (2, 1, [1, - 1]) (2, [3, 3]) [0] 3,
      Call_mmcs_step [0] 3 (3 / 2) 2,
      Call_get_mmcs_samples,
      Call_get_polytope_as_matrices (2, 1, [1, - 1]) (2, [4, 4])]"
    using t[where fuel = "Suc (Suc (Suc 0))", THEN conjunct2, THEN conjunct2, THEN conjunct1,
        rule_format, OF conjI[OF demo_ints demo_slow_run]]
    by (simp add: demo_defs mmcs_tail_def calls_since_def read2_def read1_def out_A_def
        out_b_def bint_def)
  have ov: "slow_mmcs (Suc 0) demo_module demo_P 2147483648 True False 2 demo_world =
     Some (Inl OverflowError, demo_P, outputs_allocated demo_P demo_world)"
    using mmcs_phases_sequential[where M = demo_module and P = demo_P and ess = 2147483648
      and psrf_check = True and parallelism = False and num_threads = 2 and w = demo_world
      and fuel = "Suc 0", THEN conjunct2, THEN conjunct2, THEN conjunct2, THEN conjunct2,
      THEN conjunct1, rule_format, OF big]
    by simp
  have f3: "fast_mmcs (Suc (Suc (Suc 0))) demo_module demo_P 1000 True False 2 demo_world \<noteq> None"
    by (simp add: demo_fast_run)
  have cs: "calls_since demo_world
     (snd (snd (the (slow_mmcs (Suc (Suc (Suc 0))) demo_module demo_P 1000 True False 2
                       demo_world)))) =
     [Call_mmcs_initialize 1 1000 1 0 2,
      Call_inner_ball Slow (2, 1, [1, - 1]) (2, [1, 1]) [0] 1,
      Call_mmcs_step [0] 1 3 2,
      Call_get_polytope_as_matrices (2, 1, [1, - 1]) (2, [2, 2]),
      Call_inner_ball Slow (2, 1, [1, - 1]) (2, [2, 2]) [0] 2,
      Call_mmcs_step [0] 2 (1 / 2) 2,
      Call_get_polytope_as_matrices (2, 1, [1, - 1]) (2, [3, 3]),
      Call_inner_ball Slow (2, 1, [1, - 1]) (2, [3, 3]) [0] 3,
      Call_mmcs_step [0] 3 (3 / 2) 2,
      Call_get_mmcs_samples,
      Call_get_polytope_as_matrices (2, 1, [1, - 1]) (2, [4, 4])]"
    unfolding demo_slow_run by (simp add: calls_since_def demo_world_def)
  from r3 f3 demo_slow_run_out_of_fuel c3 c2 cs tr ov show ?thesis
    by (intro conjI)
qed

lemma phase_trace_statuses:
  "phase_trace k f tail start evs \<Longrightarrow> step_statuses tail = [] \<Longrightarrow>
   step_statuses evs \<noteq> [] \<and> converged_status (last (step_statuses evs)) \<and>
   list_all (\<lambda>s. \<not> converged_status s) (butlast (step_statuses evs))"
proof (induction rule: phase_trace.induct)
  case (last_phase s p r n)
  then show ?case by (simp add: converged_status_def)
next
  case (next_phase s A b p' r' rest p r n)
  then show ?case by (simp add: converged_status_def)
qed

lemma mmcs_run_statuses:
  assumes "mmcs_run_trace k f (Call_mmcs_initialize d e ps pa nt) (mmcs_tail res P w w') evs"
  shows "step_statuses evs \<noteq> [] \<and> converged_status (last (step_statuses evs)) \<and>
         list_all (\<lambda>s. \<not> converged_status s) (butlast (step_statuses evs))"
  using assms
proof (cases rule: mmcs_run_trace.cases)
  case (run A0 b0 p0 r0 rest)
  have "step_statuses (mmcs_tail res P w w') = []"
    by (simp add: mmcs_tail_def)
  from phase_trace_statuses[OF run(3) this] run(1) show ?thesis by simp
qed

text \<open>
  Claim C2 as stated fails: the controller knows no failed status. On the small
  instance the first step reports the status 3, and the run goes on with two more
  phases.
\<close>

theorem run_continues_after_failed_status:
  "failed_status 3 \<and>
   map_option (\<lambda>(res, P', w'). step_statuses (calls_since demo_world w'))
     (slow_mmcs (Suc (Suc (Suc 0))) demo_module demo_P 1000 True False 2 demo_world) =
     Some [3, 1 / 2, 3 / 2]"
  unfolding demo_slow_run
  by (simp add: failed_status_def calls_since_def demo_world_def)

text \<open>
  Claim C2, amended. A status of 2 or more, or a negative one, does not end the run:
  the controller treats it as it treats every status outside the open interval from
  1 to 2, fetching the polytope, computing a new inner ball and running another
  phase. So a run whose first step reports such a status, and whose loop converges
  from the next phase on, returns. A run that returns has made at least one step; the
  statuses of its steps are the statuses of its successive phases; its last step, and
  no step before it, has a status strictly between 1 and 2. (This is for an \<open>ess\<close>
  and a \<open>num_threads\<close> that fit a C \<open>int\<close>; otherwise the run ends in
  \<open>OverflowError\<close> before any call. For \<open>fast_mmcs\<close>, gurobipy is imported.)
\<close>

theorem failed_status_does_not_end_run:
  fixes M :: "'c volestipy"
  defines "slow_start \<equiv> \<lambda>(M :: 'c volestipy) P ess psrf_check parallelism num_threads w.
     mmcs_start Slow (slow_inner_ball M) M P ess psrf_check parallelism num_threads w"
  shows
  "(cpp_mmcs_step (cpp M) c p r = (s, n, c1) \<and> failed_status s \<longrightarrow>
      slow_mmcs_loop (Suc k) M A b p r c w =
        (let (c2, w2) = fetch_polytope M A b c1 (log_call (Call_mmcs_step p r s n) w);
             ((p', r'), w3) = call_slow_inner_ball M A b w2
         in slow_mmcs_loop k M A b p' r' c2 w3) \<and>
      fast_mmcs_loop (Suc k) M A b p r c w =
        (let (c2, w2) = fetch_polytope M A b c1 (log_call (Call_mmcs_step p r s n) w)
         in case call_fast_inner_ball M A b w2 of
              Inl e \<Rightarrow> Some (Inl e, c2, w2)
            | Inr ((p', r'), w3) \<Rightarrow> fast_mmcs_loop k M A b p' r' c2 w3))
   \<and>
   (mmcs_ints_convert ess num_threads \<and>
    failed_status (phase_status M (slow_start M P ess psrf_check parallelism num_threads w)) \<and>
    converges_within fuel Slow (slow_inner_ball M) M (out_A P w) (out_b P w)
      (next_phase_state Slow (slow_inner_ball M) M (out_A P w) (out_b P w)
         (slow_start M P ess psrf_check parallelism num_threads w)) \<longrightarrow>
      slow_mmcs (Suc fuel) M P ess psrf_check parallelism num_threads w \<noteq> None \<and>
      slow_mmcs (Suc 0) M P ess psrf_check parallelism num_threads w = None)
   \<and>
   (mmcs_ints_convert ess num_threads \<and> fast_inner_ball M = Some f \<and>
    failed_status
      (phase_status M (mmcs_start Fast f M P ess psrf_check parallelism num_threads w)) \<and>
    converges_within fuel Fast f M (out_A P w) (out_b P w)
      (next_phase_state Fast f M (out_A P w) (out_b P w)
         (mmcs_start Fast f M P ess psrf_check parallelism num_threads w)) \<longrightarrow>
      fast_mmcs (Suc fuel) M P ess psrf_check parallelism num_threads w \<noteq> None \<and>
      fast_mmcs (Suc 0) M P ess psrf_check parallelism num_threads w = None)
   \<and>
   (slow_mmcs fuel M P ess psrf_check parallelism num_threads w = Some (res, P', w') \<longrightarrow>
      (if mmcs_ints_convert ess num_threads then
         (\<exists>m<fuel. step_statuses (calls_since w w') =
            map (\<lambda>n. phase_status M
                   (phase_state Slow (slow_inner_ball M) M (out_A P w) (out_b P w) n
                      (slow_start M P ess psrf_check parallelism num_threads w)))
              [0..<Suc m]) \<and>
         step_statuses (calls_since w w') \<noteq> [] \<and>
         converged_status (last (step_statuses (calls_since w w'))) \<and>
         list_all (\<lambda>s. \<not> converged_status s) (butlast (step_statuses (calls_since w w')))
       else res = Inl OverflowError \<and> calls_since w w' = []))
   \<and>
   (fast_inner_ball M = Some f \<and>
    fast_mmcs fuel M P ess psrf_check parallelism num_threads w = Some (res, P', w') \<longrightarrow>
      (if mmcs_ints_convert ess num_threads then
         (\<exists>m<fuel. step_statuses (calls_since w w') =
            map (\<lambda>n. phase_status M
                   (phase_state Fast f M (out_A P w) (out_b P w) n
                      (mmcs_start Fast f M P ess psrf_check parallelism num_threads w)))
              [0..<Suc m]) \<and>
         step_statuses (calls_since w w') \<noteq> [] \<and>
         converged_status (last (step_statuses (calls_since w w'))) \<and>
         list_all (\<lambda>s. \<not> converged_status s) (butlast (step_statuses (calls_since w w')))
       else res = Inl OverflowError \<and> calls_since w w' = []))"
proof -
  have failed_not_converged: "\<not> converged_status t" if "failed_status t" for t
    using that by (auto simp: failed_status_def converged_status_def)
  have c1: "cpp_mmcs_step (cpp M) c p r = (s, n, c1) \<and> failed_status s \<longrightarrow>
      slow_mmcs_loop (Suc k) M A b p r c w =
        (let (c2, w2) = fetch_polytope M A b c1 (log_call (Call_mmcs_step p r s n) w);
             ((p', r'), w3) = call_slow_inner_ball M A b w2
         in slow_mmcs_loop k M A b p' r' c2 w3) \<and>
      fast_mmcs_loop (Suc k) M A b p r c w =
        (let (c2, w2) = fetch_polytope M A b c1 (log_call (Call_mmcs_step p r s n) w)
         in case call_fast_inner_ball M A b w2 of
              Inl e \<Rightarrow> Some (Inl e, c2, w2)
            | Inr ((p', r'), w3) \<Rightarrow> fast_mmcs_loop k M A b p' r' c2 w3)"
  proof (intro impI conjI)
    assume a: "cpp_mmcs_step (cpp M) c p r = (s, n, c1) \<and> failed_status s"
    then have step: "cpp_mmcs_step (cpp M) c p r = (s, n, c1)" and no: "\<not> (1 < s \<and> s < 2)"
      by (auto simp: failed_status_def)
    show "slow_mmcs_loop (Suc k) M A b p r c w =
          (let (c2, w2) = fetch_polytope M A b c1 (log_call (Call_mmcs_step p r s n) w);
               ((p', r'), w3) = call_slow_inner_ball M A b w2
           in slow_mmcs_loop k M A b p' r' c2 w3)"
      by (rule slow_loop_continue[OF step no])
    show "fast_mmcs_loop (Suc k) M A b p r c w =
          (let (c2, w2) = fetch_polytope M A b c1 (log_call (Call_mmcs_step p r s n) w)
           in case call_fast_inner_ball M A b w2 of
                Inl e \<Rightarrow> Some (Inl e, c2, w2)
              | Inr ((p', r'), w3) \<Rightarrow> fast_mmcs_loop k M A b p' r' c2 w3)"
      by (rule fast_loop_continue[OF step no])
  qed
  have c2: "mmcs_ints_convert ess num_threads \<and>
    failed_status (phase_status M (slow_start M P ess psrf_check parallelism num_threads w)) \<and>
    converges_within fuel Slow (slow_inner_ball M) M (out_A P w) (out_b P w)
      (next_phase_state Slow (slow_inner_ball M) M (out_A P w) (out_b P w)
         (slow_start M P ess psrf_check parallelism num_threads w)) \<longrightarrow>
      slow_mmcs (Suc fuel) M P ess psrf_check parallelism num_threads w \<noteq> None \<and>
      slow_mmcs (Suc 0) M P ess psrf_check parallelism num_threads w = None"
  proof (intro impI)
    assume a: "mmcs_ints_convert ess num_threads \<and>
      failed_status (phase_status M (slow_start M P ess psrf_check parallelism num_threads w)) \<and>
      converges_within fuel Slow (slow_inner_ball M) M (out_A P w) (out_b P w)
        (next_phase_state Slow (slow_inner_ball M) M (out_A P w) (out_b P w)
           (slow_start M P ess psrf_check parallelism num_threads w))"
    then have ints: "mmcs_ints_convert ess num_threads" by simp
    from a have nc: "\<not> converged_status
        (phase_status M (slow_start M P ess psrf_check parallelism num_threads w))"
      by (simp add: failed_not_converged)
    from a have "converges_within (Suc fuel) Slow (slow_inner_ball M) M (out_A P w) (out_b P w)
        (slow_start M P ess psrf_check parallelism num_threads w)"
      by (simp add: converges_within_Suc)
    then have r: "slow_mmcs (Suc fuel) M P ess psrf_check parallelism num_threads w \<noteq> None"
      using slow_mmcs_returns_iff[OF ints, of "Suc fuel" M P psrf_check parallelism w]
      unfolding slow_start_def by blast
    from nc have "\<not> converges_within (Suc 0) Slow (slow_inner_ball M) M (out_A P w) (out_b P w)
        (slow_start M P ess psrf_check parallelism num_threads w)"
      by (simp add: converges_within_Suc converges_within_def)
    then have "slow_mmcs (Suc 0) M P ess psrf_check parallelism num_threads w = None"
      using slow_mmcs_returns_iff[OF ints, of "Suc 0" M P psrf_check parallelism w]
      unfolding slow_start_def by blast
    with r show "slow_mmcs (Suc fuel) M P ess psrf_check parallelism num_threads w \<noteq> None \<and>
      slow_mmcs (Suc 0) M P ess psrf_check parallelism num_threads w = None"
      by (intro conjI)
  qed
  have c3: "mmcs_ints_convert ess num_threads \<and> fast_inner_ball M = Some f \<and>
    failed_status
      (phase_status M (mmcs_start Fast f M P ess psrf_check parallelism num_threads w)) \<and>
    converges_within fuel Fast f M (out_A P w) (out_b P w)
      (next_phase_state Fast f M (out_A P w) (out_b P w)
         (mmcs_start Fast f M P ess psrf_check parallelism num_threads w)) \<longrightarrow>
      fast_mmcs (Suc fuel) M P ess psrf_check parallelism num_threads w \<noteq> None \<and>
      fast_mmcs (Suc 0) M P ess psrf_check parallelism num_threads w = None"
  proof (intro impI)
    assume a: "mmcs_ints_convert ess num_threads \<and> fast_inner_ball M = Some f \<and>
      failed_status
        (phase_status M (mmcs_start Fast f M P ess psrf_check parallelism num_threads w)) \<and>
      converges_within fuel Fast f M (out_A P w) (out_b P w)
        (next_phase_state Fast f M (out_A P w) (out_b P w)
           (mmcs_start Fast f M P ess psrf_check parallelism num_threads w))"
    then have ints: "mmcs_ints_convert ess num_threads" and f: "fast_inner_ball M = Some f"
      by simp_all
    from a have nc: "\<not> converged_status
        (phase_status M (mmcs_start Fast f M P ess psrf_check parallelism num_threads w))"
      by (simp add: failed_not_converged)
    from a have "converges_within (Suc fuel) Fast f M (out_A P w) (out_b P w)
        (mmcs_start Fast f M P ess psrf_check parallelism num_threads w)"
      by (simp add: converges_within_Suc)
    then have r: "fast_mmcs (Suc fuel) M P ess psrf_check parallelism num_threads w \<noteq> None"
      using fast_mmcs_returns_iff[OF ints f, of "Suc fuel" P psrf_check parallelism w]
      by blast
    from nc have "\<not> converges_within (Suc 0) Fast f M (out_A P w) (out_b P w)
        (mmcs_start Fast f M P ess psrf_check parallelism num_threads w)"
      by (simp add: converges_within_Suc converges_within_def)
    then have "fast_mmcs (Suc 0) M P ess psrf_check parallelism num_threads w = None"
      using fast_mmcs_returns_iff[OF ints f, of "Suc 0" P psrf_check parallelism w]
      by blast
    with r show "fast_mmcs (Suc fuel) M P ess psrf_check parallelism num_threads w \<noteq> None \<and>
      fast_mmcs (Suc 0) M P ess psrf_check parallelism num_threads w = None"
      by (intro conjI)
  qed
  have c4: "slow_mmcs fuel M P ess psrf_check parallelism num_threads w = Some (res, P', w') \<longrightarrow>
      (if mmcs_ints_convert ess num_threads then
         (\<exists>m<fuel. step_statuses (calls_since w w') =
            map (\<lambda>n. phase_status M
                   (phase_state Slow (slow_inner_ball M) M (out_A P w) (out_b P w) n
                      (slow_start M P ess psrf_check parallelism num_threads w)))
              [0..<Suc m]) \<and>
         step_statuses (calls_since w w') \<noteq> [] \<and>
         converged_status (last (step_statuses (calls_since w w'))) \<and>
         list_all (\<lambda>s. \<not> converged_status s) (butlast (step_statuses (calls_since w w')))
       else res = Inl OverflowError \<and> calls_since w w' = [])"
  proof
    assume run: "slow_mmcs fuel M P ess psrf_check parallelism num_threads w = Some (res, P', w')"
    show "if mmcs_ints_convert ess num_threads then
         (\<exists>m<fuel. step_statuses (calls_since w w') =
            map (\<lambda>n. phase_status M
                   (phase_state Slow (slow_inner_ball M) M (out_A P w) (out_b P w) n
                      (slow_start M P ess psrf_check parallelism num_threads w)))
              [0..<Suc m]) \<and>
         step_statuses (calls_since w w') \<noteq> [] \<and>
         converged_status (last (step_statuses (calls_since w w'))) \<and>
         list_all (\<lambda>s. \<not> converged_status s) (butlast (step_statuses (calls_since w w')))
       else res = Inl OverflowError \<and> calls_since w w' = []"
    proof (cases "mmcs_ints_convert ess num_threads")
      case True
      from mmcs_run_statuses[OF slow_mmcs_run(5)[OF True run]]
        slow_mmcs_statuses[OF True run] True
      show ?thesis unfolding slow_start_def by simp
    next
      case False
      with run show ?thesis
        by (auto simp: slow_mmcs_overflow calls_since_def trace_outputs_allocated)
    qed
  qed
  have c5: "fast_inner_ball M = Some f \<and>
    fast_mmcs fuel M P ess psrf_check parallelism num_threads w = Some (res, P', w') \<longrightarrow>
      (if mmcs_ints_convert ess num_threads then
         (\<exists>m<fuel. step_statuses (calls_since w w') =
            map (\<lambda>n. phase_status M
                   (phase_state Fast f M (out_A P w) (out_b P w) n
                      (mmcs_start Fast f M P ess psrf_check parallelism num_threads w)))
              [0..<Suc m]) \<and>
         step_statuses (calls_since w w') \<noteq> [] \<and>
         converged_status (last (step_statuses (calls_since w w'))) \<and>
         list_all (\<lambda>s. \<not> converged_status s) (butlast (step_statuses (calls_since w w')))
       else res = Inl OverflowError \<and> calls_since w w' = [])"
  proof
    assume a: "fast_inner_ball M = Some f \<and>
      fast_mmcs fuel M P ess psrf_check parallelism num_threads w = Some (res, P', w')"
    then have f: "fast_inner_ball M = Some f"
      and run: "fast_mmcs fuel M P ess psrf_check parallelism num_threads w = Some (res, P', w')"
      by simp_all
    show "if mmcs_ints_convert ess num_threads then
         (\<exists>m<fuel. step_statuses (calls_since w w') =
            map (\<lambda>n. phase_status M
                   (phase_state Fast f M (out_A P w) (out_b P w) n
                      (mmcs_start Fast f M P ess psrf_check parallelism num_threads w)))
              [0..<Suc m]) \<and>
         step_statuses (calls_since w w') \<noteq> [] \<and>
         converged_status (last (step_statuses (calls_since w w'))) \<and>
         list_all (\<lambda>s. \<not> converged_status s) (butlast (step_statuses (calls_since w w')))
       else res = Inl OverflowError \<and> calls_since w w' = []"
    proof (cases "mmcs_ints_convert ess num_threads")
      case True
      from mmcs_run_statuses[OF fast_mmcs_run(5)[OF True f run]]
        fast_mmcs_statuses[OF True f run] True
      show ?thesis by simp
    next
      case False
      with run show ?thesis
        by (auto simp: fast_mmcs_overflow calls_since_def trace_outputs_allocated)
    qed
  qed
  from c1 c2 c3 c4 c5 show ?thesis by (intro conjI)
qed

text \<open>
  On the small instance: after the status 3 the loop goes on from the new inner ball;
  the first step of the run reports the failed status 3, the run does not return with
  fuel for one step and returns with fuel for three, and the statuses of the whole
  run are 3, 1/2 and 3/2.
\<close>

theorem failed_status_does_not_end_run_witness:
  "failed_status 3 \<and>
   slow_mmcs_loop (Suc (Suc 0)) demo_module \<lparr>data2 = 3, shape0 = 2, shape1 = 1\<rparr>
       \<lparr>data1 = 4, len1 = 2\<rparr> [0] 1 0
       \<lparr>heap = [[1, - 1], [1, 1], [1, 1, 1], [0, 0], [0, 0], [0], [0]], trace = [],
        wall_clock = 0\<rparr> =
     slow_mmcs_loop (Suc 0) demo_module \<lparr>data2 = 3, shape0 = 2, shape1 = 1\<rparr>
       \<lparr>data1 = 4, len1 = 2\<rparr> [0] 2 1
       \<lparr>heap = [[1, - 1], [1, 1], [1, 1, 1], [1, - 1], [2, 2], [0], [0]],
        trace = [Call_mmcs_step [0] 1 3 2,
                 Call_get_polytope_as_matrices (2, 1, [1, - 1]) (2, [2, 2]),
                 Call_inner_ball Slow (2, 1, [1, - 1]) (2, [2, 2]) [0] 2],
        wall_clock = 0\<rparr> \<and>
   phase_status demo_module
     (mmcs_start Slow demo_ball demo_module demo_P 1000 True False 2 demo_world) = 3 \<and>
   slow_mmcs (Suc 0) demo_module demo_P 1000 True False 2 demo_world = None \<and>
   slow_mmcs (Suc (Suc (Suc 0))) demo_module demo_P 1000 True False 2 demo_world \<noteq> None \<and>
   fast_mmcs (Suc (Suc (Suc 0))) demo_module demo_P 1000 True False 2 demo_world \<noteq> None \<and>
   step_statuses (calls_since demo_world
     (snd (snd (the (fast_mmcs (Suc (Suc (Suc 0))) demo_module demo_P 1000 True False 2
                       demo_world))))) = [3, 1 / 2, 3 / 2] \<and>
   converged_status (3 / 2) \<and> \<not> converged_status 3 \<and> \<not> converged_status (1 / 2)"
proof -
  let ?A = "\<lparr>data2 = 3, shape0 = 2, shape1 = 1\<rparr>"
  let ?b = "\<lparr>data1 = 4, len1 = 2\<rparr>"
  let ?w = "\<lparr>heap = [[1, - 1], [1, 1], [1, 1, 1], [0, 0], [0, 0], [0], [0]], trace = [],
             wall_clock = 0\<rparr>"
  let ?w2 = "\<lparr>heap = [[1, - 1], [1, 1], [1, 1, 1], [1, - 1], [2, 2], [0], [0]],
              trace = [Call_mmcs_step [0] 1 3 2,
                       Call_get_polytope_as_matrices (2, 1, [1, - 1]) (2, [2, 2])],
              wall_clock = 0\<rparr>"
  let ?w3 = "\<lparr>heap = [[1, - 1], [1, 1], [1, 1, 1], [1, - 1], [2, 2], [0], [0]],
              trace = [Call_mmcs_step [0] 1 3 2,
                       Call_get_polytope_as_matrices (2, 1, [1, - 1]) (2, [2, 2]),
                       Call_inner_ball Slow (2, 1, [1, - 1]) (2, [2, 2]) [0] 2],
              wall_clock = 0\<rparr>"
  let ?start = "mmcs_start Slow demo_ball demo_module demo_P 1000 True False 2 demo_world"
  have step: "cpp_mmcs_step (cpp demo_module) 0 [0] 1 = (3, 2, 1) \<and> failed_status 3"
    by (simp add: demo_defs failed_status_def)
  have fetch: "fetch_polytope demo_module ?A ?b 1 (log_call (Call_mmcs_step [0] 1 3 2) ?w) =
      (1, ?w2)"
    by (simp add: demo_defs world_defs)
  have ball: "call_slow_inner_ball demo_module ?A ?b ?w2 = (([0], 2), ?w3)"
    by (simp add: demo_defs world_defs)
  have f: "fast_inner_ball demo_module = Some demo_ball"
    by (simp add: demo_defs)
  have slow: "slow_inner_ball demo_module = demo_ball"
    by (simp add: demo_module_def)
  have st: "phase_status demo_module ?start = 3"
    by (simp add: phase_status_def mmcs_start_def mmcs_init_cpp_def demo_defs Let_def
        split_beta)
  then have fs: "failed_status (phase_status demo_module ?start)"
    by (simp add: failed_status_def)
  have "slow_mmcs (Suc (Suc (Suc 0))) demo_module demo_P 1000 True False 2 demo_world \<noteq> None"
    by (simp add: demo_slow_run)
  then have cw3: "converges_within (Suc (Suc (Suc 0))) Slow demo_ball demo_module
      (out_A demo_P demo_world) (out_b demo_P demo_world) ?start"
    using slow_mmcs_returns_iff[OF demo_ints, of "Suc (Suc (Suc 0))" demo_module demo_P True
        False demo_world]
    by (simp only: slow simp_thms)
  have nc: "\<not> converged_status (phase_status demo_module ?start)"
    by (simp add: st converged_status_def)
  from cw3 nc have cw2: "converges_within (Suc (Suc 0)) Slow demo_ball demo_module
      (out_A demo_P demo_world) (out_b demo_P demo_world)
      (next_phase_state Slow demo_ball demo_module (out_A demo_P demo_world)
         (out_b demo_P demo_world) ?start)"
    by (simp only: converges_within_Suc simp_thms)
  from failed_status_does_not_end_run[THEN conjunct1, rule_format, OF step]
  have l: "slow_mmcs_loop (Suc (Suc 0)) demo_module ?A ?b [0] 1 0 ?w =
          slow_mmcs_loop (Suc 0) demo_module ?A ?b [0] 2 1 ?w3"
    by (simp only: fetch ball Let_def prod.case)
  from failed_status_does_not_end_run[where M = demo_module and P = demo_P and ess = 1000
      and psrf_check = True and parallelism = False and num_threads = 2 and w = demo_world
      and fuel = "Suc (Suc 0)", THEN conjunct2, THEN conjunct1, rule_format,
      unfolded slow, OF conjI[OF demo_ints conjI[OF fs cw2]]]
  have r: "slow_mmcs (Suc (Suc (Suc 0))) demo_module demo_P 1000 True False 2 demo_world \<noteq> None"
    "slow_mmcs (Suc 0) demo_module demo_P 1000 True False 2 demo_world = None"
    by simp_all
  from failed_status_does_not_end_run[THEN conjunct2, THEN conjunct2, THEN conjunct2,
      THEN conjunct2, rule_format, OF conjI[OF f demo_fast_run]]
  have ss: "step_statuses (calls_since demo_world
     (snd (snd (the (fast_mmcs (Suc (Suc (Suc 0))) demo_module demo_P 1000 True False 2
                       demo_world))))) = [3, 1 / 2, 3 / 2]"
    unfolding demo_fast_run by (simp add: calls_since_def demo_world_def)
  have f3: "fast_mmcs (Suc (Suc (Suc 0))) demo_module demo_P 1000 True False 2 demo_world \<noteq> None"
    by (simp add: demo_fast_run)
  have misc: "failed_status 3" "converged_status (3 / 2)" "\<not> converged_status 3"
    "\<not> converged_status (1 / 2)"
    by (simp_all add: failed_status_def converged_status_def)
  from misc(1) l st r(2) r(1) f3 ss misc(2-4) show ?thesis
    by (intro conjI)
qed

subsection \<open>The stored polytope\<close>

lemma store_kept_refl: "store_kept w w"
  by (simp add: store_kept_def)

lemma store_kept_nth:
  assumes "store_kept w w'" and "a < length (heap w)"
  shows "heap w' ! a = heap w ! a" and "a < length (heap w')"
proof -
  from assms(1) have t: "take (length (heap w)) (heap w') = heap w"
    by (simp add: store_kept_def)
  have "length (take (length (heap w)) (heap w')) \<le> length (heap w')"
    by simp
  then have "length (heap w) \<le> length (heap w')"
    by (simp only: t)
  with assms(2) show "a < length (heap w')" by simp
  from assms(2) have "heap w ! a = take (length (heap w)) (heap w') ! a"
    by (simp add: t)
  with assms(2) show "heap w' ! a = heap w ! a" by simp
qed

lemma polytope_keptI:
  assumes "in_store P w" and "self_A P' = self_A P" and "self_b P' = self_b P"
    and "store_kept w w'"
  shows "polytope_kept P w P' w'"
  using assms store_kept_nth[OF assms(4)]
  by (simp add: polytope_kept_def in_store_def HPolytope_A_def HPolytope_b_def
      HPolytope_dimension_def read2_def read1_def)

lemma compute_volume_frame:
  assumes "compute_volume M P walk_len epsilon vol_method walk_method seed w = (res, P', w')"
  shows "self_A P' = self_A P" and "self_b P' = self_b P" and "store_kept w w'"
  using assms
  by (auto simp: compute_volume_def Let_def split_beta log_call_def store_kept_def
      split: if_splits)

lemma generate_samples_frame:
  assumes "generate_samples M P sampling_method number_of_points number_of_points_to_burn
             walk_len fast_mode w = (res, P', w')"
  shows "self_A P' = self_A P" and "self_b P' = self_b P" and "store_kept w w'"
    and "\<And>samples. res = Inr samples \<Longrightarrow> fresh w (data2 samples)"
  using assms
  by (auto simp: generate_samples_def Let_def split_beta np_zeros_2d_int_def np_zeros_2d_def
      inner_ball_by_mode_def call_fast_inner_ball_def call_slow_inner_ball_def log_call_def
      poke_def store_kept_def fresh_def
      split: if_splits sum.splits option.splits)

lemma rounding_frame:
  assumes "rounding M P rounding_method fast_mode w = (res, P', w')"
  shows "self_A P' = self_A P" and "self_b P' = self_b P" and "store_kept w w'"
    and "\<And>v. res = Inr v \<Longrightarrow>
          (\<exists>round_value. v = (out_A P w, out_b P w, out_T P w, out_shift P w, round_value))"
  using assms
  by (auto simp: rounding_def Let_def split_beta np_zeros_2d_def np_zeros_1d_def
      inner_ball_by_mode_def call_fast_inner_ball_def call_slow_inner_ball_def log_call_def
      poke_def store_kept_def out_A_def out_b_def out_T_def out_shift_def numeral_3_eq_3
      split: if_splits sum.splits option.splits)


lemma mmcs_finish_result:
  assumes "mmcs_finish M P new_A new_b T_matrix T_shift (x, c, w) = (Inr v, P', w')"
  shows "\<exists>samples. v = (new_A, new_b, T_matrix, T_shift, samples) \<and>
                   data2 samples = length (heap w)"
  using assms
  by (auto simp: mmcs_finish_def Let_def split_beta np_zeros_2d_int_def np_zeros_2d_def
      split: sum.splits if_splits)

lemma store_kept_outputs_allocated: "store_kept w (outputs_allocated P w)"
  by (simp add: store_kept_def trace_outputs_allocated_heap)

lemma slow_mmcs_frame:
  assumes run: "slow_mmcs fuel M P ess psrf_check parallelism num_threads w = Some (res, P', w')"
  shows "self_A P' = self_A P" and "self_b P' = self_b P" and "store_kept w w'"
    and "\<And>v. res = Inr v \<Longrightarrow>
          (\<exists>samples. v = (out_A P w, out_b P w, out_T P w, out_shift P w, samples) \<and>
                     fresh w (data2 samples))"
proof -
  let ?w5 = "mmcs_initialized P ess psrf_check parallelism num_threads w"
  let ?c = "mmcs_init_cpp M P ess psrf_check parallelism num_threads"
  show "self_A P' = self_A P" and "self_b P' = self_b P" and "store_kept w w'"
  proof (atomize (full), cases "mmcs_ints_convert ess num_threads")
    case False
    with run have "P' = P" "w' = outputs_allocated P w"
      by (auto simp: slow_mmcs_overflow)
    then show "self_A P' = self_A P \<and> self_b P' = self_b P \<and> store_kept w w'"
      by (simp add: store_kept_outputs_allocated)
  next
    case True
    from slow_mmcs_run(1-3)[OF True run]
    show "self_A P' = self_A P \<and> self_b P' = self_b P \<and> store_kept w w'"
      by simp
  qed
  fix v
  assume v: "res = Inr v"
  show "\<exists>samples. v = (out_A P w, out_b P w, out_T P w, out_shift P w, samples) \<and>
                     fresh w (data2 samples)"
  proof (cases "mmcs_ints_convert ess num_threads")
    case False
    with run v show ?thesis by (simp add: slow_mmcs_overflow)
  next
    case ints: True
    obtain p0 r0 w6 where ball: "call_slow_inner_ball M (self_A P) (self_b P) ?w5 = ((p0, r0), w6)"
      by (metis prod.collapse)
    have w6: "w6 = log_call (Call_inner_ball Slow (read2 ?w5 (self_A P)) (read1 ?w5 (self_b P)) p0 r0) ?w5"
      using call_slow_inner_ball_world[OF ball] by simp
    from run v ball obtain x c7 w7 where
      loop: "slow_mmcs_loop fuel M (out_A P w) (out_b P w) p0 r0 ?c w6 = Some (x, c7, w7)"
      and fin: "mmcs_finish M P (out_A P w) (out_b P w) (out_T P w) (out_shift P w) (x, c7, w7) =
                  (Inr v, P', w')"
      by (auto simp: slow_mmcs_staged[OF ints])
    from slow_loop_run[where ?n0.0 = 0, OF _ _ loop] have "length (heap w7) = length (heap w6)"
      by blast
    then have "length (heap w7) = length (heap w) + 4"
      by (simp add: w6 world_simps mmcs_initialized_world)
    with mmcs_finish_result[OF fin] show ?thesis
      by (auto simp: fresh_def)
  qed
qed

lemma fast_mmcs_frame:
  assumes run: "fast_mmcs fuel M P ess psrf_check parallelism num_threads w = Some (res, P', w')"
  shows "self_A P' = self_A P" and "self_b P' = self_b P" and "store_kept w w'"
    and "\<And>v. res = Inr v \<Longrightarrow>
          (\<exists>samples. v = (out_A P w, out_b P w, out_T P w, out_shift P w, samples) \<and>
                     fresh w (data2 samples))"
proof -
  let ?w5 = "mmcs_initialized P ess psrf_check parallelism num_threads w"
  let ?c = "mmcs_init_cpp M P ess psrf_check parallelism num_threads"
  show "self_A P' = self_A P" and "self_b P' = self_b P" and "store_kept w w'"
  proof (atomize (full), cases "mmcs_ints_convert ess num_threads")
    case False
    with run have "P' = P" "w' = outputs_allocated P w"
      by (auto simp: fast_mmcs_overflow)
    then show "self_A P' = self_A P \<and> self_b P' = self_b P \<and> store_kept w w'"
      by (simp add: store_kept_outputs_allocated)
  next
    case ints: True
    show "self_A P' = self_A P \<and> self_b P' = self_b P \<and> store_kept w w'"
    proof (cases "fast_inner_ball M")
      case None
      with run have "P' = P\<lparr>polytope_cpp := ?c\<rparr>" "w' = ?w5"
        by (simp_all add: fast_mmcs_without_gurobi[OF ints])
      then show ?thesis
        by (simp add: store_kept_def mmcs_initialized_world)
    next
      case (Some f)
      from fast_mmcs_run(1-3)[OF ints Some run] show ?thesis
        by simp
    qed
  qed
  fix v
  assume v: "res = Inr v"
  show "\<exists>samples. v = (out_A P w, out_b P w, out_T P w, out_shift P w, samples) \<and>
                     fresh w (data2 samples)"
  proof (cases "mmcs_ints_convert ess num_threads")
    case False
    with run v show ?thesis by (simp add: fast_mmcs_overflow)
  next
    case ints: True
    show ?thesis
    proof (cases "fast_inner_ball M")
      case None
      with run v show ?thesis
        by (simp add: fast_mmcs_without_gurobi[OF ints])
    next
      case (Some f)
      obtain p0 r0 where pr0: "f (read2 ?w5 (self_A P)) (read1 ?w5 (self_b P)) = (p0, r0)"
        by (cases "f (read2 ?w5 (self_A P)) (read1 ?w5 (self_b P))")
      define w6 where
        "w6 = log_call (Call_inner_ball Fast (read2 ?w5 (self_A P)) (read1 ?w5 (self_b P)) p0 r0) ?w5"
      have ball: "call_fast_inner_ball M (self_A P) (self_b P) ?w5 = Inr ((p0, r0), w6)"
        by (simp add: call_fast_inner_ball_Some[OF Some] pr0 w6_def)
      from run v ball obtain x c7 w7 where
        loop: "fast_mmcs_loop fuel M (out_A P w) (out_b P w) p0 r0 ?c w6 = Some (x, c7, w7)"
        and fin: "mmcs_finish M P (out_A P w) (out_b P w) (out_T P w) (out_shift P w) (x, c7, w7) =
                    (Inr v, P', w')"
        by (auto simp: fast_mmcs_staged[OF ints])
      from fast_loop_run[where ?n0.0 = 0, OF Some _ _ loop] have "length (heap w7) = length (heap w6)"
        by blast
      then have "length (heap w7) = length (heap w) + 4"
        by (simp add: w6_def world_simps mmcs_initialized_world)
      with mmcs_finish_result[OF fin] show ?thesis
        by (auto simp: fresh_def)
    qed
  qed
qed

lemma HPolytope_cinit_stores:
  assumes "HPolytope_cinit M A b w0 = (Inr P0, w1)"
    and "data2 A < length (heap w0)" and "data1 b < length (heap w0)"
  shows "in_store P0 w1" and "HPolytope_A P0 w1 = read2 w0 A"
    and "HPolytope_b P0 w1 = read1 w0 b" and "HPolytope_dimension P0 = shape1 A"
  using assms
  by (auto simp: HPolytope_cinit_def Let_def log_call_def in_store_def HPolytope_A_def
      HPolytope_b_def HPolytope_dimension_def read2_def read1_def split: option.splits)

text \<open>
  Claim C9. The stored polytope is never written after the construction. The
  construction stores the arrays it is passed; and after \<open>compute_volume\<close>,
  \<open>generate_samples\<close>, \<open>rounding\<close>, \<open>fast_mmcs\<close> or \<open>slow_mmcs\<close>, whether the call
  returned or raised, \<open>A()\<close>, \<open>b()\<close> and \<open>dimension()\<close> give what they gave before
  the call. The arrays that \<open>generate_samples\<close>, \<open>rounding\<close> and the MMCS operations
  return are allocated by the call: at addresses where the world before the call had
  no array. (The C++ side and the inner-ball functions are taken to read the buffers
  they are handed and to write only through the output pointers of the call.)
\<close>

theorem stored_polytope_never_mutated:
  "(data2 A < length (heap w0) \<and> data1 b < length (heap w0) \<and>
    HPolytope_cinit M A b w0 = (Inr P, w) \<longrightarrow>
      in_store P w \<and> HPolytope_A P w = read2 w0 A \<and> HPolytope_b P w = read1 w0 b \<and>
      HPolytope_dimension P = shape1 A)
   \<and>
   (in_store P w \<and>
    compute_volume M P walk_len epsilon vol_method walk_method seed w = (res1, P1, w1) \<longrightarrow>
      polytope_kept P w P1 w1)
   \<and>
   (in_store P w \<and>
    generate_samples M P sampling_method number_of_points number_of_points_to_burn walk_len
      fast_mode w = (res2, P2, w2) \<longrightarrow>
      polytope_kept P w P2 w2 \<and> (\<forall>samples. res2 = Inr samples \<longrightarrow> fresh w (data2 samples)))
   \<and>
   (in_store P w \<and> rounding M P rounding_method fast_mode w = (res3, P3, w3) \<longrightarrow>
      polytope_kept P w P3 w3 \<and>
      (\<forall>new_A new_b T_matrix shift round_value.
         res3 = Inr (new_A, new_b, T_matrix, shift, round_value) \<longrightarrow>
           fresh w (data2 new_A) \<and> fresh w (data1 new_b) \<and> fresh w (data2 T_matrix) \<and>
           fresh w (data1 shift)))
   \<and>
   (in_store P w \<and>
    fast_mmcs fuel M P ess psrf_check parallelism num_threads w = Some (res4, P4, w4) \<longrightarrow>
      polytope_kept P w P4 w4 \<and>
      (\<forall>new_A new_b T_matrix T_shift samples.
         res4 = Inr (new_A, new_b, T_matrix, T_shift, samples) \<longrightarrow>
           fresh w (data2 new_A) \<and> fresh w (data1 new_b) \<and> fresh w (data2 T_matrix) \<and>
           fresh w (data1 T_shift) \<and> fresh w (data2 samples)))
   \<and>
   (in_store P w \<and>
    slow_mmcs fuel M P ess psrf_check parallelism num_threads w = Some (res5, P5, w5) \<longrightarrow>
      polytope_kept P w P5 w5 \<and>
      (\<forall>new_A new_b T_matrix T_shift samples.
         res5 = Inr (new_A, new_b, T_matrix, T_shift, samples) \<longrightarrow>
           fresh w (data2 new_A) \<and> fresh w (data1 new_b) \<and> fresh w (data2 T_matrix) \<and>
           fresh w (data1 T_shift) \<and> fresh w (data2 samples)))"
proof -
  have outs: "fresh w (data2 (out_A P w))" "fresh w (data1 (out_b P w))"
    "fresh w (data2 (out_T P w))" "fresh w (data1 (out_shift P w))"
    by (simp_all add: fresh_def out_A_def out_b_def out_T_def out_shift_def)
  have c0: "data2 A < length (heap w0) \<and> data1 b < length (heap w0) \<and>
    HPolytope_cinit M A b w0 = (Inr P, w) \<longrightarrow>
      in_store P w \<and> HPolytope_A P w = read2 w0 A \<and> HPolytope_b P w = read1 w0 b \<and>
      HPolytope_dimension P = shape1 A"
    using HPolytope_cinit_stores[of M A b w0 P w] by simp
  have c1: "in_store P w \<and>
    compute_volume M P walk_len epsilon vol_method walk_method seed w = (res1, P1, w1) \<longrightarrow>
      polytope_kept P w P1 w1"
  proof
    assume a: "in_store P w \<and>
      compute_volume M P walk_len epsilon vol_method walk_method seed w = (res1, P1, w1)"
    then have r: "compute_volume M P walk_len epsilon vol_method walk_method seed w = (res1, P1, w1)"
      by simp
    from a polytope_keptI[OF _ compute_volume_frame[OF r]] show "polytope_kept P w P1 w1"
      by simp
  qed
  have c2: "in_store P w \<and>
    generate_samples M P sampling_method number_of_points number_of_points_to_burn walk_len
      fast_mode w = (res2, P2, w2) \<longrightarrow>
      polytope_kept P w P2 w2 \<and> (\<forall>samples. res2 = Inr samples \<longrightarrow> fresh w (data2 samples))"
  proof (intro impI conjI allI)
    assume a: "in_store P w \<and>
      generate_samples M P sampling_method number_of_points number_of_points_to_burn walk_len
        fast_mode w = (res2, P2, w2)"
    then have r: "generate_samples M P sampling_method number_of_points number_of_points_to_burn
        walk_len fast_mode w = (res2, P2, w2)"
      by simp
    from a polytope_keptI[OF _ generate_samples_frame(1-3)[OF r]] show "polytope_kept P w P2 w2"
      by simp
    fix samples
    assume "res2 = Inr samples"
    then show "fresh w (data2 samples)"
      by (rule generate_samples_frame(4)[OF r])
  qed
  have c3: "in_store P w \<and> rounding M P rounding_method fast_mode w = (res3, P3, w3) \<longrightarrow>
      polytope_kept P w P3 w3 \<and>
      (\<forall>new_A new_b T_matrix shift round_value.
         res3 = Inr (new_A, new_b, T_matrix, shift, round_value) \<longrightarrow>
           fresh w (data2 new_A) \<and> fresh w (data1 new_b) \<and> fresh w (data2 T_matrix) \<and>
           fresh w (data1 shift))"
  proof (intro impI conjI allI)
    assume a: "in_store P w \<and> rounding M P rounding_method fast_mode w = (res3, P3, w3)"
    then have r: "rounding M P rounding_method fast_mode w = (res3, P3, w3)"
      by simp
    from a polytope_keptI[OF _ rounding_frame(1-3)[OF r]] show "polytope_kept P w P3 w3"
      by simp
    fix new_A new_b T_matrix shift round_value
    assume "res3 = Inr (new_A, new_b, T_matrix, shift, round_value)"
    with a rounding_frame(4)[of M P rounding_method fast_mode w res3 P3 w3]
    have "new_A = out_A P w" "new_b = out_b P w" "T_matrix = out_T P w" "shift = out_shift P w"
      by auto
    with outs show "fresh w (data2 new_A)" "fresh w (data1 new_b)" "fresh w (data2 T_matrix)"
      "fresh w (data1 shift)" by simp_all
  qed
  have c4: "in_store P w \<and>
    fast_mmcs fuel M P ess psrf_check parallelism num_threads w = Some (res4, P4, w4) \<longrightarrow>
      polytope_kept P w P4 w4 \<and>
      (\<forall>new_A new_b T_matrix T_shift samples.
         res4 = Inr (new_A, new_b, T_matrix, T_shift, samples) \<longrightarrow>
           fresh w (data2 new_A) \<and> fresh w (data1 new_b) \<and> fresh w (data2 T_matrix) \<and>
           fresh w (data1 T_shift) \<and> fresh w (data2 samples))"
  proof (intro impI conjI allI)
    assume a: "in_store P w \<and>
      fast_mmcs fuel M P ess psrf_check parallelism num_threads w = Some (res4, P4, w4)"
    then have r: "fast_mmcs fuel M P ess psrf_check parallelism num_threads w = Some (res4, P4, w4)"
      by simp
    from a polytope_keptI[OF _ fast_mmcs_frame(1-3)[OF r]] show "polytope_kept P w P4 w4"
      by simp
    fix new_A new_b T_matrix T_shift samples
    assume "res4 = Inr (new_A, new_b, T_matrix, T_shift, samples)"
    with a fast_mmcs_frame(4)[of fuel M P ess psrf_check parallelism num_threads w res4 P4 w4]
    have "new_A = out_A P w" "new_b = out_b P w" "T_matrix = out_T P w" "T_shift = out_shift P w"
      "fresh w (data2 samples)"
      by auto
    with outs show "fresh w (data2 new_A)" "fresh w (data1 new_b)" "fresh w (data2 T_matrix)"
      "fresh w (data1 T_shift)" "fresh w (data2 samples)" by simp_all
  qed
  have c5: "in_store P w \<and>
    slow_mmcs fuel M P ess psrf_check parallelism num_threads w = Some (res5, P5, w5) \<longrightarrow>
      polytope_kept P w P5 w5 \<and>
      (\<forall>new_A new_b T_matrix T_shift samples.
         res5 = Inr (new_A, new_b, T_matrix, T_shift, samples) \<longrightarrow>
           fresh w (data2 new_A) \<and> fresh w (data1 new_b) \<and> fresh w (data2 T_matrix) \<and>
           fresh w (data1 T_shift) \<and> fresh w (data2 samples))"
  proof (intro impI conjI allI)
    assume a: "in_store P w \<and>
      slow_mmcs fuel M P ess psrf_check parallelism num_threads w = Some (res5, P5, w5)"
    then have r: "slow_mmcs fuel M P ess psrf_check parallelism num_threads w = Some (res5, P5, w5)"
      by simp
    from a polytope_keptI[OF _ slow_mmcs_frame(1-3)[OF r]] show "polytope_kept P w P5 w5"
      by simp
    fix new_A new_b T_matrix T_shift samples
    assume "res5 = Inr (new_A, new_b, T_matrix, T_shift, samples)"
    with a slow_mmcs_frame(4)[of fuel M P ess psrf_check parallelism num_threads w res5 P5 w5]
    have "new_A = out_A P w" "new_b = out_b P w" "T_matrix = out_T P w" "T_shift = out_shift P w"
      "fresh w (data2 samples)"
      by auto
    with outs show "fresh w (data2 new_A)" "fresh w (data1 new_b)" "fresh w (data2 T_matrix)"
      "fresh w (data1 T_shift)" "fresh w (data2 samples)" by simp_all
  qed
  from c0 c1 c2 c3 c4 c5 show ?thesis by (intro conjI)
qed

text \<open>
  On the small instance: after the run of \<open>slow_mmcs\<close> the interval is still
  \<open>[-1, 1]\<close>, and the five arrays of the result are at the new addresses 3 to 7.
\<close>

theorem stored_polytope_never_mutated_witness:
  "in_store demo_P demo_world \<and>
   HPolytope_A demo_P demo_world = (2, 1, [1, - 1]) \<and>
   HPolytope_b demo_P demo_world = (2, [1, 1]) \<and>
   HPolytope_dimension demo_P = 1 \<and>
   polytope_kept demo_P demo_world (demo_P\<lparr>polytope_cpp := 3\<rparr>)
     \<lparr>heap = [[1, - 1], [1, 1], [1, 1, 1], [1, - 1], [4, 4], [1], [0], [1 / 4, 3 / 4]],
      trace =
        [Call_mmcs_initialize 1 1000 1 0 2,
         Call_inner_ball Slow (2, 1, [1, - 1]) (2, [1, 1]) [0] 1,
         Call_mmcs_step [0] 1 3 2,
         Call_get_polytope_as_matrices (2, 1, [1, - 1]) (2, [2, 2]),
         Call_inner_ball Slow (2, 1, [1, - 1]) (2, [2, 2]) [0] 2,
         Call_mmcs_step [0] 2 (1 / 2) 2,
         Call_get_polytope_as_matrices (2, 1, [1, - 1]) (2, [3, 3]),
         Call_inner_ball Slow (2, 1, [1, - 1]) (2, [3, 3]) [0] 3,
         Call_mmcs_step [0] 3 (3 / 2) 2,
         Call_get_mmcs_samples,
         Call_get_polytope_as_matrices (2, 1, [1, - 1]) (2, [4, 4])],
      wall_clock = 1000.5\<rparr> \<and>
   fresh demo_world 3 \<and> fresh demo_world 4 \<and> fresh demo_world 5 \<and> fresh demo_world 6 \<and>
   fresh demo_world 7"
proof -
  have ins: "in_store demo_P demo_world"
    by (simp add: in_store_def demo_defs)
  have vals: "HPolytope_A demo_P demo_world = (2, 1, [1, - 1])"
    "HPolytope_b demo_P demo_world = (2, [1, 1])" "HPolytope_dimension demo_P = 1"
    by (simp_all add: HPolytope_A_def HPolytope_b_def HPolytope_dimension_def read2_def
        read1_def demo_defs)
  from stored_polytope_never_mutated[THEN conjunct2, THEN conjunct2, THEN conjunct2,
      THEN conjunct2, THEN conjunct2, rule_format, OF conjI[OF ins demo_slow_run]]
  show ?thesis
    using ins vals by simp
qed

subsection \<open>fast_mmcs and slow_mmcs\<close>

lemma same_but_supplier_refl: "same_but_supplier w w"
  by (simp add: same_but_supplier_def)

lemma same_but_supplier_log_call:
  assumes "same_but_supplier w1 w2" and "with_supplier Slow e1 = with_supplier Slow e2"
  shows "same_but_supplier (log_call e1 w1) (log_call e2 w2)"
  using assms by (simp add: same_but_supplier_def log_call_def)

lemma same_but_supplier_poke:
  assumes "same_but_supplier w1 w2"
  shows "same_but_supplier (poke a out w1) (poke a out w2)"
  using assms by (simp add: same_but_supplier_def poke_def)

lemma same_but_supplier_read:
  assumes "same_but_supplier w1 w2"
  shows "read2 w1 A = read2 w2 A" and "read1 w1 b = read1 w2 b"
  using assms by (simp_all add: same_but_supplier_def read2_def read1_def)

lemma same_but_supplier_fetch:
  assumes R: "same_but_supplier w1 w2" and cpp: "cpp M' = cpp M"
  shows "\<exists>c' w1' w2'. fetch_polytope M A b c w1 = (c', w1') \<and>
           fetch_polytope M' A b c w2 = (c', w2') \<and> same_but_supplier w1' w2'"
proof -
  obtain A_out b_out c1 where g: "cpp_get_polytope_as_matrices (cpp M) c = ((A_out, b_out), c1)"
    by (metis prod.collapse)
  let ?v1 = "poke (data1 b) b_out (poke (data2 A) A_out w1)"
  let ?v2 = "poke (data1 b) b_out (poke (data2 A) A_out w2)"
  have Rv: "same_but_supplier ?v1 ?v2"
    by (intro same_but_supplier_poke R)
  have f1: "fetch_polytope M A b c w1 =
      (c1, log_call (Call_get_polytope_as_matrices (read2 ?v1 A) (read1 ?v1 b)) ?v1)"
    by (simp add: fetch_polytope_def g Let_def)
  have f2: "fetch_polytope M' A b c w2 =
      (c1, log_call (Call_get_polytope_as_matrices (read2 ?v2 A) (read1 ?v2 b)) ?v2)"
    by (simp add: fetch_polytope_def g cpp Let_def)
  have "same_but_supplier
      (log_call (Call_get_polytope_as_matrices (read2 ?v1 A) (read1 ?v1 b)) ?v1)
      (log_call (Call_get_polytope_as_matrices (read2 ?v2 A) (read1 ?v2 b)) ?v2)"
    using Rv by (simp add: same_but_supplier_log_call same_but_supplier_read[OF Rv])
  with f1 f2 show ?thesis by blast
qed

lemma same_run_loops:
  assumes f: "fast_inner_ball M = Some f" and cpp: "cpp M' = cpp M"
    and slow: "slow_inner_ball M' = f"
  shows "same_but_supplier w1 w2 \<Longrightarrow>
         same_run (fast_mmcs_loop fuel M A b p r c w1) (slow_mmcs_loop fuel M' A b p r c w2)"
proof (induction fuel arbitrary: p r c w1 w2)
  case 0
  show ?case by (simp add: fast_mmcs_loop.simps slow_mmcs_loop.simps)
next
  case (Suc fuel)
  obtain s n c1 where step: "cpp_mmcs_step (cpp M) c p r = (s, n, c1)"
    using prod_cases3 by blast
  then have step': "cpp_mmcs_step (cpp M') c p r = (s, n, c1)"
    by (simp add: cpp)
  let ?v1 = "log_call (Call_mmcs_step p r s n) w1"
  let ?v2 = "log_call (Call_mmcs_step p r s n) w2"
  have Rv: "same_but_supplier ?v1 ?v2"
    using Suc.prems by (simp add: same_but_supplier_log_call)
  show ?case
  proof (cases "1 < s \<and> s < 2")
    case True
    then show ?thesis
      using Rv by (simp add: fast_loop_converged[OF step] slow_loop_converged[OF step'])
  next
    case False
    from same_but_supplier_fetch[OF Rv cpp] obtain c2 u1 u2 where
      f1: "fetch_polytope M A b c1 ?v1 = (c2, u1)" and
      f2: "fetch_polytope M' A b c1 ?v2 = (c2, u2)" and Ru: "same_but_supplier u1 u2"
      by blast
    obtain p' r' where pr: "f (read2 u1 A) (read1 u1 b) = (p', r')"
      by (cases "f (read2 u1 A) (read1 u1 b)")
    let ?x1 = "log_call (Call_inner_ball Fast (read2 u1 A) (read1 u1 b) p' r') u1"
    let ?x2 = "log_call (Call_inner_ball Slow (read2 u2 A) (read1 u2 b) p' r') u2"
    have b1: "call_fast_inner_ball M A b u1 = Inr ((p', r'), ?x1)"
      by (simp add: call_fast_inner_ball_Some[OF f] pr)
    have b2: "call_slow_inner_ball M' A b u2 = ((p', r'), ?x2)"
      using pr by (simp add: call_slow_inner_ball_def slow same_but_supplier_read[OF Ru, symmetric])
    have Rx: "same_but_supplier ?x1 ?x2"
      using Ru by (simp add: same_but_supplier_log_call same_but_supplier_read[OF Ru])
    have l1: "fast_mmcs_loop (Suc fuel) M A b p r c w1 = fast_mmcs_loop fuel M A b p' r' c2 ?x1"
      by (simp add: fast_loop_continue[OF step False] f1 b1)
    have l2: "slow_mmcs_loop (Suc fuel) M' A b p r c w2 = slow_mmcs_loop fuel M' A b p' r' c2 ?x2"
      by (simp add: slow_loop_continue[OF step' False] f2 b2)
    show ?thesis
      unfolding l1 l2 by (rule Suc.IH[OF Rx])
  qed
qed

lemma same_run_finish:
  assumes R: "same_but_supplier w1 w2" and cpp: "cpp M' = cpp M"
  shows "same_run (Some (mmcs_finish M P new_A new_b T_matrix T_shift (x, c, w1)))
                  (Some (mmcs_finish M' P new_A new_b T_matrix T_shift (x, c, w2)))"
proof (cases x)
  case (Inl e)
  then show ?thesis using R by (simp add: mmcs_finish_def)
next
  case (Inr N)
  show ?thesis
  proof (cases "int (shape1 (self_A P)) < 0 \<or> N < 0")
    case True
    then show ?thesis using R Inr by (simp add: mmcs_finish_def np_zeros_2d_int_def)
  next
    case False
    let ?samples = "\<lambda>w. fst (np_zeros_2d (shape1 (self_A P)) (nat N) w)"
    let ?z = "\<lambda>w. snd (np_zeros_2d (shape1 (self_A P)) (nat N) w)"
    have s: "?samples w1 = ?samples w2"
      using R by (simp add: np_zeros_2d_def same_but_supplier_def)
    have Rz: "same_but_supplier (?z w1) (?z w2)"
      using R by (simp add: np_zeros_2d_def same_but_supplier_def)
    obtain T_out shift_out samples_out c2 where
      g: "cpp_get_mmcs_samples (cpp M) c = ((T_out, shift_out, samples_out), c2)"
      by (metis prod.collapse)
    let ?y = "\<lambda>w. log_call Call_get_mmcs_samples
                 (poke (data2 (?samples w2)) samples_out
                    (poke (data1 T_shift) shift_out (poke (data2 T_matrix) T_out (?z w))))"
    have Ry: "same_but_supplier (?y w1) (?y w2)"
      by (intro same_but_supplier_log_call same_but_supplier_poke Rz) simp
    from same_but_supplier_fetch[OF Ry cpp] obtain c3 u1 u2 where
      f1: "fetch_polytope M new_A new_b c2 (?y w1) = (c3, u1)" and
      f2: "fetch_polytope M' new_A new_b c2 (?y w2) = (c3, u2)" and Ru: "same_but_supplier u1 u2"
      by blast
    have m1: "mmcs_finish M P new_A new_b T_matrix T_shift (x, c, w1) =
        (Inr (new_A, new_b, T_matrix, T_shift, ?samples w2), P\<lparr>polytope_cpp := c3\<rparr>, u1)"
      using False f1 by (simp add: mmcs_finish_def Inr np_zeros_2d_int_def g s split_beta)
    have m2: "mmcs_finish M' P new_A new_b T_matrix T_shift (x, c, w2) =
        (Inr (new_A, new_b, T_matrix, T_shift, ?samples w2), P\<lparr>polytope_cpp := c3\<rparr>, u2)"
      using False f2 by (simp add: mmcs_finish_def Inr np_zeros_2d_int_def g cpp split_beta)
    show ?thesis
      unfolding m1 m2 using Ru by simp
  qed
qed

lemma same_run_map_finish:
  assumes "same_run l1 l2" and cpp: "cpp M' = cpp M"
  shows "same_run (map_option (mmcs_finish M P new_A new_b T_matrix T_shift) l1)
                  (map_option (mmcs_finish M' P new_A new_b T_matrix T_shift) l2)"
proof (cases l1)
  case None
  with assms(1) show ?thesis by (cases l2) simp_all
next
  case (Some t1)
  with assms(1) obtain t2 where l2: "l2 = Some t2" by (cases l2) simp_all
  obtain x c w1 where t1: "t1 = (x, c, w1)" using prod_cases3 by blast
  obtain x' c' w2 where t2: "t2 = (x', c', w2)" using prod_cases3 by blast
  from assms(1) have "x' = x" "c' = c" "same_but_supplier w1 w2"
    by (simp_all add: Some l2 t1 t2)
  with same_run_finish[OF _ cpp] show ?thesis
    by (simp add: Some l2 t1 t2)
qed

lemma same_run_mmcs:
  assumes f: "fast_inner_ball M = Some f" and cpp: "cpp M' = cpp M"
    and slow: "slow_inner_ball M' = f"
  shows "same_run (fast_mmcs fuel M P ess psrf_check parallelism num_threads w)
                  (slow_mmcs fuel M' P ess psrf_check parallelism num_threads w)"
proof -
  let ?w5 = "mmcs_initialized P ess psrf_check parallelism num_threads w"
  obtain p0 r0 where pr0: "f (read2 ?w5 (self_A P)) (read1 ?w5 (self_b P)) = (p0, r0)"
    by (cases "f (read2 ?w5 (self_A P)) (read1 ?w5 (self_b P))")
  let ?x1 = "log_call (Call_inner_ball Fast (read2 ?w5 (self_A P)) (read1 ?w5 (self_b P)) p0 r0) ?w5"
  let ?x2 = "log_call (Call_inner_ball Slow (read2 ?w5 (self_A P)) (read1 ?w5 (self_b P)) p0 r0) ?w5"
  have b1: "call_fast_inner_ball M (self_A P) (self_b P) ?w5 = Inr ((p0, r0), ?x1)"
    by (simp add: call_fast_inner_ball_Some[OF f] pr0)
  have b2: "call_slow_inner_ball M' (self_A P) (self_b P) ?w5 = ((p0, r0), ?x2)"
    using pr0 by (simp add: call_slow_inner_ball_def slow)
  have Rx: "same_but_supplier ?x1 ?x2"
    by (simp add: same_but_supplier_log_call same_but_supplier_refl)
  have c: "mmcs_init_cpp M' P ess psrf_check parallelism num_threads =
           mmcs_init_cpp M P ess psrf_check parallelism num_threads"
    by (simp add: mmcs_init_cpp_def cpp)
  show ?thesis
  proof (cases "mmcs_ints_convert ess num_threads")
    case False
    then show ?thesis
      by (simp add: fast_mmcs_overflow slow_mmcs_overflow same_but_supplier_refl)
  next
    case True
    show ?thesis
      unfolding fast_mmcs_staged[OF True] slow_mmcs_staged[OF True]
      by (simp add: b1 b2 c same_run_map_finish[OF same_run_loops[OF f cpp slow Rx] cpp])
  qed
qed


lemma phase_trace_suppliers:
  "phase_trace k f tail start evs \<Longrightarrow> suppliers tail = [] \<Longrightarrow> set (suppliers evs) \<subseteq> {k}"
  by (induction rule: phase_trace.induct) simp_all

lemma mmcs_run_suppliers:
  assumes "mmcs_run_trace k f (Call_mmcs_initialize d e ps pa nt) (mmcs_tail res P w w') evs"
  shows "set (suppliers evs) = {k}"
  using assms
proof (cases rule: mmcs_run_trace.cases)
  case (run A0 b0 p0 r0 rest)
  have "suppliers (mmcs_tail res P w w') = []"
    by (simp add: mmcs_tail_def)
  from phase_trace_suppliers[OF run(3) this] run(1) show ?thesis by auto
qed

text \<open>
  Claim C8. \<open>fast_mmcs\<close> and \<open>slow_mmcs\<close> are the same operation up to the inner-ball
  function they call. When \<open>slow_mmcs\<close> is given, as its \<open>slow_inner_ball\<close>, the
  function that \<open>fast_mmcs\<close> calls as \<open>fast_inner_ball\<close>, the two runs on the same
  object, arguments and world agree: both return or neither does, with the same
  result (the same five arrays, or the same exception), the same state of the C++
  object, the same store, and the same calls in the same order, up to the name of the
  inner-ball function in the inner-ball calls. A run of \<open>fast_mmcs\<close> calls
  \<open>fast_inner_ball\<close> only, a run of \<open>slow_mmcs\<close> \<open>slow_inner_ball\<close> only; a run
  with an \<open>ess\<close> or a \<open>num_threads\<close> outside 32 bits ends in \<open>OverflowError\<close> before
  it calls either. (Where \<open>fast_inner_ball\<close> does not exist, \<open>fast_mmcs\<close> ends in a
  NameError.)
\<close>

theorem fast_slow_mmcs_equivalent:
  assumes f: "fast_inner_ball M = Some f"
  shows "same_run (fast_mmcs fuel M P ess psrf_check parallelism num_threads w)
           (slow_mmcs fuel (M\<lparr>slow_inner_ball := f\<rparr>) P ess psrf_check parallelism num_threads w) \<and>
         (fast_mmcs fuel M P ess psrf_check parallelism num_threads w = Some (res, P', w') \<longrightarrow>
            set (suppliers (calls_since w w')) =
              (if mmcs_ints_convert ess num_threads then {Fast} else {})) \<and>
         (slow_mmcs fuel M P ess psrf_check parallelism num_threads w = Some (res, P', w') \<longrightarrow>
            set (suppliers (calls_since w w')) =
              (if mmcs_ints_convert ess num_threads then {Slow} else {}))"
proof (intro conjI impI)
  show "same_run (fast_mmcs fuel M P ess psrf_check parallelism num_threads w)
           (slow_mmcs fuel (M\<lparr>slow_inner_ball := f\<rparr>) P ess psrf_check parallelism num_threads w)"
    by (rule same_run_mmcs[OF f]) simp_all
next
  assume run: "fast_mmcs fuel M P ess psrf_check parallelism num_threads w = Some (res, P', w')"
  show "set (suppliers (calls_since w w')) =
          (if mmcs_ints_convert ess num_threads then {Fast} else {})"
  proof (cases "mmcs_ints_convert ess num_threads")
    case True
    from mmcs_run_suppliers[OF fast_mmcs_run(5)[OF True f run]] True
    show ?thesis by simp
  next
    case False
    with run show ?thesis
      by (auto simp: fast_mmcs_overflow calls_since_def trace_outputs_allocated)
  qed
next
  assume run: "slow_mmcs fuel M P ess psrf_check parallelism num_threads w = Some (res, P', w')"
  show "set (suppliers (calls_since w w')) =
          (if mmcs_ints_convert ess num_threads then {Slow} else {})"
  proof (cases "mmcs_ints_convert ess num_threads")
    case True
    from mmcs_run_suppliers[OF slow_mmcs_run(5)[OF True run]] True
    show ?thesis by simp
  next
    case False
    with run show ?thesis
      by (auto simp: slow_mmcs_overflow calls_since_def trace_outputs_allocated)
  qed
qed

text \<open>
  On the small instance, where both inner-ball functions are the same function: the
  two runs of three phases agree, one with three calls of the fast, the other with
  three calls of the slow function.
\<close>

theorem fast_slow_mmcs_equivalent_witness:
  "same_run (fast_mmcs (Suc (Suc (Suc 0))) demo_module demo_P 1000 True False 2 demo_world)
     (slow_mmcs (Suc (Suc (Suc 0))) demo_module demo_P 1000 True False 2 demo_world) \<and>
   fast_mmcs (Suc (Suc (Suc 0))) demo_module demo_P 1000 True False 2 demo_world \<noteq> None \<and>
   suppliers (calls_since demo_world
     (snd (snd (the (fast_mmcs (Suc (Suc (Suc 0))) demo_module demo_P 1000 True False 2
                       demo_world))))) = [Fast, Fast, Fast] \<and>
   suppliers (calls_since demo_world
     (snd (snd (the (slow_mmcs (Suc (Suc (Suc 0))) demo_module demo_P 1000 True False 2
                       demo_world))))) = [Slow, Slow, Slow]"
proof -
  have f: "fast_inner_ball demo_module = Some demo_ball"
    by (simp add: demo_defs)
  have M: "demo_module\<lparr>slow_inner_ball := demo_ball\<rparr> = demo_module"
    by (simp add: demo_module_def)
  from fast_slow_mmcs_equivalent[OF f, THEN conjunct1, unfolded M]
  have "same_run (fast_mmcs (Suc (Suc (Suc 0))) demo_module demo_P 1000 True False 2 demo_world)
     (slow_mmcs (Suc (Suc (Suc 0))) demo_module demo_P 1000 True False 2 demo_world)" .
  then show ?thesis
    unfolding demo_fast_run demo_slow_run
    by (simp add: calls_since_def demo_world_def)
qed

end
